theory Spec2Isabelle
  imports Complex_Main
begin

section \<open>Values, tensors and errors\<close>

text \<open>
  The module \<^verbatim>\<open>mmf/models/uniter.py\<close> works on torch tensors held in a batch
  (a mapping from field names to values). A tensor is modelled by its logical
  content: the shape and the elements in row-major order. Devices, strides and
  autograd are not part of the model, so \<^verbatim>\<open>.to(device)\<close>, \<^verbatim>\<open>.contiguous()\<close> and
  \<^verbatim>\<open>.data\<close> are the identity. Floating point elements are modelled by real
  numbers.
\<close>

datatype 'a tensor = Tensor (shape: "nat list") (elems: "'a list")

text \<open>
  Python is dynamically typed: a batch field, an argument or a result of a
  collaborator is one of the following values.
\<close>

datatype val =
    NoneV
  | IntV int
  | Str string
  | FloatT "real tensor"
  | LongT "int tensor"
  | BoolT "bool tensor"
  | Dict "(string \<times> val) list"
  | TupleV "val list"

type_synonym batch = "string \<rightharpoonup> val"

text \<open>
  Every exception the module can raise is a value. \<open>CollaboratorError\<close> stands
  for any exception raised inside a component that the module only calls
  (text embeddings, linear layers, the encoder stack, heads, loss units).
\<close>

datatype error =
    AssertionError string
  | ValueError string
  | KeyError string
  | AttributeError
  | TypeError
  | IndexError
  | RuntimeError
  | CollaboratorError

definition ebind :: "error + 'a \<Rightarrow> ('a \<Rightarrow> error + 'b) \<Rightarrow> error + 'b" where
  "ebind x f = (case x of Inl e \<Rightarrow> Inl e | Inr v \<Rightarrow> f v)"

subsection \<open>Shapes\<close>

definition numel :: "nat list \<Rightarrow> nat" where
  "numel s = prod_list s"

text \<open>\<open>chunks k n xs\<close>: the first \<open>k\<close> consecutive blocks of \<open>n\<close> elements of \<open>xs\<close>.\<close>

definition chunks :: "nat \<Rightarrow> nat \<Rightarrow> 'a list \<Rightarrow> 'a list list" where
  "chunks k n xs = map (\<lambda>i. take n (drop (i * n) xs)) [0..<k]"

text \<open>The blocks of a tensor along dimension 0: one per example of a batch.\<close>

definition rows_of :: "'a tensor \<Rightarrow> 'a list list" where
  "rows_of x = (case shape x of
      [] \<Rightarrow> []
    | d # ds \<Rightarrow> chunks d (numel ds) (elems x))"

definition shape_of :: "val \<Rightarrow> nat list option" where
  "shape_of v = (case v of
      FloatT t \<Rightarrow> Some (shape t)
    | LongT t \<Rightarrow> Some (shape t)
    | BoolT t \<Rightarrow> Some (shape t)
    | _ \<Rightarrow> None)"

text \<open>\<^verbatim>\<open>x.size(k)\<close> for \<open>k \<ge> 0\<close>; a value that is no tensor has no such attribute.\<close>

definition size_at :: "val \<Rightarrow> nat \<Rightarrow> error + nat" where
  "size_at v k = (case shape_of v of
      None \<Rightarrow> Inl AttributeError
    | Some s \<Rightarrow> if k < length s then Inr (s ! k) else Inl IndexError)"

text \<open>
  \<^verbatim>\<open>x.expand(target)\<close>: the source shape is first padded with leading 1s to the
  length of the target; a dimension is kept when the sizes agree and repeated
  when the source size is 1.
\<close>

definition pad_shape :: "nat list \<Rightarrow> nat list \<Rightarrow> nat list" where
  "pad_shape s t = replicate (length t - length s) 1 @ s"

definition expandable :: "nat list \<Rightarrow> nat list \<Rightarrow> bool" where
  "expandable s t \<longleftrightarrow>
     length s \<le> length t \<and> list_all2 (\<lambda>d e. d = e \<or> d = 1) (pad_shape s t) t"

fun expand :: "nat list \<Rightarrow> nat list \<Rightarrow> 'a list \<Rightarrow> 'a list" where
  "expand (d # ds) (t # ts) xs =
     (if d = t then concat (map (expand ds ts) (chunks d (numel ds) xs))
      else concat (replicate t (expand ds ts xs)))"
| "expand _ _ xs = xs"

definition expand_to :: "'a tensor \<Rightarrow> nat list \<Rightarrow> error + 'a tensor" where
  "expand_to x t =
     (if expandable (shape x) t
      then Inr (Tensor t (expand (pad_shape (shape x) t) t (elems x)))
      else Inl RuntimeError)"

text \<open>\<^verbatim>\<open>x.expand_as(other)\<close>.\<close>

definition expand_as :: "'a tensor \<Rightarrow> val \<Rightarrow> error + 'a tensor" where
  "expand_as x other = (case shape_of other of
      None \<Rightarrow> Inl TypeError
    | Some t \<Rightarrow> expand_to x t)"

text \<open>\<^verbatim>\<open>x.unsqueeze(-1)\<close>: a new last dimension of size 1.\<close>

definition unsqueeze_last :: "'a tensor \<Rightarrow> 'a tensor" where
  "unsqueeze_last x = Tensor (shape x @ [1]) (elems x)"

text \<open>
  \<^verbatim>\<open>x.masked_fill(mask, c)\<close> is out of place: it returns a new tensor of the shape
  of \<open>x\<close>, with \<open>c\<close> where the mask (broadcast to the shape of \<open>x\<close>) is true.
\<close>

definition fill_where :: "'a \<Rightarrow> 'a list \<Rightarrow> bool list \<Rightarrow> 'a list" where
  "fill_where c xs ms = map (\<lambda>(x, m). if m then c else x) (zip xs ms)"

definition masked_fill0 :: "val \<Rightarrow> bool tensor \<Rightarrow> error + val" where
  "masked_fill0 v m = (case v of
      FloatT x \<Rightarrow>
        ebind (expand_to m (shape x)) (\<lambda>me. Inr (FloatT (Tensor (shape x) (fill_where 0 (elems x) (elems me)))))
    | LongT x \<Rightarrow>
        ebind (expand_to m (shape x)) (\<lambda>me. Inr (LongT (Tensor (shape x) (fill_where 0 (elems x) (elems me)))))
    | BoolT x \<Rightarrow>
        ebind (expand_to m (shape x)) (\<lambda>me. Inr (BoolT (Tensor (shape x) (fill_where False (elems x) (elems me)))))
    | _ \<Rightarrow> Inl AttributeError)"

text \<open>\<^verbatim>\<open>torch.clone(x)\<close> copies a tensor; any other argument is a type error.\<close>

definition torch_clone :: "val \<Rightarrow> error + val" where
  "torch_clone v = (case shape_of v of None \<Rightarrow> Inl TypeError | Some _ \<Rightarrow> Inr v)"

subsection \<open>Element types\<close>

definition tmap :: "('a \<Rightarrow> 'b) \<Rightarrow> 'a tensor \<Rightarrow> 'b tensor" where
  "tmap f x = Tensor (shape x) (map f (elems x))"

definition bool_to_int :: "bool \<Rightarrow> int" where
  "bool_to_int b = (if b then 1 else 0)"

definition bool_to_real :: "bool \<Rightarrow> real" where
  "bool_to_real b = (if b then 1 else 0)"

text \<open>A float is cast to an integer by rounding toward zero.\<close>

definition trunc :: "real \<Rightarrow> int" where
  "trunc r = (if 0 \<le> r then \<lfloor>r\<rfloor> else \<lceil>r\<rceil>)"

text \<open>\<^verbatim>\<open>x.to(dtype=<float type>)\<close>, \<^verbatim>\<open>x.long()\<close> and \<^verbatim>\<open>x.ne(0)\<close>.\<close>

definition to_float :: "val \<Rightarrow> error + real tensor" where
  "to_float v = (case v of
      FloatT x \<Rightarrow> Inr x
    | LongT x \<Rightarrow> Inr (tmap real_of_int x)
    | BoolT x \<Rightarrow> Inr (tmap bool_to_real x)
    | _ \<Rightarrow> Inl AttributeError)"

definition to_long :: "val \<Rightarrow> error + int tensor" where
  "to_long v = (case v of
      FloatT x \<Rightarrow> Inr (tmap trunc x)
    | LongT x \<Rightarrow> Inr x
    | BoolT x \<Rightarrow> Inr (tmap bool_to_int x)
    | _ \<Rightarrow> Inl AttributeError)"

definition ne0 :: "val \<Rightarrow> error + bool tensor" where
  "ne0 v = (case v of
      FloatT x \<Rightarrow> Inr (tmap (\<lambda>a. a \<noteq> 0) x)
    | LongT x \<Rightarrow> Inr (tmap (\<lambda>a. a \<noteq> 0) x)
    | BoolT x \<Rightarrow> Inr x
    | _ \<Rightarrow> Inl AttributeError)"

text \<open>
  The type promotion of torch orders the element types bool, long, float; a
  binary operation works at the larger type of its two operands.
\<close>

definition dtype_rank :: "val \<Rightarrow> nat option" where
  "dtype_rank v = (case v of
      BoolT _ \<Rightarrow> Some 0
    | LongT _ \<Rightarrow> Some 1
    | FloatT _ \<Rightarrow> Some 2
    | _ \<Rightarrow> None)"

subsection \<open>Broadcasting and addition\<close>

fun bshape_rev :: "nat list \<Rightarrow> nat list \<Rightarrow> nat list option" where
  "bshape_rev [] ys = Some ys"
| "bshape_rev xs [] = Some xs"
| "bshape_rev (x # xs) (y # ys) =
     (if x = y \<or> y = 1 then map_option ((#) x) (bshape_rev xs ys)
      else if x = 1 then map_option ((#) y) (bshape_rev xs ys)
      else None)"

definition broadcast_shape :: "nat list \<Rightarrow> nat list \<Rightarrow> nat list option" where
  "broadcast_shape s t = map_option rev (bshape_rev (rev s) (rev t))"

definition broadcast2 :: "('a \<Rightarrow> 'a \<Rightarrow> 'a) \<Rightarrow> 'a tensor \<Rightarrow> 'a tensor \<Rightarrow> error + 'a tensor" where
  "broadcast2 f a b = (case broadcast_shape (shape a) (shape b) of
      None \<Rightarrow> Inl RuntimeError
    | Some s \<Rightarrow>
        Inr (Tensor s (map2 f (expand (pad_shape (shape a) s) s (elems a))
                              (expand (pad_shape (shape b) s) s (elems b)))))"

text \<open>
  Python's \<^verbatim>\<open>a + b\<close>. On two tensors it is the element-wise sum after
  broadcasting (on two bool tensors, the disjunction); a Python integer is
  added to every element; strings and tuples are concatenated.
\<close>

definition tensor_add :: "val \<Rightarrow> val \<Rightarrow> error + val" where
  "tensor_add a b =
     (if dtype_rank a = Some 2 \<or> dtype_rank b = Some 2 then
        ebind (to_float a) (\<lambda>x. ebind (to_float b) (\<lambda>y.
          map_sum id FloatT (broadcast2 (+) x y)))
      else if dtype_rank a = Some 1 \<or> dtype_rank b = Some 1 then
        ebind (to_long a) (\<lambda>x. ebind (to_long b) (\<lambda>y.
          map_sum id LongT (broadcast2 (+) x y)))
      else (case (a, b) of
              (BoolT x, BoolT y) \<Rightarrow> map_sum id BoolT (broadcast2 (\<or>) x y)
            | _ \<Rightarrow> Inl TypeError))"

definition py_add :: "val \<Rightarrow> val \<Rightarrow> error + val" where
  "py_add a b =
     (if dtype_rank a \<noteq> None \<and> dtype_rank b \<noteq> None then tensor_add a b
      else case (a, b) of
          (IntV i, IntV j) \<Rightarrow> Inr (IntV (i + j))
        | (IntV i, FloatT y) \<Rightarrow> Inr (FloatT (tmap (\<lambda>v. real_of_int i + v) y))
        | (IntV i, LongT y) \<Rightarrow> Inr (LongT (tmap (\<lambda>v. i + v) y))
        | (IntV i, BoolT y) \<Rightarrow> Inr (LongT (tmap (\<lambda>v. i + bool_to_int v) y))
        | (FloatT x, IntV j) \<Rightarrow> Inr (FloatT (tmap (\<lambda>v. v + real_of_int j) x))
        | (LongT x, IntV j) \<Rightarrow> Inr (LongT (tmap (\<lambda>v. v + j) x))
        | (BoolT x, IntV j) \<Rightarrow> Inr (LongT (tmap (\<lambda>v. bool_to_int v + j) x))
        | (Str x, Str y) \<Rightarrow> Inr (Str (x @ y))
        | (TupleV x, TupleV y) \<Rightarrow> Inr (TupleV (x @ y))
        | _ \<Rightarrow> Inl TypeError)"

subsection \<open>Indexing, reshaping, concatenation\<close>

text \<open>
  \<^verbatim>\<open>x[mask]\<close> and \<^verbatim>\<open>x[mask, ::]\<close> with a boolean mask: the shape of the mask must
  be the leading part of the shape of \<open>x\<close>, and \<open>x\<close> needs one more dimension
  for every further index (\<open>extra\<close>). The result keeps, in order, the blocks of
  \<open>x\<close> at the true positions.
\<close>

definition select_blocks :: "bool list \<Rightarrow> nat \<Rightarrow> 'a list \<Rightarrow> 'a list" where
  "select_blocks ms n xs =
     concat (map snd (filter fst (zip ms (chunks (length ms) n xs))))"

definition bool_index :: "'a tensor \<Rightarrow> bool tensor \<Rightarrow> nat \<Rightarrow> error + 'a tensor" where
  "bool_index x m extra =
     (let k = length (shape m) in
      if k + extra \<le> length (shape x) \<and> take k (shape x) = shape m
      then Inr (Tensor (length (filter id (elems m)) # drop k (shape x))
                  (select_blocks (elems m) (numel (drop k (shape x))) (elems x)))
      else Inl IndexError)"

text \<open>
  \<^verbatim>\<open>x[idx]\<close> with an integer tensor: every entry of \<open>idx\<close> picks a block of \<open>x\<close>
  along dimension 0, negative entries counting from the end.
\<close>

definition long_index :: "'a tensor \<Rightarrow> int tensor \<Rightarrow> error + 'a tensor" where
  "long_index x idx =
     (case shape x of
        [] \<Rightarrow> Inl IndexError
      | d # ds \<Rightarrow>
          if list_all (\<lambda>i. - int d \<le> i \<and> i < int d) (elems idx)
          then Inr (Tensor (shape idx @ ds)
                 (concat (map (\<lambda>i. take (numel ds)
                    (drop (nat (if i < 0 then i + int d else i) * numel ds) (elems x)))
                    (elems idx))))
          else Inl IndexError)"

definition index_by :: "val \<Rightarrow> val \<Rightarrow> nat \<Rightarrow> error + val" where
  "index_by x m extra = (case m of
      BoolT mk \<Rightarrow> (case x of
          FloatT t \<Rightarrow> map_sum id FloatT (bool_index t mk extra)
        | LongT t \<Rightarrow> map_sum id LongT (bool_index t mk extra)
        | BoolT t \<Rightarrow> map_sum id BoolT (bool_index t mk extra)
        | _ \<Rightarrow> Inl TypeError)
    | LongT idx \<Rightarrow> (case x of
          FloatT t \<Rightarrow> map_sum id FloatT (long_index t idx)
        | LongT t \<Rightarrow> map_sum id LongT (long_index t idx)
        | BoolT t \<Rightarrow> map_sum id BoolT (long_index t idx)
        | _ \<Rightarrow> Inl TypeError)
    | _ \<Rightarrow> Inl IndexError)"

text \<open>
  \<^verbatim>\<open>x.contiguous().view(-1, k)\<close>: two dimensions, the last of size \<open>k\<close>. With
  \<open>k = 0\<close> the first dimension cannot be inferred and torch raises.
\<close>

definition view2 :: "'a tensor \<Rightarrow> nat \<Rightarrow> error + 'a tensor" where
  "view2 x k =
     (if k = 0 \<or> numel (shape x) mod k \<noteq> 0 then Inl RuntimeError
      else Inr (Tensor [numel (shape x) div k, k] (elems x)))"

definition view2_val :: "val \<Rightarrow> nat \<Rightarrow> error + val" where
  "view2_val v k = (case v of
      FloatT t \<Rightarrow> map_sum id FloatT (view2 t k)
    | LongT t \<Rightarrow> map_sum id LongT (view2 t k)
    | BoolT t \<Rightarrow> map_sum id BoolT (view2 t k)
    | _ \<Rightarrow> Inl AttributeError)"

text \<open>
  \<^verbatim>\<open>torch.cat([a, b], dim)\<close>: both tensors have the same number of dimensions
  and the same sizes except at \<open>dim\<close>; the blocks of \<open>a\<close> and \<open>b\<close> alternate. A
  one-dimensional empty tensor is skipped. A negative \<open>dim\<close> counts from the
  end.
\<close>

definition cat_at :: "nat \<Rightarrow> 'a tensor \<Rightarrow> 'a tensor \<Rightarrow> error + 'a tensor" where
  "cat_at d a b =
     (let sa = shape a; sb = shape b in
      if d < length sa \<and> length sa = length sb
         \<and> take d sa = take d sb \<and> drop (Suc d) sa = drop (Suc d) sb
      then Inr (Tensor (take d sa @ [sa ! d + sb ! d] @ drop (Suc d) sa)
             (concat (map2 (@) (chunks (numel (take d sa)) (numel (drop d sa)) (elems a))
                               (chunks (numel (take d sa)) (numel (drop d sb)) (elems b)))))
      else Inl RuntimeError)"

definition resolve_dim :: "int \<Rightarrow> nat \<Rightarrow> error + nat" where
  "resolve_dim d n =
     (if - int n \<le> d \<and> d < int n then Inr (nat (if d < 0 then d + int n else d))
      else Inl IndexError)"

definition torch_cat :: "int \<Rightarrow> 'a tensor \<Rightarrow> 'a tensor \<Rightarrow> error + 'a tensor" where
  "torch_cat axis a b =
     (if shape a = [0] \<and> shape b = [0] then Inr a
      else if shape a = [0] then ebind (resolve_dim axis (length (shape b))) (\<lambda>_. Inr b)
      else if shape b = [0] then ebind (resolve_dim axis (length (shape a))) (\<lambda>_. Inr a)
      else if shape a = [] \<or> shape b = [] then Inl RuntimeError
      else ebind (resolve_dim axis (length (shape a))) (\<lambda>d. cat_at d a b))"

definition py_cat :: "int \<Rightarrow> val \<Rightarrow> val \<Rightarrow> error + val" where
  "py_cat axis a b =
     (if dtype_rank a = None \<or> dtype_rank b = None then Inl TypeError
      else if dtype_rank a = Some 2 \<or> dtype_rank b = Some 2 then
        ebind (to_float a) (\<lambda>x. ebind (to_float b) (\<lambda>y.
          map_sum id FloatT (torch_cat axis x y)))
      else if dtype_rank a = Some 1 \<or> dtype_rank b = Some 1 then
        ebind (to_long a) (\<lambda>x. ebind (to_long b) (\<lambda>y.
          map_sum id LongT (torch_cat axis x y)))
      else (case (a, b) of
              (BoolT x, BoolT y) \<Rightarrow> map_sum id BoolT (torch_cat axis x y)
            | _ \<Rightarrow> Inl TypeError))"

subsection \<open>Printing\<close>

text \<open>
  The decimal form of a number and the printed form of a value, as they appear
  in the messages of the exceptions. The printed form of a tensor, a mapping or
  a tuple is abbreviated.
\<close>

fun show_nat :: "nat \<Rightarrow> string" where
  "show_nat n =
     (if n < 10 then [''0123456789'' ! n]
      else show_nat (n div 10) @ [''0123456789'' ! (n mod 10)])"

declare show_nat.simps [simp del]

definition show_int :: "int \<Rightarrow> string" where
  "show_int i = (if i < 0 then ''-'' @ show_nat (nat (- i)) else show_nat (nat i))"

fun join_comma :: "string list \<Rightarrow> string" where
  "join_comma [] = []"
| "join_comma [x] = x"
| "join_comma (x # y # ys) = x @ '', '' @ join_comma (y # ys)"

definition show_size :: "nat list \<Rightarrow> string" where
  "show_size s = ''torch.Size(['' @ join_comma (map show_nat s) @ ''])''"

definition py_str :: "val \<Rightarrow> string" where
  "py_str v = (case v of
      NoneV \<Rightarrow> ''None''
    | IntV i \<Rightarrow> show_int i
    | Str s \<Rightarrow> s
    | Dict _ \<Rightarrow> ''{...}''
    | TupleV _ \<Rightarrow> ''(...)''
    | _ \<Rightarrow> ''tensor(...)'')"

subsection \<open>Mappings and collaborators\<close>

definition is_mapping :: "val \<Rightarrow> bool" where
  "is_mapping v = (case v of Dict _ \<Rightarrow> True | _ \<Rightarrow> False)"

definition has_key :: "string \<Rightarrow> val \<Rightarrow> bool" where
  "has_key k v = (case v of Dict kvs \<Rightarrow> map_of kvs k \<noteq> None | _ \<Rightarrow> False)"

text \<open>\<^verbatim>\<open>v[k]\<close> with a string key.\<close>

definition subscript :: "val \<Rightarrow> string \<Rightarrow> error + val" where
  "subscript v k = (case v of
      Dict kvs \<Rightarrow> (case map_of kvs k of None \<Rightarrow> Inl (KeyError k) | Some x \<Rightarrow> Inr x)
    | FloatT _ \<Rightarrow> Inl IndexError
    | LongT _ \<Rightarrow> Inl IndexError
    | BoolT _ \<Rightarrow> Inl IndexError
    | _ \<Rightarrow> Inl TypeError)"

text \<open>
  A collaborator (a layer of torch or of the transformers library, a head, a
  loss unit) is a function that may fail; what it computes is not part of this
  module.
\<close>

definition call :: "('a \<Rightarrow> val option) \<Rightarrow> 'a \<Rightarrow> error + val" where
  "call f x = (case f x of None \<Rightarrow> Inl CollaboratorError | Some y \<Rightarrow> Inr y)"

text \<open>
  A layer of torch (\<^verbatim>\<open>nn.Linear\<close>, \<^verbatim>\<open>nn.LayerNorm\<close>, \<^verbatim>\<open>nn.Dropout\<close>) is a
  collaborator that takes a tensor: applied to \<^verbatim>\<open>None\<close> it raises a type error.
\<close>

definition call_layer :: "(val \<Rightarrow> val option) \<Rightarrow> val \<Rightarrow> error + val" where
  "call_layer f x = (if x = NoneV then Inl TypeError else call f x)"

section \<open>UniterImageEmbeddings\<close>

text \<open>
  The layers are collaborators; \<open>mask_embedding\<close> is the weight of
  \<^verbatim>\<open>nn.Embedding(2, img_dim, padding_idx=0)\<close>, a table of two rows, which the
  forward pass itself writes to.
\<close>

record UniterImageEmbeddings =
  img_linear :: "val \<Rightarrow> val option"
  img_layer_norm :: "val \<Rightarrow> val option"
  pos_layer_norm :: "val \<Rightarrow> val option"
  pos_linear :: "val \<Rightarrow> val option"
  mask_embedding :: "real tensor"
  final_layer_norm :: "val \<Rightarrow> val option"
  dropout :: "val \<Rightarrow> val option"

text \<open>\<^verbatim>\<open>weight.data[0, :].fill_(0)\<close>: the first row of the table becomes zero.\<close>

definition fill_row0 :: "real tensor \<Rightarrow> real tensor" where
  "fill_row0 w =
     (let d = numel (tl (shape w))
      in Tensor (shape w) (replicate d 0 @ drop d (elems w)))"

text \<open>
  The lookup of an embedding table: every index is replaced by its row; an
  index outside the table is an error.
\<close>

definition embedding_lookup :: "real tensor \<Rightarrow> int tensor \<Rightarrow> error + real tensor" where
  "embedding_lookup w idx = (case shape w of
      [] \<Rightarrow> Inl RuntimeError
    | n # ds \<Rightarrow>
        if list_all (\<lambda>i. 0 \<le> i \<and> i < int n) (elems idx)
        then Inr (Tensor (shape idx @ ds)
               (concat (map (\<lambda>i. take (numel ds) (drop (nat i * numel ds) (elems w))) (elems idx))))
        else Inl IndexError)"

text \<open>Lines 58 to 63 of the forward pass: projection, normalisation, sum.\<close>

definition embed_features :: "UniterImageEmbeddings \<Rightarrow> val \<Rightarrow> val \<Rightarrow> val \<Rightarrow> error + val" where
  "embed_features self img_feat img_pos_feat type_embeddings =
     ebind (call_layer (img_linear self) img_feat) (\<lambda>projected_im.
     ebind (call_layer (img_layer_norm self) projected_im) (\<lambda>transformed_im.
     ebind (call_layer (pos_linear self) img_pos_feat) (\<lambda>projected_pos.
     ebind (call_layer (pos_layer_norm self) projected_pos) (\<lambda>transformed_pos.
     ebind (py_add transformed_im transformed_pos) (\<lambda>sum1.
     ebind (py_add sum1 type_embeddings) (\<lambda>embeddings.
     ebind (call_layer (final_layer_norm self) embeddings) (\<lambda>normed.
     call_layer (dropout self) normed)))))))"

definition UniterImageEmbeddings_forward ::
  "UniterImageEmbeddings \<Rightarrow> val \<Rightarrow> val \<Rightarrow> val \<Rightarrow> val \<Rightarrow> (error + val) \<times> UniterImageEmbeddings" where
  "UniterImageEmbeddings_forward self img_feat img_pos_feat type_embeddings img_masks =
     (if img_masks \<noteq> NoneV then
        (let self1 = self\<lparr>mask_embedding := fill_row0 (mask_embedding self)\<rparr>
         in (ebind (to_long img_masks) (\<lambda>idx.
             ebind (embedding_lookup (mask_embedding self1) idx) (\<lambda>mask.
             ebind (py_add img_feat (FloatT mask)) (\<lambda>img_feat1.
             embed_features self1 img_feat1 img_pos_feat type_embeddings))), self1))
      else (embed_features self img_feat img_pos_feat type_embeddings, self))"

section \<open>UniterModelBase\<close>

record UniterModelBase =
  embeddings :: "val \<Rightarrow> val \<Rightarrow> val \<Rightarrow> val option"
  token_type_embeddings :: "val \<Rightarrow> val option"
  img_embeddings :: UniterImageEmbeddings
  encoder :: "val \<Rightarrow> val \<Rightarrow> bool \<Rightarrow> val list option"

definition compute_txt_embeddings :: "UniterModelBase \<Rightarrow> val \<Rightarrow> val \<Rightarrow> val \<Rightarrow> error + val" where
  "compute_txt_embeddings self input_ids position_ids token_type_ids =
     (case embeddings self input_ids position_ids token_type_ids of
        None \<Rightarrow> Inl CollaboratorError
      | Some output \<Rightarrow> Inr output)"

text \<open>
  \<^verbatim>\<open>torch.ones_like(img_feat[:, :, 0].long())\<close>: the index needs three
  dimensions, the third not empty; the result has the first two dimensions of
  \<open>img_feat\<close> (and the ones after the third).
\<close>

definition default_img_type_ids :: "val \<Rightarrow> error + val" where
  "default_img_type_ids img_feat = (case shape_of img_feat of
      None \<Rightarrow> Inl TypeError
    | Some s \<Rightarrow>
        if 3 \<le> length s \<and> 0 < s ! 2
        then Inr (LongT (Tensor (take 2 s @ drop 3 s) (replicate (numel (take 2 s @ drop 3 s)) 1)))
        else Inl IndexError)"

definition compute_img_embeddings ::
  "UniterModelBase \<Rightarrow> val \<Rightarrow> val \<Rightarrow> val \<Rightarrow> val \<Rightarrow> (error + val) \<times> UniterModelBase" where
  "compute_img_embeddings self img_feat img_pos_feat img_masks img_type_ids =
     (case (if img_type_ids = NoneV then default_img_type_ids img_feat else Inr img_type_ids) of
        Inl e \<Rightarrow> (Inl e, self)
      | Inr ids \<Rightarrow>
          (case call (token_type_embeddings self) ids of
             Inl e \<Rightarrow> (Inl e, self)
           | Inr img_type_embeddings \<Rightarrow>
               (let (output, ie) = UniterImageEmbeddings_forward (img_embeddings self)
                                     img_feat img_pos_feat img_type_embeddings img_masks
                in (output, self\<lparr>img_embeddings := ie\<rparr>))))"

text \<open>
  The gather index is a parameter that the body never reads: the alignment to
  the most compact input is commented out in the source.
\<close>

definition compute_img_txt_embeddings ::
  "UniterModelBase \<Rightarrow> val \<Rightarrow> val \<Rightarrow> val \<Rightarrow> val \<Rightarrow> val \<Rightarrow> val \<Rightarrow> val \<Rightarrow> val
     \<Rightarrow> (error + val) \<times> UniterModelBase" where
  "compute_img_txt_embeddings self input_ids position_ids img_feat img_pos_feat gather_index
       img_masks txt_type_ids img_type_ids =
     (case compute_txt_embeddings self input_ids position_ids txt_type_ids of
        Inl e \<Rightarrow> (Inl e, self)
      | Inr txt_emb \<Rightarrow>
          (case compute_img_embeddings self img_feat img_pos_feat img_masks img_type_ids of
             (Inl e, self1) \<Rightarrow> (Inl e, self1)
           | (Inr img_emb, self1) \<Rightarrow> (py_cat 1 txt_emb img_emb, self1)))"

text \<open>\<^verbatim>\<open>x.unsqueeze(k)\<close> for \<open>k \<ge> 0\<close>.\<close>

definition unsqueeze_at :: "nat \<Rightarrow> 'a tensor \<Rightarrow> error + 'a tensor" where
  "unsqueeze_at k x =
     (if k \<le> length (shape x)
      then Inr (Tensor (take k (shape x) @ [1] @ drop k (shape x)) (elems x))
      else Inl IndexError)"

definition unsqueeze_val :: "nat \<Rightarrow> val \<Rightarrow> error + val" where
  "unsqueeze_val k v = (case v of
      FloatT t \<Rightarrow> map_sum id FloatT (unsqueeze_at k t)
    | LongT t \<Rightarrow> map_sum id LongT (unsqueeze_at k t)
    | BoolT t \<Rightarrow> map_sum id BoolT (unsqueeze_at k t)
    | _ \<Rightarrow> Inl AttributeError)"

text \<open>Lines 181 to 185: the self-attention mask.\<close>

definition extended_attention_mask :: "val \<Rightarrow> error + real tensor" where
  "extended_attention_mask attention_mask =
     ebind (unsqueeze_val 1 attention_mask) (\<lambda>m1.
     ebind (unsqueeze_val 2 m1) (\<lambda>m2.
     ebind (to_float m2) (\<lambda>m3.
     Inr (tmap (\<lambda>m. (1 - m) * (- 10000)) m3))))"

text \<open>Lines 188 to 208: the embedding layer, one of three paths.\<close>

definition embedding_layer ::
  "UniterModelBase \<Rightarrow> val \<Rightarrow> val \<Rightarrow> val \<Rightarrow> val \<Rightarrow> val \<Rightarrow> val \<Rightarrow> val \<Rightarrow> val
     \<Rightarrow> (error + val) \<times> UniterModelBase" where
  "embedding_layer self input_ids position_ids img_feat img_pos_feat gather_index
       img_masks txt_type_ids img_type_ids =
     (if input_ids = NoneV then
        compute_img_embeddings self img_feat img_pos_feat img_masks img_type_ids
      else if img_feat = NoneV then
        (compute_txt_embeddings self input_ids position_ids txt_type_ids, self)
      else
        compute_img_txt_embeddings self input_ids position_ids img_feat img_pos_feat
          gather_index img_masks txt_type_ids img_type_ids)"

text \<open>Lines 210 to 217: the encoder stack and the choice of its output.\<close>

definition encode :: "UniterModelBase \<Rightarrow> val \<Rightarrow> val \<Rightarrow> bool \<Rightarrow> error + val" where
  "encode self embedding_output ext output_hidden_states =
     (case encoder self embedding_output ext output_hidden_states of
        None \<Rightarrow> Inl CollaboratorError
      | Some encoded_layers \<Rightarrow>
          if \<not> output_hidden_states
          then (if encoded_layers = [] then Inl IndexError else Inr (last encoded_layers))
          else Inr (TupleV encoded_layers))"

definition UniterModelBase_forward ::
  "UniterModelBase \<Rightarrow> val \<Rightarrow> val \<Rightarrow> val \<Rightarrow> val \<Rightarrow> val \<Rightarrow> val \<Rightarrow> val \<Rightarrow> bool \<Rightarrow> val \<Rightarrow> val
     \<Rightarrow> (error + val) \<times> UniterModelBase" where
  "UniterModelBase_forward self input_ids position_ids img_feat img_pos_feat attention_mask
       gather_index img_masks output_hidden_states txt_type_ids img_type_ids =
     (case extended_attention_mask attention_mask of
        Inl e \<Rightarrow> (Inl e, self)
      | Inr ext \<Rightarrow>
          (case embedding_layer self input_ids position_ids img_feat img_pos_feat gather_index
                  img_masks txt_type_ids img_type_ids of
             (Inl e, self1) \<Rightarrow> (Inl e, self1)
           | (Inr embedding_output, self1) \<Rightarrow>
               (encode self1 embedding_output (FloatT ext) output_hidden_states, self1)))"

section \<open>Head outputs\<close>

type_synonym loss = "batch \<Rightarrow> val \<Rightarrow> val option"

text \<open>\<^verbatim>\<open>x.size(-1)\<close>.\<close>

definition size_last :: "val \<Rightarrow> error + nat" where
  "size_last v = (case shape_of v of
      None \<Rightarrow> Inl AttributeError
    | Some s \<Rightarrow> if s = [] then Inl IndexError else Inr (last s))"

text \<open>\<^verbatim>\<open>modules[key]\<close> on a module dictionary.\<close>

definition module_get :: "(string \<rightharpoonup> 'm) \<Rightarrow> val \<Rightarrow> error + 'm" where
  "module_get modules key = (case key of
      Str k \<Rightarrow> (case modules k of None \<Rightarrow> Inl (KeyError k) | Some m \<Rightarrow> Inr m)
    | _ \<Rightarrow> Inl (KeyError (py_str key)))"

definition process_head_outputs :: "val \<Rightarrow> (string \<rightharpoonup> loss) \<Rightarrow> batch \<Rightarrow> val \<Rightarrow> error + val" where
  "process_head_outputs dataset_name losses sample_list outputs =
     (if is_mapping outputs \<and> has_key ''losses'' outputs then Inr outputs
      else
        ebind (if is_mapping outputs \<and> has_key ''scores'' outputs
               then subscript outputs ''scores'' else Inr outputs) (\<lambda>logits.
        ebind (size_last logits) (\<lambda>k.
        ebind (view2_val logits k) (\<lambda>logits2.
        ebind (module_get losses dataset_name) (\<lambda>loss_unit.
        ebind (call (loss_unit sample_list) (Dict [(''scores'', logits2)])) (\<lambda>output.
        Inr (Dict [(''losses'', output), (''scores'', logits2)])))))))"

section \<open>Random draws\<close>

text \<open>
  Python's \<^verbatim>\<open>random\<close> module is a global generator. Its outcomes are an oracle:
  \<open>uniforms\<close> gives the result of the \<open>i\<close>-th call when that call is
  \<^verbatim>\<open>random.random()\<close>, \<open>choices\<close> the raw draw when it is \<^verbatim>\<open>random.choice\<close>,
  and \<open>calls\<close> counts the calls made so far. \<^verbatim>\<open>random.choice(range(n))\<close> returns
  some element of \<^verbatim>\<open>range(n)\<close>: the raw draw reduced modulo \<open>n\<close> reaches each of
  them. On an empty range it raises \<^verbatim>\<open>IndexError\<close>.
\<close>

record rng =
  uniforms :: "nat \<Rightarrow> real"
  choices :: "nat \<Rightarrow> nat"
  calls :: nat

definition random_random :: "rng \<Rightarrow> real \<times> rng" where
  "random_random r = (uniforms r (calls r), r\<lparr>calls := Suc (calls r)\<rparr>)"

definition random_choice_range :: "nat \<Rightarrow> rng \<Rightarrow> (error + nat) \<times> rng" where
  "random_choice_range n r =
     (if n = 0 then (Inl IndexError, r)
      else (Inr (choices r (calls r) mod n), r\<lparr>calls := Suc (calls r)\<rparr>))"

section \<open>The pretraining wrapper: image masks\<close>

text \<open>
  \<^verbatim>\<open>[random.random() < mask_prob for _ in range(num_bb)]\<close>: one draw per region,
  in order.
\<close>

primrec bernoulli_draws :: "real \<Rightarrow> nat \<Rightarrow> rng \<Rightarrow> bool list \<times> rng" where
  "bernoulli_draws p 0 r = ([], r)"
| "bernoulli_draws p (Suc n) r =
     (let (u, r1) = random_random r; (bs, r2) = bernoulli_draws p n r1
      in ((u < p) # bs, r2))"

definition get_img_mask :: "real \<Rightarrow> nat \<Rightarrow> rng \<Rightarrow> (error + bool list) \<times> rng" where
  "get_img_mask mask_prob num_bb r =
     (let (img_mask, r1) = bernoulli_draws mask_prob num_bb r
      in if \<not> list_ex id img_mask
         then (case random_choice_range num_bb r1 of
                 (Inl e, r2) \<Rightarrow> (Inl e, r2)
               | (Inr j, r2) \<Rightarrow> (Inr (img_mask[j := True]), r2))
         else (Inr img_mask, r1))"

text \<open>
  \<^verbatim>\<open>[self._get_img_mask(mask_prob, num_feat) for _ in range(bs)]\<close>: the masks of
  the examples are drawn one after the other; an exception in one of them ends
  the comprehension.
\<close>

primrec get_img_masks :: "real \<Rightarrow> nat \<Rightarrow> nat \<Rightarrow> rng \<Rightarrow> (error + bool list list) \<times> rng" where
  "get_img_masks p n 0 r = (Inr [], r)"
| "get_img_masks p n (Suc k) r =
     (case get_img_mask p n r of
        (Inl e, r1) \<Rightarrow> (Inl e, r1)
      | (Inr m, r1) \<Rightarrow>
          (case get_img_masks p n k r1 of
             (Inl e, r2) \<Rightarrow> (Inl e, r2)
           | (Inr ms, r2) \<Rightarrow> (Inr (m # ms), r2)))"

section \<open>UniterForPretraining\<close>

text \<open>
  A head is a collaborator with a configuration; the wrapper reads the
  configured keys and calls the head. The wrapper owns the joint encoder, one
  head per task and the loss units; \<open>mask_probability\<close> is the entry of the
  configuration, when it has one.
\<close>

record head =
  config :: "string \<rightharpoonup> val"
  run :: "val \<Rightarrow> batch \<Rightarrow> val option"

record UniterForPretraining =
  mask_probability :: "real option"
  uniter :: UniterModelBase
  heads :: "string \<rightharpoonup> head"
  losses :: "string \<rightharpoonup> loss"

text \<open>
  Modelled from the spec: the batch container (\<^verbatim>\<open>SampleList\<close>, not among the
  sources) is a mapping of named values with set/get semantics. The forward
  pass changes the caller's batch in place, draws from the global random
  generator and writes to a weight of the encoder: the three make up the state,
  and a routine returns its result, or the exception it raised, together with
  the state it left behind.
\<close>

record pstate =
  model :: UniterForPretraining
  psl :: batch
  rand :: rng

type_synonym 'a prog = "pstate \<Rightarrow> (error + 'a) \<times> pstate"

definition p_bind :: "'a prog \<Rightarrow> ('a \<Rightarrow> 'b prog) \<Rightarrow> 'b prog" where
  "p_bind m f = (\<lambda>s. case m s of (Inl e, s1) \<Rightarrow> (Inl e, s1) | (Inr v, s1) \<Rightarrow> f v s1)"

definition p_return :: "'a \<Rightarrow> 'a prog" where
  "p_return v = (\<lambda>s. (Inr v, s))"

definition p_raise :: "error \<Rightarrow> 'a prog" where
  "p_raise e = (\<lambda>s. (Inl e, s))"

definition p_lift :: "error + 'a \<Rightarrow> 'a prog" where
  "p_lift x = (\<lambda>s. (x, s))"

definition py_assert :: "bool \<Rightarrow> string \<Rightarrow> unit prog" where
  "py_assert c msg = (if c then p_return () else p_raise (AssertionError msg))"

text \<open>\<^verbatim>\<open>k in batch\<close>, \<^verbatim>\<open>batch[k]\<close>, \<^verbatim>\<open>batch.get(k)\<close> and \<^verbatim>\<open>batch[k] = v\<close>.\<close>

definition contains :: "string \<Rightarrow> bool prog" where
  "contains k = (\<lambda>s. (Inr (psl s k \<noteq> None), s))"

definition get_item :: "string \<Rightarrow> val prog" where
  "get_item k = (\<lambda>s. (case psl s k of None \<Rightarrow> Inl (KeyError k) | Some v \<Rightarrow> Inr v, s))"

definition get_or_none :: "string \<Rightarrow> val prog" where
  "get_or_none k = (\<lambda>s. (case psl s k of None \<Rightarrow> Inr NoneV | Some v \<Rightarrow> Inr v, s))"

definition set_item :: "string \<Rightarrow> val \<Rightarrow> unit prog" where
  "set_item k v = (\<lambda>s. (Inr (), s\<lparr>psl := (psl s)(k \<mapsto> v)\<rparr>))"

text \<open>A configured key names a batch field; the batch is keyed by strings.\<close>

definition set_item_at :: "val \<Rightarrow> val \<Rightarrow> unit prog" where
  "set_item_at key v = (case key of Str k \<Rightarrow> set_item k v | _ \<Rightarrow> p_raise TypeError)"

text \<open>\<^verbatim>\<open>self.heads[h].config.<attr>\<close>.\<close>

definition head_config :: "string \<Rightarrow> string \<Rightarrow> val prog" where
  "head_config h attr = (\<lambda>s.
     (case heads (model s) h of
        None \<Rightarrow> Inl (KeyError h)
      | Some h1 \<Rightarrow> (case config h1 attr of None \<Rightarrow> Inl AttributeError | Some v \<Rightarrow> Inr v), s))"

definition with_rng :: "(rng \<Rightarrow> (error + 'a) \<times> rng) \<Rightarrow> 'a prog" where
  "with_rng f = (\<lambda>s. case f (rand s) of (r, g) \<Rightarrow> (r, s\<lparr>rand := g\<rparr>))"

subsection \<open>Common preprocessing\<close>

text \<open>
  \<^verbatim>\<open>torch.tensor(img_masks).bool()\<close> on a list of lists of booleans, all of the
  same length; the empty list gives an empty one-dimensional tensor.
\<close>

definition stack_masks :: "bool list list \<Rightarrow> bool tensor" where
  "stack_masks ms =
     (if ms = [] then Tensor [0] []
      else Tensor [length ms, length (hd ms)] (concat ms))"

definition add_image_feat_masked :: "unit prog" where
  "add_image_feat_masked =
     p_bind (\<lambda>s. (Inr (case mask_probability (model s) of None \<Rightarrow> 0 | Some p \<Rightarrow> p), s)) (\<lambda>mask_prob.
     p_bind (get_item ''image_feat'') (\<lambda>image_feat.
     p_bind (p_lift (torch_clone image_feat)) (\<lambda>img_feat_masked.
     p_bind (p_lift (size_at img_feat_masked 1)) (\<lambda>num_feat.
     p_bind (p_lift (size_at img_feat_masked 0)) (\<lambda>bs.
     p_bind (with_rng (get_img_masks mask_prob num_feat bs)) (\<lambda>masks.
     p_bind (p_return (stack_masks masks)) (\<lambda>img_masks.
     p_bind (p_lift (expand_as (unsqueeze_last img_masks) img_feat_masked)) (\<lambda>img_masks_ext.
     p_bind (p_lift (masked_fill0 img_feat_masked img_masks_ext)) (\<lambda>masked.
     p_bind (set_item ''image_feat_masked'' masked) (\<lambda>_.
     set_item ''image_mask'' (BoolT img_masks)))))))))))"

text \<open>
  \<^verbatim>\<open>torch.where(pos_pairs.any(), pos_pairs, pos_pairs.new([True]))\<close>: the three
  arguments are broadcast together, so the result has the shape of
  \<open>pos_pairs\<close> (one element when \<open>pos_pairs\<close> has no dimension); it is
  \<open>pos_pairs\<close> when some entry is true and all true otherwise.
\<close>

definition where_any :: "bool tensor \<Rightarrow> bool tensor" where
  "where_any pos_pairs =
     (let s = (if shape pos_pairs = [] then [1] else shape pos_pairs)
      in if list_ex id (elems pos_pairs) then Tensor s (elems pos_pairs)
         else Tensor s (replicate (numel s) True))"

definition tensor_names :: "string list" where
  "tensor_names = [''input_ids'', ''input_mask'', ''image_feat'', ''img_pos_feat'',
     ''attention_mask'', ''image_mask'', ''image_feat_masked'', ''lm_label_ids'', ''cls_prob'']"

text \<open>
  The body of the loop for one field \<open>x\<close> that is not \<^verbatim>\<open>None\<close>. Its value is
  the new binding of the local variable \<open>x\<close>.
\<close>

definition filter_field :: "bool tensor \<Rightarrow> string \<Rightarrow> val \<Rightarrow> error + val" where
  "filter_field pos_pairs_mask name x = (case shape_of x of
      None \<Rightarrow> Inl AttributeError
    | Some sx \<Rightarrow>
        (case sx of
           [n] \<Rightarrow>
             (case shape pos_pairs_mask of
                [] \<Rightarrow> Inl IndexError
              | k # _ \<Rightarrow>
                  if n = k then index_by x (BoolT pos_pairs_mask) 0
                  else Inl (AssertionError (''tensor '' @ name @ '' has shape '' @ show_size sx
                         @ '' but expected '' @ show_nat k @ '' at dim 0.'')))
         | _ \<Rightarrow> index_by x (BoolT pos_pairs_mask) 1))"

text \<open>
  The loop over the tensor names. The source assigns the filtered tensor to
  the local variable \<open>x\<close> and goes on to the next name: nothing is written to
  the batch.
\<close>

fun filter_fields :: "bool tensor \<Rightarrow> string list \<Rightarrow> unit prog" where
  "filter_fields pos_pairs_mask [] = p_return ()"
| "filter_fields pos_pairs_mask (name # names) =
     p_bind (get_or_none name) (\<lambda>x.
       if x = NoneV then filter_fields pos_pairs_mask names
       else p_bind (p_lift (filter_field pos_pairs_mask name x)) (\<lambda>x1.
              filter_fields pos_pairs_mask names))"

definition remove_mismatched_captions :: "unit prog" where
  "remove_mismatched_captions =
     p_bind (contains ''is_correct'') (\<lambda>c.
     p_bind (py_assert c []) (\<lambda>_.
     p_bind (get_item ''is_correct'') (\<lambda>is_correct.
     p_bind (p_lift (ne0 is_correct)) (\<lambda>pos_pairs.
     p_bind (p_return (where_any pos_pairs)) (\<lambda>pos_pairs_mask.
     filter_fields pos_pairs_mask tensor_names)))))"

text \<open>
  \<^verbatim>\<open>torch.tensor(v)\<close> copies a tensor; the other values of this model are not
  data a tensor can be built from.
\<close>

definition torch_tensor :: "val \<Rightarrow> error + val" where
  "torch_tensor v = (case v of
      FloatT _ \<Rightarrow> Inr v
    | LongT _ \<Rightarrow> Inr v
    | BoolT _ \<Rightarrow> Inr v
    | IntV i \<Rightarrow> Inr (LongT (Tensor [] [i]))
    | Str _ \<Rightarrow> Inl TypeError
    | _ \<Rightarrow> Inl RuntimeError)"

definition process_sample_list_for_pretraining :: "unit prog" where
  "process_sample_list_for_pretraining =
     p_bind (get_item ''task'') (\<lambda>task.
     p_bind (if task = Str ''mrc'' \<or> task = Str ''mrfr'' then
               p_bind add_image_feat_masked (\<lambda>_.
               p_bind (get_item ''image_info_0'') (\<lambda>image_info.
               p_bind (p_lift (subscript image_info ''cls_prob'')) (\<lambda>cls_prob.
               p_bind (p_lift (torch_tensor cls_prob)) (\<lambda>t.
               set_item ''cls_prob'' t))))
             else p_return ()) (\<lambda>_.
     if task \<noteq> Str ''itm'' \<and> task \<noteq> Str ''wra'' then remove_mismatched_captions
     else p_return ()))"

subsection \<open>Task-specific preprocessing\<close>

text \<open>An attribute that only a tensor has (\<^verbatim>\<open>.device\<close>, \<^verbatim>\<open>.to\<close>, \<^verbatim>\<open>.shape\<close>).\<close>

definition tensor_attr :: "val \<Rightarrow> error + nat list" where
  "tensor_attr v = (case shape_of v of None \<Rightarrow> Inl AttributeError | Some s \<Rightarrow> Inr s)"

text \<open>\<^verbatim>\<open>torch.full(shape, fill_value=c, dtype=torch.long)\<close>.\<close>

definition torch_full_long :: "nat list \<Rightarrow> val \<Rightarrow> error + val" where
  "torch_full_long s c = (case c of
      IntV i \<Rightarrow> Inr (LongT (Tensor s (replicate (numel s) i)))
    | _ \<Rightarrow> Inl TypeError)"

definition preprocess_mlm :: "unit prog" where
  "preprocess_mlm =
     p_bind (contains ''lm_label_ids'') (\<lambda>c1.
     p_bind (py_assert c1 []) (\<lambda>_.
     p_bind (contains ''input_ids_masked'') (\<lambda>c2.
     p_bind (py_assert c2 []) (\<lambda>_.
     p_bind (head_config ''mlm'' ''ignore_index'') (\<lambda>ignore_index.
     p_bind (get_item ''lm_label_ids'') (\<lambda>text.
     p_bind (get_item ''image_feat'') (\<lambda>image_feat.
     p_bind (p_lift (tensor_attr image_feat)) (\<lambda>sh.
     p_bind (p_lift (tensor_attr text)) (\<lambda>_.
     p_bind (p_lift (torch_full_long (take 2 sh) ignore_index)) (\<lambda>image.
     p_bind (p_lift (py_cat (- 1) text image)) (\<lambda>combined_labels.
     p_bind (set_item ''mlm_labels''
               (Dict [(''text'', text), (''image'', image),
                      (''combined_labels'', combined_labels)])) (\<lambda>_.
     p_bind (get_item ''input_ids_masked'') (\<lambda>input_ids_masked.
     set_item ''input_ids'' input_ids_masked)))))))))))))"

definition preprocess_itm :: "unit prog" where
  "preprocess_itm =
     p_bind (contains ''is_correct'') (\<lambda>c.
     p_bind (py_assert c []) (\<lambda>_.
     p_bind (get_item ''is_correct'') (\<lambda>is_correct.
     set_item ''itm_labels'' (Dict [(''is_correct'', is_correct)]))))"

text \<open>\<^verbatim>\<open>image_mask.unsqueeze(-1).expand_as(x)\<close> on a mask of any element type.\<close>

definition mask_ext :: "val \<Rightarrow> val \<Rightarrow> error + val" where
  "mask_ext image_mask x = (case image_mask of
      FloatT t \<Rightarrow> map_sum id FloatT (expand_as (unsqueeze_last t) x)
    | LongT t \<Rightarrow> map_sum id LongT (expand_as (unsqueeze_last t) x)
    | BoolT t \<Rightarrow> map_sum id BoolT (expand_as (unsqueeze_last t) x)
    | _ \<Rightarrow> Inl AttributeError)"

text \<open>\<^verbatim>\<open>torch.zeros(shape).to(image_mask)\<close>: zeros of the element type of the mask.\<close>

definition zeros_like_type :: "val \<Rightarrow> nat list \<Rightarrow> error + val" where
  "zeros_like_type image_mask s = (case image_mask of
      FloatT _ \<Rightarrow> Inr (FloatT (Tensor s (replicate (numel s) 0)))
    | LongT _ \<Rightarrow> Inr (LongT (Tensor s (replicate (numel s) 0)))
    | BoolT _ \<Rightarrow> Inr (BoolT (Tensor s (replicate (numel s) False)))
    | _ \<Rightarrow> Inl TypeError)"

text \<open>
  The lines that the two masked-region tasks share: the combined mask, all
  false over the text and the image mask over the regions, then the masked
  features take the place of the features.
\<close>

definition concat_mask_and_swap :: "val \<Rightarrow> val \<Rightarrow> unit prog" where
  "concat_mask_and_swap mask_key image_mask =
     p_bind (p_lift (size_at image_mask 0)) (\<lambda>bs.
     p_bind (get_item ''input_ids'') (\<lambda>input_ids.
     p_bind (p_lift (size_at input_ids 1)) (\<lambda>sentence_len.
     p_bind (p_lift (zeros_like_type image_mask [bs, sentence_len])) (\<lambda>padding_for_txt.
     p_bind (p_lift (py_cat (- 1) padding_for_txt image_mask)) (\<lambda>concat_mask.
     p_bind (set_item_at mask_key concat_mask) (\<lambda>_.
     p_bind (get_item ''image_feat_masked'') (\<lambda>image_feat_masked.
     set_item ''image_feat'' image_feat_masked)))))))"

definition preprocess_mrc :: "unit prog" where
  "preprocess_mrc =
     p_bind (contains ''cls_prob'') (\<lambda>c1.
     p_bind (py_assert c1 []) (\<lambda>_.
     p_bind (contains ''image_mask'') (\<lambda>c2.
     p_bind (py_assert c2 []) (\<lambda>_.
     p_bind (contains ''image_feat_masked'') (\<lambda>c3.
     p_bind (py_assert c3 []) (\<lambda>_.
     p_bind (head_config ''mrc'' ''mrc_label_key'') (\<lambda>mrc_label_key.
     p_bind (head_config ''mrc'' ''mrc_mask_key'') (\<lambda>mrc_mask_key.
     p_bind (get_item ''image_mask'') (\<lambda>image_mask.
     p_bind (get_item ''cls_prob'') (\<lambda>cls_prob.
     p_bind (p_lift (tensor_attr cls_prob)) (\<lambda>_.
     p_bind (p_lift (tensor_attr image_mask)) (\<lambda>_.
     p_bind (p_lift (mask_ext image_mask cls_prob)) (\<lambda>img_masks_ext.
     p_bind (p_lift (size_at cls_prob 2)) (\<lambda>cls_dim.
     p_bind (p_lift (index_by cls_prob img_masks_ext 0)) (\<lambda>selected.
     p_bind (p_lift (view2_val selected cls_dim)) (\<lambda>labels.
     p_bind (set_item_at mrc_label_key labels) (\<lambda>_.
     concat_mask_and_swap mrc_mask_key image_mask)))))))))))))))))"

definition preprocess_mrfr :: "unit prog" where
  "preprocess_mrfr =
     p_bind (contains ''image_mask'') (\<lambda>c1.
     p_bind (py_assert c1 []) (\<lambda>_.
     p_bind (contains ''image_feat_masked'') (\<lambda>c2.
     p_bind (py_assert c2 []) (\<lambda>_.
     p_bind (head_config ''mrfr'' ''mrfr_target_key'') (\<lambda>mrfr_target_key.
     p_bind (head_config ''mrfr'' ''mrfr_mask_key'') (\<lambda>mrfr_mask_key.
     p_bind (get_item ''image_mask'') (\<lambda>image_mask.
     p_bind (get_item ''image_feat'') (\<lambda>image_feat.
     p_bind (p_lift (mask_ext image_mask image_feat)) (\<lambda>img_masks_ext.
     p_bind (p_lift (size_at image_feat 2)) (\<lambda>feat_dim.
     p_bind (p_lift (index_by image_feat img_masks_ext 0)) (\<lambda>selected.
     p_bind (p_lift (view2_val selected feat_dim)) (\<lambda>feat_targets.
     p_bind (set_item_at mrfr_target_key feat_targets) (\<lambda>_.
     concat_mask_and_swap mrfr_mask_key image_mask)))))))))))))"

text \<open>
  \<^verbatim>\<open>[i.size(0) for i in x]\<close>: iterating over a tensor gives its blocks along
  dimension 0, over a string its characters, over a mapping its keys.
\<close>

fun sizes0 :: "val list \<Rightarrow> error + nat list" where
  "sizes0 [] = Inr []"
| "sizes0 (v # vs) = ebind (size_at v 0) (\<lambda>n. ebind (sizes0 vs) (\<lambda>ns. Inr (n # ns)))"

definition row_sizes :: "val \<Rightarrow> error + nat list" where
  "row_sizes x = (case x of
      NoneV \<Rightarrow> Inl TypeError
    | IntV _ \<Rightarrow> Inl TypeError
    | Str cs \<Rightarrow> if cs = [] then Inr [] else Inl AttributeError
    | Dict kvs \<Rightarrow> if kvs = [] then Inr [] else Inl AttributeError
    | TupleV vs \<Rightarrow> sizes0 vs
    | _ \<Rightarrow> (case shape_of x of
          Some (d # ds) \<Rightarrow>
            if d = 0 then Inr [] else if ds = [] then Inl IndexError
            else Inr (replicate d (hd ds))
        | _ \<Rightarrow> Inl TypeError))"

text \<open>
  The local function \<^verbatim>\<open>_compute_pad\<close>, followed by \<^verbatim>\<open>.bool()\<close>: row \<open>i\<close> is
  false on its first \<open>lens[i]\<close> positions and true after them.
\<close>

definition compute_pad :: "nat list \<Rightarrow> error + bool tensor" where
  "compute_pad lens =
     (if lens = [] then Inl (ValueError ''max() arg is an empty sequence'')
      else let max_len = fold max lens 0
           in Inr (Tensor [length lens, max_len]
                (concat (map (\<lambda>l. replicate l False @ replicate (max_len - l) True) lens))))"

definition preprocess_wra :: "unit prog" where
  "preprocess_wra =
     p_bind (contains ''is_correct'') (\<lambda>c.
     p_bind (py_assert c []) (\<lambda>_.
     p_bind (head_config ''wra'' ''ot_inputs_key'') (\<lambda>ot_inputs_key.
     p_bind (head_config ''wra'' ''wra_label_key'') (\<lambda>wra_label_key.
     p_bind (get_item ''input_ids'') (\<lambda>input_ids.
     p_bind (p_lift (row_sizes input_ids)) (\<lambda>txt_lens.
     p_bind (get_item ''image_feat'') (\<lambda>image_feat.
     p_bind (p_lift (row_sizes image_feat)) (\<lambda>num_bbs.
     p_bind (p_lift (tensor_attr input_ids)) (\<lambda>_.
     p_bind (p_lift (compute_pad txt_lens)) (\<lambda>txt_pad.
     p_bind (p_lift (compute_pad num_bbs)) (\<lambda>img_pad.
     p_bind (set_item_at ot_inputs_key
               (Dict [(''txt_pad'', BoolT txt_pad), (''img_pad'', BoolT img_pad)])) (\<lambda>_.
     p_bind (get_item ''is_correct'') (\<lambda>is_correct.
     set_item_at wra_label_key is_correct)))))))))))))"

subsection \<open>The forward pass\<close>

definition is_correct_message :: string where
  "is_correct_message =
     ''UNITER pretraining requires mismatched captions for Image-Text-Matching.''
     @ '' Please add '' @ [CHR 0x27] @ ''false_caption'' @ [CHR 0x27]
     @ '': true under dataset_config in your '' @ ''yaml configs.''"

definition call_uniter :: "val \<Rightarrow> val \<Rightarrow> val \<Rightarrow> val \<Rightarrow> val \<Rightarrow> val \<Rightarrow> val prog" where
  "call_uniter input_ids position_ids image_feat img_pos_feat attention_mask image_mask = (\<lambda>s.
     case UniterModelBase_forward (uniter (model s)) input_ids position_ids image_feat
            img_pos_feat attention_mask NoneV image_mask False NoneV NoneV of
       (r, u) \<Rightarrow> (r, s\<lparr>model := (model s)\<lparr>uniter := u\<rparr>\<rparr>))"

definition call_head :: "val \<Rightarrow> val \<Rightarrow> val prog" where
  "call_head task sequence_output = (\<lambda>s.
     (ebind (module_get (heads (model s)) task) (\<lambda>h.
        call (run h sequence_output) (psl s)), s))"

text \<open>
  Lines 366 to 383: the pass through the joint encoder, the head of the task
  and the normalisation of its output.
\<close>

definition encode_and_score :: "val \<Rightarrow> val prog" where
  "encode_and_score task =
     p_bind (get_item ''input_ids'') (\<lambda>input_ids.
     p_bind (get_item ''position_ids'') (\<lambda>position_ids.
     p_bind (get_item ''image_feat'') (\<lambda>image_feat.
     p_bind (get_item ''img_pos_feat'') (\<lambda>img_pos_feat.
     p_bind (get_item ''attention_mask'') (\<lambda>attention_mask.
     p_bind (get_item ''image_mask'') (\<lambda>image_mask.
     p_bind (call_uniter input_ids position_ids image_feat img_pos_feat attention_mask
               image_mask) (\<lambda>sequence_output.
     p_bind (get_item ''dataset_name'') (\<lambda>dataset_name.
     p_bind (call_head task sequence_output) (\<lambda>outputs.
     (\<lambda>s. (process_head_outputs dataset_name (losses (model s)) (psl s) outputs, s))
     )))))))))"

text \<open>Lines 352 to 364: the dispatch on the task.\<close>

definition preprocess_task :: "val \<Rightarrow> unit prog" where
  "preprocess_task task =
     (if task = Str ''mlm'' then preprocess_mlm
      else if task = Str ''itm'' then preprocess_itm
      else if task = Str ''mrc'' then preprocess_mrc
      else if task = Str ''mrfr'' then preprocess_mrfr
      else if task = Str ''wra'' then preprocess_wra
      else p_raise (ValueError (''Task '' @ py_str task
             @ '' is not supported for pretraining!'')))"

definition UniterForPretraining_forward :: "val prog" where
  "UniterForPretraining_forward =
     p_bind (contains ''is_correct'') (\<lambda>c.
     p_bind (py_assert c is_correct_message) (\<lambda>_.
     p_bind process_sample_list_for_pretraining (\<lambda>_.
     p_bind (get_item ''task'') (\<lambda>task.
     p_bind (preprocess_task task) (\<lambda>_.
     encode_and_score task)))))"

section \<open>Notions used to state the properties\<close>

text \<open>The same elements under another shape.\<close>

definition with_shape :: "nat list \<Rightarrow> val \<Rightarrow> val" where
  "with_shape s v = (case v of
      FloatT t \<Rightarrow> FloatT (Tensor s (elems t))
    | LongT t \<Rightarrow> LongT (Tensor s (elems t))
    | BoolT t \<Rightarrow> BoolT (Tensor s (elems t))
    | _ \<Rightarrow> v)"

text \<open>
  The scores of a head output, in the words of the specification: the entry
  \<open>scores\<close> of a mapping that has one, else the output itself.
\<close>

definition scores_of :: "val \<Rightarrow> val" where
  "scores_of outputs = (case outputs of
      Dict kvs \<Rightarrow> (case map_of kvs ''scores'' of Some v \<Rightarrow> v | None \<Rightarrow> outputs)
    | _ \<Rightarrow> outputs)"

text \<open>A routine that raises the exception \<open>e\<close> in no state.\<close>

definition never_raises :: "error \<Rightarrow> 'a prog \<Rightarrow> bool" where
  "never_raises e m \<longleftrightarrow> (\<forall>s. fst (m s) \<noteq> Inl e)"

text \<open>
  A routine that, whether it returns or raises, leaves the model alone and
  writes to no batch field outside \<open>K\<close>.
\<close>

definition writes_only :: "string set \<Rightarrow> 'a prog \<Rightarrow> bool" where
  "writes_only K m \<longleftrightarrow>
     (\<forall>s r s'. m s = (r, s') \<longrightarrow>
        model s' = model s \<and> (\<forall>k. k \<notin> K \<longrightarrow> psl s' k = psl s k))"

text \<open>A routine that, whether it returns or raises, leaves the batch as it was.\<close>

definition keeps_batch :: "'a prog \<Rightarrow> bool" where
  "keeps_batch m \<longleftrightarrow> (\<forall>s. psl (snd (m s)) = psl s)"

text \<open>
  The region vectors of length \<open>d\<close> in \<open>xs\<close>, with zeros in place of the
  vectors at the positions that the mask \<open>ms\<close> marks.
\<close>

definition zero_masked :: "bool list \<Rightarrow> nat \<Rightarrow> real list \<Rightarrow> real list" where
  "zero_masked ms d xs =
     concat (map2 (\<lambda>v b. if b then replicate d 0 else v) (chunks (length ms) d xs) ms)"

section \<open>A small instance\<close>

text \<open>
  A model whose collaborators are as simple as possible, a random generator
  and a batch of two examples with one token and two regions each. They serve
  to run the definitions on concrete input.
\<close>

definition demo_image_embeddings :: UniterImageEmbeddings where
  "demo_image_embeddings =
     \<lparr>img_linear = Some, img_layer_norm = Some, pos_layer_norm = Some, pos_linear = Some,
      mask_embedding = Tensor [2, 1] [5, 7], final_layer_norm = Some, dropout = Some\<rparr>"

definition demo_embed :: "val \<Rightarrow> val option" where
  "demo_embed ids = (case ids of
      LongT t \<Rightarrow> Some (FloatT (Tensor (shape t @ [1]) (map real_of_int (elems t))))
    | _ \<Rightarrow> None)"

definition demo_uniter :: UniterModelBase where
  "demo_uniter =
     \<lparr>embeddings = (\<lambda>input_ids position_ids token_type_ids. demo_embed input_ids),
      token_type_embeddings = demo_embed,
      img_embeddings = demo_image_embeddings,
      encoder = (\<lambda>embedding_output mask output_hidden_states. Some [embedding_output])\<rparr>"

definition demo_head :: head where
  "demo_head =
     \<lparr>config = [''ignore_index'' \<mapsto> IntV (- 1),
                ''mrc_label_key'' \<mapsto> Str ''mrc_label'', ''mrc_mask_key'' \<mapsto> Str ''mrc_mask'',
                ''mrfr_target_key'' \<mapsto> Str ''mrfr_target'', ''mrfr_mask_key'' \<mapsto> Str ''mrfr_mask'',
                ''ot_inputs_key'' \<mapsto> Str ''wra_info'', ''wra_label_key'' \<mapsto> Str ''is_correct''],
      run = (\<lambda>sequence_output sample_list. Some (Dict [(''losses'', Dict []), (''scores'', sequence_output)]))\<rparr>"

definition demo_model :: UniterForPretraining where
  "demo_model =
     \<lparr>mask_probability = Some 0, uniter = demo_uniter,
      heads = [''mlm'' \<mapsto> demo_head, ''itm'' \<mapsto> demo_head, ''mrc'' \<mapsto> demo_head,
               ''mrfr'' \<mapsto> demo_head, ''wra'' \<mapsto> demo_head],
      losses = Map.empty\<rparr>"

definition demo_rng :: rng where
  "demo_rng = \<lparr>uniforms = (\<lambda>i. 1 / 2), choices = (\<lambda>i. 3), calls = 0\<rparr>"

definition demo_batch :: "string \<Rightarrow> batch" where
  "demo_batch task =
     [''task'' \<mapsto> Str task, ''dataset_name'' \<mapsto> Str ''test'',
      ''is_correct'' \<mapsto> LongT (Tensor [2] [1, 0]),
      ''input_ids'' \<mapsto> LongT (Tensor [2, 1] [11, 12]),
      ''input_ids_masked'' \<mapsto> LongT (Tensor [2, 1] [103, 12]),
      ''lm_label_ids'' \<mapsto> LongT (Tensor [2, 1] [11, - 1]),
      ''position_ids'' \<mapsto> LongT (Tensor [1, 1] [0]),
      ''image_feat'' \<mapsto> FloatT (Tensor [2, 2, 1] [1, 2, 3, 4]),
      ''img_pos_feat'' \<mapsto> FloatT (Tensor [2, 2, 1] [0, 0, 0, 0]),
      ''attention_mask'' \<mapsto> LongT (Tensor [2, 3] [1, 1, 1, 1, 1, 0]),
      ''image_mask'' \<mapsto> LongT (Tensor [2, 2] [0, 0, 0, 0]),
      ''image_info_0'' \<mapsto> Dict [(''cls_prob'', FloatT (Tensor [2, 2, 1] [1 / 4, 1 / 2, 3 / 4, 1]))]]"

definition demo_state :: "string \<Rightarrow> pstate" where
  "demo_state task = \<lparr>model = demo_model, psl = demo_batch task, rand = demo_rng\<rparr>"

section \<open>Blocks, expansion and broadcasting\<close>

lemma chunks_length [simp]: "length (chunks k n xs) = k"
  by (simp add: chunks_def)

lemma chunks_0 [simp]: "chunks 0 n xs = []"
  by (simp add: chunks_def)

lemma chunks_Suc: "chunks (Suc k) n xs = take n xs # chunks k n (drop n xs)"
proof -
  have "[0..<Suc k] = 0 # map Suc [0..<k]"
    by (simp add: upt_conv_Cons map_Suc_upt del: upt_Suc)
  then show ?thesis
    by (simp add: chunks_def add.commute del: upt_Suc)
qed

lemma concat_chunks: "length xs = k * n \<Longrightarrow> concat (chunks k n xs) = xs"
proof (induction k arbitrary: xs)
  case 0
  then show ?case by simp
next
  case (Suc k)
  then have "concat (chunks k n (drop n xs)) = drop n xs" by simp
  then show ?case by (simp add: chunks_Suc)
qed

lemma chunks_lengths:
  "length xs = k * n \<Longrightarrow> c \<in> set (chunks k n xs) \<Longrightarrow> length c = n"
proof (induction k arbitrary: xs)
  case 0
  then show ?case by simp
next
  case (Suc k)
  from Suc.prems have l: "length (drop n xs) = k * n" by simp
  from Suc.prems(2) have "c = take n xs \<or> c \<in> set (chunks k n (drop n xs))"
    by (simp add: chunks_Suc)
  then show ?case using Suc.IH [OF l] Suc.prems(1) by auto
qed

lemma expand_same: "length xs = numel s \<Longrightarrow> expand s s xs = xs"
proof (induction s arbitrary: xs)
  case Nil
  show ?case by simp
next
  case (Cons d ds)
  then have len: "length xs = d * numel ds" by (simp add: numel_def)
  have "map (expand ds ds) (chunks d (numel ds) xs) = chunks d (numel ds) xs"
    using Cons.IH chunks_lengths [OF len] by (simp add: map_idI)
  then show ?case using concat_chunks [OF len] by simp
qed

lemma bshape_rev_same: "bshape_rev s s = Some s"
  by (induction s) auto

lemma broadcast_shape_same: "broadcast_shape s s = Some s"
  by (simp add: broadcast_shape_def bshape_rev_same)

lemma broadcast2_same:
  assumes "length xs = numel s" and "length ys = numel s"
  shows "broadcast2 f (Tensor s xs) (Tensor s ys) = Inr (Tensor s (map2 f xs ys))"
  using assms by (simp add: broadcast2_def broadcast_shape_same pad_shape_def expand_same)

lemma map2_add_rows:
  assumes "length xs = length ms * d" and "\<And>b. length (rowf b) = d"
  shows "map2 (+) xs (concat (map rowf ms))
       = concat (map2 (\<lambda>v b. map2 (+) v (rowf b)) (chunks (length ms) d xs) ms)"
  using assms(1)
proof (induction ms arbitrary: xs)
  case Nil
  then show ?case by simp
next
  case (Cons m ms)
  then have l: "length (drop d xs) = length ms * d" by simp
  have t: "length (take d xs) = length (rowf m)"
    using Cons.prems assms(2) [of m] by simp
  have "zip (take d xs @ drop d xs) (rowf m @ concat (map rowf ms))
      = zip (take d xs) (rowf m) @ zip (drop d xs) (concat (map rowf ms))"
    using t by (rule zip_append)
  then have "map2 (+) xs (rowf m @ concat (map rowf ms))
      = map2 (+) (take d xs) (rowf m) @ map2 (+) (drop d xs) (concat (map rowf ms))"
    by simp
  then show ?case using Cons.IH [OF l] by (simp add: chunks_Suc)
qed

section \<open>Image masks\<close>

lemma bernoulli_draws_length: "length (fst (bernoulli_draws p n r)) = n"
  by (induction n arbitrary: r) (simp_all add: split_beta)

lemma get_img_mask_ok:
  assumes "get_img_mask p n r = (Inr m, r')"
  shows "length m = n \<and> True \<in> set m"
proof -
  obtain bs r1 where d: "bernoulli_draws p n r = (bs, r1)"
    by (cases "bernoulli_draws p n r")
  have len: "length bs = n"
    using bernoulli_draws_length [of p n r] d by simp
  show ?thesis
  proof (cases "list_ex id bs")
    case True
    with assms d have "m = bs" by (simp add: get_img_mask_def)
    moreover from True have "True \<in> set bs"
      by (auto simp: list_ex_iff)
    ultimately show ?thesis using len by auto
  next
    case False
    with assms d have n: "n \<noteq> 0" and m: "m = bs[choices r1 (calls r1) mod n := True]"
      by (auto simp: get_img_mask_def random_choice_range_def split: if_splits)
    from n have "choices r1 (calls r1) mod n < n" by simp
    with m len show ?thesis by (auto simp: set_update_memI)
  qed
qed

lemma get_img_mask_total:
  assumes "1 \<le> n"
  shows "\<exists>m r'. get_img_mask p n r = (Inr m, r')"
  using assms
  by (auto simp: get_img_mask_def random_choice_range_def split: prod.splits)

lemma get_img_masks_ok:
  assumes "1 \<le> n"
  shows "\<exists>ms r'. get_img_masks p n k r = (Inr ms, r') \<and> length ms = k
           \<and> (\<forall>m \<in> set ms. length m = n \<and> True \<in> set m)"
proof (induction k arbitrary: r)
  case 0
  show ?case by simp
next
  case (Suc k)
  obtain m r1 where m: "get_img_mask p n r = (Inr m, r1)"
    using get_img_mask_total [OF assms] by blast
  obtain ms r2 where ms: "get_img_masks p n k r1 = (Inr ms, r2)" "length ms = k"
       "\<forall>m \<in> set ms. length m = n \<and> True \<in> set m"
    using Suc.IH by blast
  show ?case using m ms get_img_mask_ok [OF m] by simp
qed

lemma chunks_concat:
  assumes "\<forall>m \<in> set ms. length m = n"
  shows "chunks (length ms) n (concat ms) = ms"
  using assms
proof (induction ms)
  case Nil
  show ?case by (simp add: chunks_def)
next
  case (Cons m ms)
  have "chunks (Suc (length ms)) n (m @ concat ms) =
        take n (m @ concat ms) # map (\<lambda>i. take n (drop (Suc i * n) (m @ concat ms))) [0..<length ms]"
    unfolding chunks_def by (simp add: upt_conv_Cons map_Suc_upt [symmetric] del: upt_Suc)
  also have "\<dots> = m # chunks (length ms) n (concat ms)"
    using Cons.prems by (simp add: chunks_def)
  finally show ?case using Cons by simp
qed


lemma expandable_refl: "expandable s s"
  by (simp add: expandable_def pad_shape_def list_all2_same)

lemma expandable_last: "expandable [b, n, 1] [b, n, d]"
  by (simp add: expandable_def pad_shape_def)

lemma masked_fill0_ok:
  assumes "shape_of v = Some sh" and "shape m = sh"
  shows "\<exists>w. masked_fill0 v m = Inr w \<and> shape_of w = Some sh"
  using assms
  by (cases v) (auto simp: masked_fill0_def shape_of_def expand_to_def expandable_refl ebind_def)

lemma add_image_feat_masked_run:
  assumes v: "psl s ''image_feat'' = Some v"
    and sh: "shape_of v = Some [B, N, D]"
    and ms: "get_img_masks (case mask_probability (model s) of None \<Rightarrow> 0 | Some p \<Rightarrow> p) N B (rand s) = (Inr ms, g)"
    and B: "1 \<le> B" and len: "length ms = B" and rows: "\<forall>m \<in> set ms. length m = N"
  shows "\<exists>w. masked_fill0 v (Tensor [B, N, D] (expand [B, N, 1] [B, N, D] (concat ms))) = Inr w \<and>
     add_image_feat_masked s =
       (Inr (), s\<lparr>rand := g, psl := (psl s)(''image_feat_masked'' \<mapsto> w,
                                      ''image_mask'' \<mapsto> BoolT (Tensor [B, N] (concat ms)))\<rparr>)"
proof -
  from B len have ne: "ms \<noteq> []" by auto
  with rows have hd: "length (hd ms) = N" by simp
  have st: "stack_masks ms = Tensor [B, N] (concat ms)"
    using ne len hd by (simp add: stack_masks_def)
  obtain w where w: "masked_fill0 v (Tensor [B, N, D] (expand [B, N, 1] [B, N, D] (concat ms))) = Inr w"
    using masked_fill0_ok [OF sh, of "Tensor [B, N, D] (expand [B, N, 1] [B, N, D] (concat ms))"] by auto
  have ex: "expand_as (unsqueeze_last (Tensor [B, N] (concat ms))) v
        = Inr (Tensor [B, N, D] (expand [B, N, 1] [B, N, D] (concat ms)))"
    using sh expandable_last [of B N D]
    by (simp add: expand_as_def expand_to_def unsqueeze_last_def pad_shape_def)
  have "add_image_feat_masked s =
       (Inr (), s\<lparr>rand := g, psl := (psl s)(''image_feat_masked'' \<mapsto> w,
                                      ''image_mask'' \<mapsto> BoolT (Tensor [B, N] (concat ms)))\<rparr>)"
    unfolding add_image_feat_masked_def
    using v sh ms st w ex
    by (simp add: p_bind_def p_return_def p_lift_def get_item_def set_item_def with_rng_def
        torch_clone_def size_at_def)
  with w show ?thesis by blast
qed

text \<open>
  C2. Whatever the random generator returns and whatever the mask probability
  is (the state \<open>s\<close> is arbitrary), on a batch of region features of shape
  \<open>(B, N, D)\<close> with at least one example and at least one region per example,
  \<open>add_image_feat_masked\<close> returns, and the mask it stores under \<open>image_mask\<close>
  has shape \<open>(B, N)\<close> and at least one true position in the row of every
  example.
\<close>

theorem add_image_feat_masked_never_all_false:
  assumes "psl s ''image_feat'' = Some v"
    and "shape_of v = Some [B, N, D]"
    and "1 \<le> B" and "1 \<le> N"
  shows "\<exists>s' t. add_image_feat_masked s = (Inr (), s')
           \<and> psl s' ''image_mask'' = Some (BoolT t) \<and> shape t = [B, N]
           \<and> length (rows_of t) = B
           \<and> (\<forall>row \<in> set (rows_of t). length row = N \<and> True \<in> set row)"
proof -
  obtain ms g where ms:
      "get_img_masks (case mask_probability (model s) of None \<Rightarrow> 0 | Some p \<Rightarrow> p) N B (rand s)
         = (Inr ms, g)"
      "length ms = B" "\<forall>m \<in> set ms. length m = N \<and> True \<in> set m"
    using get_img_masks_ok [OF assms(4)] by blast
  then have rows: "\<forall>m \<in> set ms. length m = N" by blast
  obtain w where run: "add_image_feat_masked s =
       (Inr (), s\<lparr>rand := g, psl := (psl s)(''image_feat_masked'' \<mapsto> w,
                                      ''image_mask'' \<mapsto> BoolT (Tensor [B, N] (concat ms)))\<rparr>)"
    using add_image_feat_masked_run [OF assms(1,2) ms(1) assms(3) ms(2) rows] by blast
  have "rows_of (Tensor [B, N] (concat ms)) = ms"
    using chunks_concat [OF rows] ms(2) by (simp add: rows_of_def numel_def)
  with run ms show ?thesis by simp
qed

theorem add_image_feat_masked_never_all_false_witness:
  "psl (demo_state ''mrc'') ''image_feat'' = Some (FloatT (Tensor [2, 2, 1] [1, 2, 3, 4]))
   \<and> shape_of (FloatT (Tensor [2, 2, 1] [1, 2, 3, 4])) = Some [2, 2, 1]
   \<and> (1::nat) \<le> 2
   \<and> (\<exists>s' t. add_image_feat_masked (demo_state ''mrc'') = (Inr (), s')
           \<and> psl s' ''image_mask'' = Some (BoolT t) \<and> shape t = [2, 2]
           \<and> length (rows_of t) = 2
           \<and> (\<forall>row \<in> set (rows_of t). length row = 2 \<and> True \<in> set row))"
  using add_image_feat_masked_never_all_false
    [of "demo_state ''mrc''" "FloatT (Tensor [2, 2, 1] [1, 2, 3, 4])" 2 2 1]
  by (simp add: demo_state_def demo_batch_def shape_of_def)

section \<open>The image embedding unit\<close>

lemma map2_add_zeros: "length v = d \<Longrightarrow> map2 (+) v (replicate d (0::real)) = v"
  by (induction v arbitrary: d) auto

lemma embedding_lookup_mask:
  assumes "length w = 2 * D"
  shows "embedding_lookup (Tensor [2, D] (replicate D 0 @ drop D w))
           (tmap bool_to_int (Tensor [B, N] ms))
       = Inr (Tensor [B, N, D] (concat (map (\<lambda>b. if b then drop D w else replicate D 0) ms)))"
proof -
  have "(\<lambda>i. take D (drop (nat i * D) (replicate D (0::real) @ drop D w))) \<circ> bool_to_int
      = (\<lambda>b. if b then drop D w else replicate D 0)"
    using assms by (auto simp: bool_to_int_def fun_eq_iff)
  moreover have "list_all (\<lambda>i. 0 \<le> i \<and> i < 2) (map bool_to_int ms)"
    by (auto simp: list_all_iff bool_to_int_def)
  ultimately show ?thesis
    by (simp add: embedding_lookup_def tmap_def numel_def)
qed

lemma add_rows_pointwise:
  assumes "length xs = length ms * D" and "length r = D"
  shows "map2 (+) xs (concat (map (\<lambda>b. if b then r else replicate D (0::real)) ms))
       = concat (map2 (\<lambda>v b. if b then map2 (+) v r else v) (chunks (length ms) D xs) ms)"
proof -
  let ?rowf = "\<lambda>b. if b then r else replicate D (0::real)"
  have "map2 (+) xs (concat (map ?rowf ms))
      = concat (map2 (\<lambda>v b. map2 (+) v (?rowf b)) (chunks (length ms) D xs) ms)"
    using assms by (intro map2_add_rows) auto
  also have "map2 (\<lambda>v b. map2 (+) v (?rowf b)) (chunks (length ms) D xs) ms
           = map2 (\<lambda>v b. if b then map2 (+) v r else v) (chunks (length ms) D xs) ms"
  proof (rule map_cong [OF refl])
    fix p assume "p \<in> set (zip (chunks (length ms) D xs) ms)"
    then have "fst p \<in> set (chunks (length ms) D xs)"
      using set_zip_leftD [of "fst p" "snd p"] by simp
    then have "length (fst p) = D"
      using chunks_lengths [OF assms(1)] by blast
    then show "(case p of (v, b) \<Rightarrow> map2 (+) v (?rowf b))
             = (case p of (v, b) \<Rightarrow> if b then map2 (+) v r else v)"
      by (cases p) (simp add: map2_add_zeros)
  qed
  finally show ?thesis .
qed

text \<open>
  C8. With a boolean mask of shape \<open>(B, N)\<close>, region features of shape
  \<open>(B, N, D)\<close> and a table of two rows of length \<open>D\<close>: the forward pass
  leaves a table whose row 0 is zero and whose row 1 is unchanged, and what
  it hands to the projection is, region by region, the feature vector plus
  row 1 of the table where the mask is true and the feature vector itself
  where it is false. Without a mask the features are handed on as they are and
  the table is not touched.
\<close>

theorem image_embeddings_mask_adds_row1:
  assumes "mask_embedding self = Tensor [2, D] w" and "length w = 2 * D"
    and "length xs = B * N * D" and "length ms = B * N"
  shows "UniterImageEmbeddings_forward self (FloatT (Tensor [B, N, D] xs)) img_pos_feat
            type_embeddings (BoolT (Tensor [B, N] ms))
       = (embed_features (self\<lparr>mask_embedding := Tensor [2, D] (replicate D 0 @ drop D w)\<rparr>)
            (FloatT (Tensor [B, N, D]
               (concat (map2 (\<lambda>v b. if b then map2 (+) v (drop D w) else v)
                             (chunks (B * N) D xs) ms))))
            img_pos_feat type_embeddings,
          self\<lparr>mask_embedding := Tensor [2, D] (replicate D 0 @ drop D w)\<rparr>)
     \<and> UniterImageEmbeddings_forward self img_feat img_pos_feat type_embeddings NoneV
       = (embed_features self img_feat img_pos_feat type_embeddings, self)"
proof -
  let ?rows = "concat (map (\<lambda>b. if b then drop D w else replicate D 0) ms)"
  have fill: "fill_row0 (Tensor [2, D] w) = Tensor [2, D] (replicate D 0 @ drop D w)"
    by (simp add: fill_row0_def numel_def)
  have look: "embedding_lookup (Tensor [2, D] (replicate D 0 @ drop D w))
                (tmap bool_to_int (Tensor [B, N] ms)) = Inr (Tensor [B, N, D] ?rows)"
    using assms(2) by (rule embedding_lookup_mask)
  have lr: "length ?rows = B * N * D"
    using assms(2,4) by (simp add: length_concat comp_def sum_list_triv if_distrib cong: if_cong)
  have "py_add (FloatT (Tensor [B, N, D] xs)) (FloatT (Tensor [B, N, D] ?rows))
      = Inr (FloatT (Tensor [B, N, D] (map2 (+) xs ?rows)))"
    using assms(3) lr
    by (simp add: py_add_def tensor_add_def dtype_rank_def to_float_def ebind_def
        broadcast2_same numel_def)
  moreover have "map2 (+) xs ?rows
      = concat (map2 (\<lambda>v b. if b then map2 (+) v (drop D w) else v) (chunks (B * N) D xs) ms)"
    using add_rows_pointwise [of xs ms D "drop D w"] assms(2,3,4) by simp
  ultimately show ?thesis
    using assms(1) fill look
    by (simp add: UniterImageEmbeddings_forward_def to_long_def ebind_def Let_def)
qed

theorem image_embeddings_mask_adds_row1_witness:
  "mask_embedding demo_image_embeddings = Tensor [2, 1] [5, 7]
   \<and> length [5, 7 :: real] = 2 * 1
   \<and> length [1, 2, 3, 4 :: real] = 2 * 2 * 1
   \<and> length [False, True, False, True] = 2 * 2
   \<and> UniterImageEmbeddings_forward demo_image_embeddings (FloatT (Tensor [2, 2, 1] [1, 2, 3, 4]))
         (FloatT (Tensor [2, 2, 1] [0, 0, 0, 0])) (FloatT (Tensor [2, 2, 1] [1, 1, 1, 1]))
         (BoolT (Tensor [2, 2] [False, True, False, True]))
       = (Inr (FloatT (Tensor [2, 2, 1] [2, 10, 4, 12])),
          demo_image_embeddings\<lparr>mask_embedding := Tensor [2, 1] [0, 7]\<rparr>)"
proof -
  have h1: "mask_embedding demo_image_embeddings = Tensor [2, 1] [5, 7]"
    by (simp add: demo_image_embeddings_def)
  have h2: "length [5, 7 :: real] = 2 * 1" by simp
  have h3: "length [1, 2, 3, 4 :: real] = 2 * 2 * 1" by simp
  have h4: "length [False, True, False, True] = 2 * 2" by simp
  note run = image_embeddings_mask_adds_row1 [OF h1 h2 h3 h4,
      of "FloatT (Tensor [2, 2, 1] [0, 0, 0, 0])" "FloatT (Tensor [2, 2, 1] [1, 1, 1, 1])" NoneV,
      THEN conjunct1]
  have "embed_features (demo_image_embeddings\<lparr>mask_embedding := Tensor [2, 1] (replicate 1 0 @ drop 1 [5, 7])\<rparr>)
            (FloatT (Tensor [2, 2, 1]
               (concat (map2 (\<lambda>v b. if b then map2 (+) v (drop 1 [5, 7]) else v)
                             (chunks (2 * 2) 1 [1, 2, 3, 4]) [False, True, False, True]))))
            (FloatT (Tensor [2, 2, 1] [0, 0, 0, 0])) (FloatT (Tensor [2, 2, 1] [1, 1, 1, 1]))
        = Inr (FloatT (Tensor [2, 2, 1] [2, 10, 4, 12]))"
    by code_simp
  with run h1 show ?thesis by simp
qed

section \<open>The joint encoder\<close>

lemma bias_01:
  assumes "set ms \<subseteq> {0, 1 :: real}"
  shows "map (\<lambda>m. (1 - m) * (- 10000)) ms = map (\<lambda>m. if m = 0 then - 10000 else 0) ms"
  using assms by (intro map_cong) auto

lemma unsqueeze_twice_float:
  assumes "to_float attention_mask = Inr (Tensor [B, S] ms)"
  shows "ebind (unsqueeze_val 1 attention_mask) (\<lambda>m1. ebind (unsqueeze_val 2 m1) to_float)
       = Inr (Tensor [B, 1, 1, S] ms)"
  using assms
  by (cases attention_mask)
     (auto simp: to_float_def unsqueeze_val_def unsqueeze_at_def ebind_def tmap_def
           split: tensor.splits)

text \<open>
  C7. For an attention mask of shape \<open>(B, S)\<close> with entries 0 and 1 (of any
  element type, read as numbers), the self-attention mask has shape
  \<open>(B, 1, 1, S)\<close>, with -10000 where the entry is 0 and 0 where it is 1; and
  whatever the embedding path, this is the mask the encoder stack receives.
\<close>

theorem attention_mask_is_additive_bias:
  assumes "to_float attention_mask = Inr (Tensor [B, S] ms)" and "set ms \<subseteq> {0, 1}"
  shows "extended_attention_mask attention_mask
           = Inr (Tensor [B, 1, 1, S] (map (\<lambda>m. if m = 0 then - 10000 else 0) ms))
     \<and> UniterModelBase_forward self input_ids position_ids img_feat img_pos_feat attention_mask
          gather_index img_masks output_hidden_states txt_type_ids img_type_ids
       = (case embedding_layer self input_ids position_ids img_feat img_pos_feat gather_index
                 img_masks txt_type_ids img_type_ids of
            (Inl e, self1) \<Rightarrow> (Inl e, self1)
          | (Inr embedding_output, self1) \<Rightarrow>
              (encode self1 embedding_output
                 (FloatT (Tensor [B, 1, 1, S] (map (\<lambda>m. if m = 0 then - 10000 else 0) ms)))
                 output_hidden_states, self1))"
proof -
  have "extended_attention_mask attention_mask
      = Inr (Tensor [B, 1, 1, S] (map (\<lambda>m. (1 - m) * (- 10000)) ms))"
    using unsqueeze_twice_float [OF assms(1)]
    by (auto simp: extended_attention_mask_def ebind_def tmap_def split: sum.splits)
  then have m: "extended_attention_mask attention_mask
      = Inr (Tensor [B, 1, 1, S] (map (\<lambda>m. if m = 0 then - 10000 else 0) ms))"
    using bias_01 [OF assms(2)] by simp
  show ?thesis
    unfolding UniterModelBase_forward_def m by (simp only: sum.case simp_thms)
qed

theorem attention_mask_is_additive_bias_witness:
  "to_float (LongT (Tensor [2, 3] [1, 1, 1, 1, 1, 0])) = Inr (Tensor [2, 3] [1, 1, 1, 1, 1, 0])
   \<and> set [1, 1, 1, 1, 1, 0 :: real] \<subseteq> {0, 1}
   \<and> extended_attention_mask (LongT (Tensor [2, 3] [1, 1, 1, 1, 1, 0]))
       = Inr (Tensor [2, 1, 1, 3] [0, 0, 0, 0, 0, - 10000])"
proof -
  have h1: "to_float (LongT (Tensor [2, 3] [1, 1, 1, 1, 1, 0]))
          = Inr (Tensor [2, 3] [1, 1, 1, 1, 1, 0])"
    by (simp add: to_float_def tmap_def)
  have h2: "set [1, 1, 1, 1, 1, 0 :: real] \<subseteq> {0, 1}" by simp
  from attention_mask_is_additive_bias [OF h1 h2, THEN conjunct1] h1 h2
  show ?thesis by simp
qed

lemma image_forward_without_features:
  "\<exists>e. fst (UniterImageEmbeddings_forward ie NoneV img_pos_feat te img_masks) = Inl e"
  by (auto simp: UniterImageEmbeddings_forward_def embed_features_def call_layer_def ebind_def
        py_add_def dtype_rank_def Let_def split: sum.splits)

lemma compute_img_embeddings_without_features:
  "\<exists>e. fst (compute_img_embeddings self NoneV img_pos_feat img_masks img_type_ids) = Inl e"
proof -
  have "\<exists>e. fst (UniterImageEmbeddings_forward (img_embeddings self) NoneV img_pos_feat te img_masks) = Inl e" for te
    by (rule image_forward_without_features)
  then have "\<exists>e. fst (case UniterImageEmbeddings_forward (img_embeddings self) NoneV
                          img_pos_feat te img_masks of
                     (output, ie) \<Rightarrow> (output, self\<lparr>img_embeddings := ie\<rparr>)) = Inl e" for te
    by (simp add: split_beta)
  then show ?thesis
    by (simp add: compute_img_embeddings_def default_img_type_ids_def shape_of_def
          split: sum.splits)
qed

lemma cat_sequence:
  "py_cat 1 (FloatT (Tensor [B, T, H] xs)) (FloatT (Tensor [B, N, H] ys))
     = Inr (FloatT (Tensor [B, T + N, H]
         (concat (map2 (@) (chunks B (T * H) xs) (chunks B (N * H) ys)))))"
  by (simp add: py_cat_def dtype_rank_def to_float_def ebind_def torch_cat_def resolve_dim_def
      cat_at_def numel_def)

lemma default_type_ids_ones:
  assumes "shape_of img_feat = Some [B, N, D]" and "0 < D"
  shows "default_img_type_ids img_feat = Inr (LongT (Tensor [B, N] (replicate (B * N) 1)))"
  using assms by (simp add: default_img_type_ids_def numel_def)

text \<open>
  C3. The embedding step of the forward pass. Without \<open>input_ids\<close> it is the
  image embedding alone. Without \<open>image_feat\<close>, an embedding that the step
  returns is the text embedding alone (when \<open>input_ids\<close> is absent as well the
  image path is taken and raises). With both, it is the text embedding
  followed by the image embedding along dimension 1, whatever the gather
  index: for embeddings of shapes \<open>(B, T, H)\<close> and \<open>(B, N, H)\<close> the result has
  shape \<open>(B, T + N, H)\<close> and every example is its text block followed by its
  image block. Image type ids that are not supplied are all ones, of shape
  \<open>(B, N)\<close>.
\<close>

theorem embedding_layer_paths:
  "(input_ids = NoneV \<longrightarrow>
      embedding_layer self input_ids position_ids img_feat img_pos_feat gather_index
        img_masks txt_type_ids img_type_ids
      = compute_img_embeddings self img_feat img_pos_feat img_masks img_type_ids)
   \<and> (img_feat = NoneV \<longrightarrow>
        (\<forall>emb self1.
           embedding_layer self input_ids position_ids img_feat img_pos_feat gather_index
             img_masks txt_type_ids img_type_ids = (Inr emb, self1)
           \<longrightarrow> compute_txt_embeddings self input_ids position_ids txt_type_ids = Inr emb
               \<and> self1 = self))
   \<and> (input_ids \<noteq> NoneV \<and> img_feat \<noteq> NoneV \<longrightarrow>
        embedding_layer self input_ids position_ids img_feat img_pos_feat gather_index
          img_masks txt_type_ids img_type_ids
        = (case compute_txt_embeddings self input_ids position_ids txt_type_ids of
             Inl e \<Rightarrow> (Inl e, self)
           | Inr txt_emb \<Rightarrow>
               (case compute_img_embeddings self img_feat img_pos_feat img_masks img_type_ids of
                  (Inl e, self1) \<Rightarrow> (Inl e, self1)
                | (Inr img_emb, self1) \<Rightarrow> (py_cat 1 txt_emb img_emb, self1))))
   \<and> py_cat 1 (FloatT (Tensor [B, T, H] xs)) (FloatT (Tensor [B, N, H] ys))
       = Inr (FloatT (Tensor [B, T + N, H]
           (concat (map2 (@) (chunks B (T * H) xs) (chunks B (N * H) ys)))))
   \<and> (shape_of img_feat = Some [B, N, D] \<and> 0 < D \<longrightarrow>
        compute_img_embeddings self img_feat img_pos_feat img_masks NoneV
        = compute_img_embeddings self img_feat img_pos_feat img_masks
            (LongT (Tensor [B, N] (replicate (B * N) 1))))"
proof (intro conjI impI allI)
  assume "input_ids = NoneV"
  then show "embedding_layer self input_ids position_ids img_feat img_pos_feat gather_index
        img_masks txt_type_ids img_type_ids
      = compute_img_embeddings self img_feat img_pos_feat img_masks img_type_ids"
    by (simp add: embedding_layer_def)
next
  fix emb self1
  assume a: "img_feat = NoneV"
    and r: "embedding_layer self input_ids position_ids img_feat img_pos_feat gather_index
             img_masks txt_type_ids img_type_ids = (Inr emb, self1)"
  have ne: "input_ids \<noteq> NoneV"
  proof
    assume "input_ids = NoneV"
    with a r have "fst (compute_img_embeddings self NoneV img_pos_feat img_masks img_type_ids) = Inr emb"
      by (simp add: embedding_layer_def)
    with compute_img_embeddings_without_features [of self img_pos_feat img_masks img_type_ids]
    show False by auto
  qed
  with a r show "compute_txt_embeddings self input_ids position_ids txt_type_ids = Inr emb"
    by (auto simp: embedding_layer_def)
  from ne a r show "self1 = self"
    by (auto simp: embedding_layer_def)
next
  assume "input_ids \<noteq> NoneV \<and> img_feat \<noteq> NoneV"
  then show "embedding_layer self input_ids position_ids img_feat img_pos_feat gather_index
          img_masks txt_type_ids img_type_ids
        = (case compute_txt_embeddings self input_ids position_ids txt_type_ids of
             Inl e \<Rightarrow> (Inl e, self)
           | Inr txt_emb \<Rightarrow>
               (case compute_img_embeddings self img_feat img_pos_feat img_masks img_type_ids of
                  (Inl e, self1) \<Rightarrow> (Inl e, self1)
                | (Inr img_emb, self1) \<Rightarrow> (py_cat 1 txt_emb img_emb, self1)))"
    by (simp add: embedding_layer_def compute_img_txt_embeddings_def)
next
  show "py_cat 1 (FloatT (Tensor [B, T, H] xs)) (FloatT (Tensor [B, N, H] ys))
       = Inr (FloatT (Tensor [B, T + N, H]
           (concat (map2 (@) (chunks B (T * H) xs) (chunks B (N * H) ys)))))"
    by (rule cat_sequence)
next
  assume "shape_of img_feat = Some [B, N, D] \<and> 0 < D"
  then show "compute_img_embeddings self img_feat img_pos_feat img_masks NoneV
        = compute_img_embeddings self img_feat img_pos_feat img_masks
            (LongT (Tensor [B, N] (replicate (B * N) 1)))"
    by (simp add: compute_img_embeddings_def default_type_ids_ones)
qed


theorem embedding_layer_paths_witness:
  "fst (embedding_layer demo_uniter NoneV (LongT (Tensor [1, 1] [0]))
          (FloatT (Tensor [2, 2, 1] [1, 2, 3, 4])) (FloatT (Tensor [2, 2, 1] [0, 0, 0, 0]))
          NoneV NoneV NoneV NoneV)
     = Inr (FloatT (Tensor [2, 2, 1] [2, 3, 4, 5]))
   \<and> embedding_layer demo_uniter (LongT (Tensor [2, 1] [11, 12])) (LongT (Tensor [1, 1] [0]))
          NoneV NoneV NoneV NoneV NoneV NoneV
     = (Inr (FloatT (Tensor [2, 1, 1] [11, 12])), demo_uniter)
   \<and> compute_txt_embeddings demo_uniter (LongT (Tensor [2, 1] [11, 12]))
          (LongT (Tensor [1, 1] [0])) NoneV
     = Inr (FloatT (Tensor [2, 1, 1] [11, 12]))
   \<and> fst (embedding_layer demo_uniter (LongT (Tensor [2, 1] [11, 12])) (LongT (Tensor [1, 1] [0]))
          (FloatT (Tensor [2, 2, 1] [1, 2, 3, 4])) (FloatT (Tensor [2, 2, 1] [0, 0, 0, 0]))
          NoneV NoneV NoneV NoneV)
     = Inr (FloatT (Tensor [2, 3, 1] [11, 2, 3, 12, 4, 5]))
   \<and> shape_of (FloatT (Tensor [2, 2, 1] [1, 2, 3, 4])) = Some [2, 2, 1] \<and> (0::nat) < 1
   \<and> compute_img_embeddings demo_uniter (FloatT (Tensor [2, 2, 1] [1, 2, 3, 4]))
          (FloatT (Tensor [2, 2, 1] [0, 0, 0, 0])) NoneV NoneV
     = compute_img_embeddings demo_uniter (FloatT (Tensor [2, 2, 1] [1, 2, 3, 4]))
          (FloatT (Tensor [2, 2, 1] [0, 0, 0, 0])) NoneV
          (LongT (Tensor [2, 2] (replicate (2 * 2) 1)))"
proof -
  let ?X = "LongT (Tensor [2, 1] [11, 12])"
  let ?P = "LongT (Tensor [1, 1] [0])"
  let ?I = "FloatT (Tensor [2, 2, 1] [1, 2, 3, 4])"
  let ?F = "FloatT (Tensor [2, 2, 1] [0, 0, 0, 0])"
  note image_only = embedding_layer_paths
    [where input_ids = NoneV and self = demo_uniter and position_ids = ?P and img_feat = ?I
       and img_pos_feat = ?F and gather_index = NoneV and img_masks = NoneV
       and txt_type_ids = NoneV and img_type_ids = NoneV and B = 2 and N = 2 and D = 1]
  note text_only = embedding_layer_paths
    [where input_ids = ?X and self = demo_uniter and position_ids = ?P and img_feat = NoneV
       and img_pos_feat = NoneV and gather_index = NoneV and img_masks = NoneV
       and txt_type_ids = NoneV and img_type_ids = NoneV]
  note joint = embedding_layer_paths
    [where input_ids = ?X and self = demo_uniter and position_ids = ?P and img_feat = ?I
       and img_pos_feat = ?F and gather_index = NoneV and img_masks = NoneV
       and txt_type_ids = NoneV and img_type_ids = NoneV]
  have v1: "fst (compute_img_embeddings demo_uniter ?I ?F NoneV NoneV)
          = Inr (FloatT (Tensor [2, 2, 1] [2, 3, 4, 5]))"
    by code_simp
  have p2: "embedding_layer demo_uniter ?X ?P NoneV NoneV NoneV NoneV NoneV NoneV
          = (Inr (FloatT (Tensor [2, 1, 1] [11, 12])), demo_uniter)"
    by (simp add: embedding_layer_def compute_txt_embeddings_def demo_uniter_def demo_embed_def)
  have v3: "fst (case compute_txt_embeddings demo_uniter ?X ?P NoneV of
             Inl e \<Rightarrow> (Inl e, demo_uniter)
           | Inr txt_emb \<Rightarrow>
               (case compute_img_embeddings demo_uniter ?I ?F NoneV NoneV of
                  (Inl e, self1) \<Rightarrow> (Inl e, self1)
                | (Inr img_emb, self1) \<Rightarrow> (py_cat 1 txt_emb img_emb, self1)))
          = Inr (FloatT (Tensor [2, 3, 1] [11, 2, 3, 12, 4, 5]))"
    by code_simp
  have c1: "fst (embedding_layer demo_uniter NoneV ?P ?I ?F NoneV NoneV NoneV NoneV)
          = Inr (FloatT (Tensor [2, 2, 1] [2, 3, 4, 5]))"
    using image_only v1 by simp
  have c2: "compute_txt_embeddings demo_uniter ?X ?P NoneV = Inr (FloatT (Tensor [2, 1, 1] [11, 12]))"
    using text_only p2 by blast
  have c3: "fst (embedding_layer demo_uniter ?X ?P ?I ?F NoneV NoneV NoneV NoneV)
          = Inr (FloatT (Tensor [2, 3, 1] [11, 2, 3, 12, 4, 5]))"
    using joint v3 by simp
  have c4: "compute_img_embeddings demo_uniter ?I ?F NoneV NoneV
          = compute_img_embeddings demo_uniter ?I ?F NoneV
              (LongT (Tensor [2, 2] (replicate (2 * 2) 1)))"
    using image_only by (simp add: shape_of_def)
  from c1 p2 c2 c3 c4 show ?thesis by (simp add: shape_of_def)
qed

section \<open>Head outputs\<close>

lemma last_dvd_numel: "sh \<noteq> [] \<Longrightarrow> numel sh mod last sh = 0"
proof -
  assume "sh \<noteq> []"
  then have "sh = butlast sh @ [last sh]" by simp
  then have "prod_list sh = prod_list (butlast sh) * last sh"
    by (metis prod_list.append prod_list.Cons prod_list.Nil mult.right_neutral)
  then show ?thesis by (simp add: numel_def)
qed

lemma scores_of_head_output:
  "(if is_mapping outputs \<and> has_key ''scores'' outputs
    then subscript outputs ''scores'' else Inr outputs) = Inr (scores_of outputs)"
  by (cases outputs) (auto simp: is_mapping_def has_key_def subscript_def scores_of_def)

lemma view2_val_last:
  assumes "shape_of v = Some sh" and "sh \<noteq> []" and "last sh \<noteq> 0"
  shows "view2_val v (last sh) = Inr (with_shape [numel sh div last sh, last sh] v)"
  using assms last_dvd_numel [OF assms(2)]
  by (cases v) (auto simp: view2_val_def view2_def with_shape_def shape_of_def)

text \<open>
  C4. A head output that is a mapping with a \<open>losses\<close> key is returned as it
  is. Otherwise the scores (the entry \<open>scores\<close> of a mapping that has one, else
  the output itself), a tensor of shape \<open>sh\<close> with at least one dimension and a
  last dimension that is not empty, keep their elements and take the shape
  \<open>(numel sh div last sh, last sh)\<close>; the loss unit registered under the dataset
  name is applied to the batch and these scores, and the result is the mapping
  of \<open>losses\<close> to what the loss unit returned and of \<open>scores\<close> to the reshaped
  scores.
\<close>

theorem process_head_outputs_cases:
  "(is_mapping outputs \<and> has_key ''losses'' outputs \<longrightarrow>
      process_head_outputs dataset_name ls sample_list outputs = Inr outputs)
   \<and> (\<not> (is_mapping outputs \<and> has_key ''losses'' outputs)
       \<and> shape_of (scores_of outputs) = Some sh \<and> sh \<noteq> [] \<and> last sh \<noteq> 0
       \<and> dataset_name = Str name \<and> ls name = Some loss_unit
       \<and> loss_unit sample_list
            (Dict [(''scores'', with_shape [numel sh div last sh, last sh] (scores_of outputs))])
          = Some loss_result
      \<longrightarrow> process_head_outputs dataset_name ls sample_list outputs
          = Inr (Dict [(''losses'', loss_result),
                       (''scores'', with_shape [numel sh div last sh, last sh] (scores_of outputs))]))"
proof (intro conjI impI)
  assume "is_mapping outputs \<and> has_key ''losses'' outputs"
  then show "process_head_outputs dataset_name ls sample_list outputs = Inr outputs"
    by (simp add: process_head_outputs_def)
next
  assume a: "\<not> (is_mapping outputs \<and> has_key ''losses'' outputs)
       \<and> shape_of (scores_of outputs) = Some sh \<and> sh \<noteq> [] \<and> last sh \<noteq> 0
       \<and> dataset_name = Str name \<and> ls name = Some loss_unit
       \<and> loss_unit sample_list
            (Dict [(''scores'', with_shape [numel sh div last sh, last sh] (scores_of outputs))])
          = Some loss_result"
  then have v: "view2_val (scores_of outputs) (last sh)
              = Inr (with_shape [numel sh div last sh, last sh] (scores_of outputs))"
    by (intro view2_val_last) auto
  from a have sl: "size_last (scores_of outputs) = Inr (last sh)"
    by (simp add: size_last_def)
  from a v sl show "process_head_outputs dataset_name ls sample_list outputs
          = Inr (Dict [(''losses'', loss_result),
                       (''scores'', with_shape [numel sh div last sh, last sh] (scores_of outputs))])"
    unfolding process_head_outputs_def scores_of_head_output
    by (auto simp: ebind_def module_get_def call_def)
qed

theorem process_head_outputs_cases_witness:
  "is_mapping (Dict [(''losses'', Dict [])]) \<and> has_key ''losses'' (Dict [(''losses'', Dict [])])
   \<and> process_head_outputs (Str ''test'') [''test'' \<mapsto> (\<lambda>sl v. Some (Dict [(''test/test/bce'', v)]))]
        (demo_batch ''test'') (Dict [(''losses'', Dict [])])
     = Inr (Dict [(''losses'', Dict [])])
   \<and> shape_of (scores_of (FloatT (Tensor [2, 1, 2] [1, 2, 3, 4]))) = Some [2, 1, 2]
   \<and> process_head_outputs (Str ''test'') [''test'' \<mapsto> (\<lambda>sl v. Some (Dict [(''test/test/bce'', v)]))]
        (demo_batch ''test'') (FloatT (Tensor [2, 1, 2] [1, 2, 3, 4]))
     = Inr (Dict [(''losses'', Dict [(''test/test/bce'',
                     Dict [(''scores'', FloatT (Tensor [2, 2] [1, 2, 3, 4]))])]),
                  (''scores'', FloatT (Tensor [2, 2] [1, 2, 3, 4]))])"
proof -
  let ?ls = "[''test'' \<mapsto> (\<lambda>sl v. Some (Dict [(''test/test/bce'', v)]))] :: string \<rightharpoonup> loss"
  note pass = process_head_outputs_cases
    [where outputs = "Dict [(''losses'', Dict [])]" and dataset_name = "Str ''test''"
       and ls = ?ls and sample_list = "demo_batch ''test''", THEN conjunct1]
  note score = process_head_outputs_cases
    [where outputs = "FloatT (Tensor [2, 1, 2] [1, 2, 3, 4])" and dataset_name = "Str ''test''"
       and ls = ?ls and sample_list = "demo_batch ''test''" and sh = "[2, 1, 2]"
       and name = "''test''" and loss_unit = "\<lambda>sl v. Some (Dict [(''test/test/bce'', v)])"
       and loss_result = "Dict [(''test/test/bce'', Dict [(''scores'', FloatT (Tensor [2, 2] [1, 2, 3, 4]))])]",
     THEN conjunct2]
  have h1: "is_mapping (Dict [(''losses'', Dict [])]) \<and> has_key ''losses'' (Dict [(''losses'', Dict [])])"
    by (simp add: is_mapping_def has_key_def)
  have h2: "shape_of (scores_of (FloatT (Tensor [2, 1, 2] [1, 2, 3, 4]))) = Some [2, 1, 2]"
    by (simp add: scores_of_def shape_of_def)
  have h3: "with_shape [numel [2, 1, 2] div last [2, 1, 2], last [2, 1, 2]]
              (scores_of (FloatT (Tensor [2, 1, 2] [1, 2, 3, 4])))
          = FloatT (Tensor [2, 2] [1, 2, 3, 4])"
    by (simp add: scores_of_def with_shape_def numel_def)
  from pass h1 have c1: "process_head_outputs (Str ''test'') ?ls (demo_batch ''test'')
        (Dict [(''losses'', Dict [])]) = Inr (Dict [(''losses'', Dict [])])"
    by blast
  from score h2 h3 have c2: "process_head_outputs (Str ''test'') ?ls (demo_batch ''test'')
        (FloatT (Tensor [2, 1, 2] [1, 2, 3, 4]))
     = Inr (Dict [(''losses'', Dict [(''test/test/bce'',
                     Dict [(''scores'', FloatT (Tensor [2, 2] [1, 2, 3, 4]))])]),
                  (''scores'', FloatT (Tensor [2, 2] [1, 2, 3, 4]))])"
    by (simp add: is_mapping_def)
  from h1 h2 c1 c2 show ?thesis by simp
qed

section \<open>Exceptions of the pretraining forward pass\<close>

lemma ebind_eq_Inl: "ebind x f = Inl e \<longleftrightarrow> x = Inl e \<or> (\<exists>v. x = Inr v \<and> f v = Inl e)"
  by (cases x) (auto simp: ebind_def)

lemma map_sum_eq_Inl: "map_sum id C x = Inl e \<longleftrightarrow> x = Inl e"
  by (cases x) auto

lemma expand_to_no_assert: "expand_to x t \<noteq> Inl (AssertionError m)"
  by (simp add: expand_to_def)

lemma expand_as_no_assert: "expand_as x other \<noteq> Inl (AssertionError m)"
  by (simp add: expand_as_def expand_to_no_assert split: option.splits)

lemma size_at_no_assert: "size_at v k \<noteq> Inl (AssertionError m)"
  by (simp add: size_at_def split: option.splits)

lemma torch_clone_no_assert: "torch_clone v \<noteq> Inl (AssertionError m)"
  by (simp add: torch_clone_def split: option.splits)

lemma masked_fill0_no_assert: "masked_fill0 v mk \<noteq> Inl (AssertionError m)"
  by (cases v) (auto simp: masked_fill0_def simp: ebind_eq_Inl expand_to_no_assert)

lemma to_float_no_assert: "to_float v \<noteq> Inl (AssertionError m)"
  by (cases v) (auto simp: to_float_def)

lemma to_long_no_assert: "to_long v \<noteq> Inl (AssertionError m)"
  by (cases v) (auto simp: to_long_def)

lemma ne0_no_assert: "ne0 v \<noteq> Inl (AssertionError m)"
  by (cases v) (auto simp: ne0_def)

lemma subscript_no_assert: "subscript v k \<noteq> Inl (AssertionError m)"
  by (cases v) (auto simp: subscript_def split: option.splits)

lemma torch_tensor_no_assert: "torch_tensor v \<noteq> Inl (AssertionError m)"
  by (cases v) (auto simp: torch_tensor_def)

lemma tensor_attr_no_assert: "tensor_attr v \<noteq> Inl (AssertionError m)"
  by (simp add: tensor_attr_def split: option.splits)

lemma torch_full_long_no_assert: "torch_full_long s c \<noteq> Inl (AssertionError m)"
  by (cases c) (auto simp: torch_full_long_def)

lemma resolve_dim_no_assert: "resolve_dim d n \<noteq> Inl (AssertionError m)"
  by (simp add: resolve_dim_def)

lemma cat_at_no_assert: "cat_at d a b \<noteq> Inl (AssertionError m)"
  by (simp add: cat_at_def Let_def)

lemma torch_cat_no_assert: "torch_cat axis a b \<noteq> Inl (AssertionError m)"
  by (auto simp: torch_cat_def ebind_eq_Inl resolve_dim_no_assert cat_at_no_assert)

lemma py_cat_no_assert: "py_cat axis a b \<noteq> Inl (AssertionError m)"
  unfolding py_cat_def
  by (auto simp: ebind_eq_Inl map_sum_eq_Inl torch_cat_no_assert to_float_no_assert
        to_long_no_assert split: val.splits)

lemma mask_ext_no_assert: "mask_ext image_mask x \<noteq> Inl (AssertionError m)"
  by (cases image_mask) (auto simp: mask_ext_def map_sum_eq_Inl expand_as_no_assert)

lemma bool_index_no_assert: "bool_index x mk extra \<noteq> Inl (AssertionError m)"
  by (simp add: bool_index_def Let_def)

lemma long_index_no_assert: "long_index x idx \<noteq> Inl (AssertionError m)"
  by (simp add: long_index_def split: list.splits)

lemma index_by_no_assert: "index_by x mk extra \<noteq> Inl (AssertionError m)"
  unfolding index_by_def
  by (auto simp: map_sum_eq_Inl bool_index_no_assert long_index_no_assert split: val.splits)

lemma view2_val_no_assert: "view2_val v k \<noteq> Inl (AssertionError m)"
  by (cases v) (auto simp: view2_val_def view2_def)

lemma zeros_like_type_no_assert: "zeros_like_type v s \<noteq> Inl (AssertionError m)"
  by (cases v) (auto simp: zeros_like_type_def)

lemma sizes0_no_assert: "sizes0 vs \<noteq> Inl (AssertionError m)"
  by (induction vs) (auto simp: ebind_eq_Inl size_at_no_assert)

lemma row_sizes_no_assert: "row_sizes x \<noteq> Inl (AssertionError m)"
  by (cases x) (auto simp: row_sizes_def sizes0_no_assert shape_of_def split: list.splits)

lemma compute_pad_no_assert: "compute_pad lens \<noteq> Inl (AssertionError m)"
  by (simp add: compute_pad_def Let_def)

lemma module_get_no_assert: "module_get modules key \<noteq> Inl (AssertionError m)"
  by (cases key) (auto simp: module_get_def split: option.splits)

lemma call_no_assert: "call f x \<noteq> Inl (AssertionError m)"
  by (simp add: call_def split: option.splits)

lemma call_layer_no_assert: "call_layer f x \<noteq> Inl (AssertionError m)"
  by (simp add: call_layer_def call_no_assert)

lemma size_last_no_assert: "size_last v \<noteq> Inl (AssertionError m)"
  by (simp add: size_last_def split: option.splits)

lemma process_head_outputs_no_assert:
  "process_head_outputs dataset_name ls sample_list outputs \<noteq> Inl (AssertionError m)"
  unfolding process_head_outputs_def
  by (auto simp: ebind_eq_Inl subscript_no_assert size_last_no_assert view2_val_no_assert
        module_get_no_assert call_no_assert)


lemma unsqueeze_val_no_assert: "unsqueeze_val k v \<noteq> Inl (AssertionError m)"
  by (cases v) (auto simp: unsqueeze_val_def unsqueeze_at_def)

lemma extended_attention_mask_no_assert:
  "extended_attention_mask v \<noteq> Inl (AssertionError m)"
  by (auto simp: extended_attention_mask_def ebind_eq_Inl unsqueeze_val_no_assert to_float_no_assert)

lemma broadcast2_no_assert: "broadcast2 f a b \<noteq> Inl (AssertionError m)"
  by (simp add: broadcast2_def split: option.splits)

lemma tensor_add_no_assert: "tensor_add a b \<noteq> Inl (AssertionError m)"
  unfolding tensor_add_def
  by (auto simp: ebind_eq_Inl map_sum_eq_Inl to_float_no_assert to_long_no_assert
        broadcast2_no_assert split: val.splits)

lemma py_add_no_assert: "py_add a b \<noteq> Inl (AssertionError m)"
  unfolding py_add_def
  by (auto simp: tensor_add_no_assert split: val.splits)

lemma embedding_lookup_no_assert: "embedding_lookup w idx \<noteq> Inl (AssertionError m)"
  by (simp add: embedding_lookup_def split: list.splits)

lemma embed_features_no_assert:
  "embed_features self img_feat img_pos_feat te \<noteq> Inl (AssertionError m)"
  by (auto simp: embed_features_def ebind_eq_Inl call_layer_no_assert py_add_no_assert)

lemma image_forward_no_assert:
  "fst (UniterImageEmbeddings_forward self img_feat img_pos_feat te img_masks)
     \<noteq> Inl (AssertionError m)"
  by (auto simp: UniterImageEmbeddings_forward_def Let_def ebind_eq_Inl to_long_no_assert
        embedding_lookup_no_assert py_add_no_assert embed_features_no_assert)

lemma default_img_type_ids_no_assert: "default_img_type_ids v \<noteq> Inl (AssertionError m)"
  by (simp add: default_img_type_ids_def split: option.splits)

lemma compute_img_embeddings_no_assert:
  "fst (compute_img_embeddings self img_feat img_pos_feat img_masks img_type_ids)
     \<noteq> Inl (AssertionError m)"
  using image_forward_no_assert [of "img_embeddings self" img_feat img_pos_feat _ img_masks m]
  by (auto simp: compute_img_embeddings_def default_img_type_ids_no_assert call_no_assert
        split_beta split: sum.splits)

lemma compute_txt_embeddings_no_assert:
  "compute_txt_embeddings self input_ids position_ids tt \<noteq> Inl (AssertionError m)"
  by (simp add: compute_txt_embeddings_def split: option.splits)

lemma embedding_layer_no_assert:
  "fst (embedding_layer self input_ids position_ids img_feat img_pos_feat gather_index
          img_masks tt it) \<noteq> Inl (AssertionError m)"
  using compute_img_embeddings_no_assert [of self img_feat img_pos_feat img_masks it m]
  by (auto simp: embedding_layer_def compute_img_txt_embeddings_def
        compute_txt_embeddings_no_assert py_cat_no_assert split: sum.splits prod.splits)

lemma encode_no_assert: "encode self emb ext ohs \<noteq> Inl (AssertionError m)"
  by (simp add: encode_def split: option.splits)

lemma UniterModelBase_forward_no_assert:
  "fst (UniterModelBase_forward self input_ids position_ids img_feat img_pos_feat attention_mask
          gather_index img_masks ohs tt it) \<noteq> Inl (AssertionError m)"
  using embedding_layer_no_assert [of self input_ids position_ids img_feat img_pos_feat
          gather_index img_masks tt it m]
  by (auto simp: UniterModelBase_forward_def extended_attention_mask_no_assert encode_no_assert
        split: sum.splits prod.splits)


lemma never_bind:
  assumes "never_raises e m" and "\<And>v. never_raises e (f v)"
  shows "never_raises e (p_bind m f)"
  using assms
  by (auto simp: never_raises_def p_bind_def split: prod.splits sum.splits)
     (metis fst_conv)+

lemma never_return: "never_raises e (p_return v)"
  by (simp add: never_raises_def p_return_def)

lemma never_lift: "x \<noteq> Inl e \<Longrightarrow> never_raises e (p_lift x)"
  by (simp add: never_raises_def p_lift_def)

lemma never_raise: "e' \<noteq> e \<Longrightarrow> never_raises e (p_raise e')"
  by (simp add: never_raises_def p_raise_def)

lemma never_contains: "never_raises e (contains k)"
  by (simp add: never_raises_def contains_def)

lemma never_get_item: "never_raises (AssertionError m) (get_item k)"
  by (simp add: never_raises_def get_item_def split: option.splits)

lemma never_get_or_none: "never_raises e (get_or_none k)"
  by (simp add: never_raises_def get_or_none_def split: option.splits)

lemma never_set_item: "never_raises e (set_item k v)"
  by (simp add: never_raises_def set_item_def)

lemma never_set_item_at: "never_raises (AssertionError m) (set_item_at key v)"
  by (cases key) (simp_all add: set_item_at_def never_set_item never_raise)

lemma never_head_config: "never_raises (AssertionError m) (head_config h attr)"
  by (simp add: never_raises_def head_config_def split: option.splits)

lemma never_bare_assert: "m \<noteq> [] \<Longrightarrow> never_raises (AssertionError m) (py_assert c [])"
  by (auto simp: py_assert_def never_return never_raise)

lemma is_correct_message_nonempty: "is_correct_message \<noteq> []"
  by (simp add: is_correct_message_def)

lemma get_img_mask_no_assert: "fst (get_img_mask p n r) \<noteq> Inl (AssertionError m)"
  by (auto simp: get_img_mask_def random_choice_range_def split: prod.splits if_splits)

lemma get_img_masks_no_assert: "fst (get_img_masks p n k r) \<noteq> Inl (AssertionError m)"
proof (induction k arbitrary: r)
  case 0
  show ?case by simp
next
  case (Suc k)
  show ?case
    using get_img_mask_no_assert [of p n r m] Suc.IH
    by (auto split: prod.splits sum.splits) (metis fst_conv)+
qed

lemma never_with_rng:
  "(\<And>r. fst (f r) \<noteq> Inl e) \<Longrightarrow> never_raises e (with_rng f)"
  by (auto simp: never_raises_def with_rng_def split: prod.splits) (metis fst_conv)

lemma never_add_image_feat_masked:
  "never_raises (AssertionError m) add_image_feat_masked"
  unfolding add_image_feat_masked_def
  by (intro never_bind never_get_item never_lift never_return never_set_item never_with_rng
        torch_clone_no_assert size_at_no_assert expand_as_no_assert masked_fill0_no_assert
        get_img_masks_no_assert)
     (simp add: never_raises_def)

lemma filter_field_no_gate:
  "filter_field pm name x \<noteq> Inl (AssertionError is_correct_message)"
  by (auto simp: filter_field_def index_by_no_assert is_correct_message_def
        split: option.splits list.splits)

lemma never_filter_fields:
  "never_raises (AssertionError is_correct_message) (filter_fields pm names)"
proof (induction names)
  case Nil
  show ?case by (simp add: never_return)
next
  case (Cons name names)
  show ?case
    unfolding filter_fields.simps
    by (intro never_bind never_get_or_none)
       (auto intro!: never_bind never_lift filter_field_no_gate Cons.IH)
qed

lemma never_remove_mismatched_captions:
  "never_raises (AssertionError is_correct_message) remove_mismatched_captions"
  unfolding remove_mismatched_captions_def
  by (intro never_bind never_contains never_bare_assert never_get_item never_lift never_return
        never_filter_fields ne0_no_assert is_correct_message_nonempty)

lemma never_process_sample_list:
  "never_raises (AssertionError is_correct_message) process_sample_list_for_pretraining"
  unfolding process_sample_list_for_pretraining_def
  by (intro never_bind never_get_item)
     (auto intro!: never_bind never_get_item never_lift never_return never_set_item
        never_add_image_feat_masked never_remove_mismatched_captions
        subscript_no_assert torch_tensor_no_assert)


lemmas never_basic =
  never_bind never_contains never_bare_assert never_get_item never_lift never_return
  never_set_item never_set_item_at never_head_config is_correct_message_nonempty

lemma never_preprocess_mlm:
  "never_raises (AssertionError is_correct_message) preprocess_mlm"
  unfolding preprocess_mlm_def
  by (intro never_basic tensor_attr_no_assert torch_full_long_no_assert py_cat_no_assert)

lemma never_preprocess_itm:
  "never_raises (AssertionError is_correct_message) preprocess_itm"
  unfolding preprocess_itm_def
  by (intro never_basic)

lemma never_concat_mask_and_swap:
  "never_raises (AssertionError is_correct_message) (concat_mask_and_swap mask_key image_mask)"
  unfolding concat_mask_and_swap_def
  by (intro never_basic size_at_no_assert zeros_like_type_no_assert py_cat_no_assert)

lemma never_preprocess_mrc:
  "never_raises (AssertionError is_correct_message) preprocess_mrc"
  unfolding preprocess_mrc_def
  by (intro never_basic never_concat_mask_and_swap tensor_attr_no_assert mask_ext_no_assert
        size_at_no_assert index_by_no_assert view2_val_no_assert)

lemma never_preprocess_mrfr:
  "never_raises (AssertionError is_correct_message) preprocess_mrfr"
  unfolding preprocess_mrfr_def
  by (intro never_basic never_concat_mask_and_swap tensor_attr_no_assert mask_ext_no_assert
        size_at_no_assert index_by_no_assert view2_val_no_assert)

lemma never_preprocess_wra:
  "never_raises (AssertionError is_correct_message) preprocess_wra"
  unfolding preprocess_wra_def
  by (intro never_basic row_sizes_no_assert tensor_attr_no_assert compute_pad_no_assert)

lemma never_preprocess_task:
  "never_raises (AssertionError is_correct_message) (preprocess_task task)"
  by (simp add: preprocess_task_def never_preprocess_mlm never_preprocess_itm
        never_preprocess_mrc never_preprocess_mrfr never_preprocess_wra never_raise)

lemma never_call_uniter:
  "never_raises (AssertionError m)
     (call_uniter input_ids position_ids image_feat img_pos_feat attention_mask image_mask)"
  using UniterModelBase_forward_no_assert
  by (auto simp: never_raises_def call_uniter_def split: prod.splits) (metis fst_conv)

lemma never_call_head: "never_raises (AssertionError m) (call_head task sequence_output)"
  by (simp add: never_raises_def call_head_def ebind_eq_Inl module_get_no_assert call_no_assert)

lemma never_encode_and_score:
  "never_raises (AssertionError is_correct_message) (encode_and_score task)"
  unfolding encode_and_score_def
  by (intro never_basic never_call_uniter never_call_head)
     (simp add: never_raises_def process_head_outputs_no_assert)

text \<open>
  C5. On a batch without \<open>is_correct\<close> the forward pass raises the assertion
  error with the message about mismatched captions and leaves the state as it
  was: nothing was preprocessed, drawn or encoded. On a batch with
  \<open>is_correct\<close> it never raises this error.
\<close>

theorem forward_requires_is_correct:
  "(psl s ''is_correct'' = None \<longrightarrow>
      UniterForPretraining_forward s = (Inl (AssertionError is_correct_message), s))
   \<and> (psl s ''is_correct'' \<noteq> None \<longrightarrow>
      fst (UniterForPretraining_forward s) \<noteq> Inl (AssertionError is_correct_message))"
proof (intro conjI impI)
  assume "psl s ''is_correct'' = None"
  then show "UniterForPretraining_forward s = (Inl (AssertionError is_correct_message), s)"
    by (simp add: UniterForPretraining_forward_def p_bind_def contains_def py_assert_def
        p_raise_def)
next
  assume present: "psl s ''is_correct'' \<noteq> None"
  have "never_raises (AssertionError is_correct_message)
          (p_bind process_sample_list_for_pretraining (\<lambda>_.
           p_bind (get_item ''task'') (\<lambda>task.
           p_bind (preprocess_task task) (\<lambda>_. encode_and_score task))))"
    by (intro never_bind never_process_sample_list never_get_item never_preprocess_task
          never_encode_and_score)
  moreover have "UniterForPretraining_forward s
      = p_bind process_sample_list_for_pretraining (\<lambda>_.
           p_bind (get_item ''task'') (\<lambda>task.
           p_bind (preprocess_task task) (\<lambda>_. encode_and_score task))) s"
    using present
    by (simp add: UniterForPretraining_forward_def p_bind_def contains_def py_assert_def
        p_return_def)
  ultimately show "fst (UniterForPretraining_forward s) \<noteq> Inl (AssertionError is_correct_message)"
    by (simp add: never_raises_def)
qed

theorem forward_requires_is_correct_witness:
  "psl ((demo_state ''mlm'')\<lparr>psl := (demo_batch ''mlm'')(''is_correct'' := None)\<rparr>) ''is_correct'' = None
   \<and> UniterForPretraining_forward
         ((demo_state ''mlm'')\<lparr>psl := (demo_batch ''mlm'')(''is_correct'' := None)\<rparr>)
       = (Inl (AssertionError is_correct_message),
          (demo_state ''mlm'')\<lparr>psl := (demo_batch ''mlm'')(''is_correct'' := None)\<rparr>)
   \<and> psl (demo_state ''mlm'') ''is_correct'' \<noteq> None
   \<and> fst (UniterForPretraining_forward (demo_state ''mlm''))
       \<noteq> Inl (AssertionError is_correct_message)"
proof -
  have h1: "psl ((demo_state ''mlm'')\<lparr>psl := (demo_batch ''mlm'')(''is_correct'' := None)\<rparr>)
              ''is_correct'' = None"
    by simp
  have h2: "psl (demo_state ''mlm'') ''is_correct'' \<noteq> None"
    by (simp add: demo_state_def demo_batch_def)
  from forward_requires_is_correct
         [of "(demo_state ''mlm'')\<lparr>psl := (demo_batch ''mlm'')(''is_correct'' := None)\<rparr>"]
       forward_requires_is_correct [of "demo_state ''mlm''"] h1 h2
  show ?thesis by blast
qed

section \<open>The filter of mismatched captions\<close>

lemma filter_fields_state: "snd (filter_fields pm names s) = s"
  by (induction names)
     (auto simp: p_return_def p_bind_def get_or_none_def p_lift_def
           split: prod.splits sum.splits option.splits)

lemma filter_fields_psl:
  "psl s = psl s' \<Longrightarrow> fst (filter_fields pm names s) = fst (filter_fields pm names s')"
  by (induction names)
     (auto simp: p_return_def p_bind_def get_or_none_def p_lift_def
           split: prod.splits sum.splits option.splits)

lemma remove_mismatched_captions_state: "snd (remove_mismatched_captions s) = s"
proof -
  have "snd (filter_fields pm tensor_names s) = s" for pm by (rule filter_fields_state)
  then show ?thesis
    by (auto simp: remove_mismatched_captions_def p_bind_def contains_def py_assert_def
        p_return_def p_raise_def get_item_def p_lift_def
        split: prod.splits sum.splits option.splits)
qed

lemma remove_mismatched_captions_psl:
  assumes "psl s = psl s'"
  shows "fst (remove_mismatched_captions s) = fst (remove_mismatched_captions s')"
proof -
  have "fst (filter_fields pm tensor_names s) = fst (filter_fields pm tensor_names s')" for pm
    using assms by (rule filter_fields_psl)
  then show ?thesis
    using assms
    by (auto simp: remove_mismatched_captions_def p_bind_def contains_def py_assert_def
        p_return_def p_raise_def get_item_def p_lift_def
        split: prod.splits sum.splits option.splits)
qed

text \<open>
  C1. The specification has every field of the filter list cut down to the
  examples whose \<open>is_correct\<close> entry is not zero. The loop of
  \<open>remove_mismatched_captions\<close> binds the filtered tensor to its local variable
  and writes nothing back (\<open>remove_mismatched_captions_state\<close>). On the batch of
  two examples with \<open>is_correct = [1, 0]\<close> and the task \<open>mlm\<close>: the routine
  returns, \<open>input_ids\<close> still holds both examples, although the filtered tensor
  that the loop computed holds the matching example only; and after the whole
  forward pass \<open>image_feat\<close> and \<open>lm_label_ids\<close> still hold both examples.
\<close>

theorem remove_mismatched_captions_keeps_mismatched:
  "fst (remove_mismatched_captions (demo_state ''mlm'')) = Inr ()
   \<and> psl (snd (remove_mismatched_captions (demo_state ''mlm''))) ''is_correct''
       = Some (LongT (Tensor [2] [1, 0]))
   \<and> psl (snd (remove_mismatched_captions (demo_state ''mlm''))) ''input_ids''
       = Some (LongT (Tensor [2, 1] [11, 12]))
   \<and> filter_field (Tensor [2] [True, False]) ''input_ids'' (LongT (Tensor [2, 1] [11, 12]))
       = Inr (LongT (Tensor [1, 1] [11]))
   \<and> psl (snd (UniterForPretraining_forward (demo_state ''mlm''))) ''image_feat''
       = Some (FloatT (Tensor [2, 2, 1] [1, 2, 3, 4]))
   \<and> psl (snd (UniterForPretraining_forward (demo_state ''mlm''))) ''lm_label_ids''
       = Some (LongT (Tensor [2, 1] [11, - 1]))"
  by code_simp


section \<open>Fields written by the common preprocessing\<close>

lemma writes_bind:
  assumes "writes_only K m" and "\<And>v. writes_only K (f v)"
  shows "writes_only K (p_bind m f)"
  unfolding writes_only_def
proof (intro allI impI)
  fix s r s'
  assume a: "p_bind m f s = (r, s')"
  show "model s' = model s \<and> (\<forall>k. k \<notin> K \<longrightarrow> psl s' k = psl s k)"
  proof (cases "m s")
    case (Pair x s1)
    then have m: "model s1 = model s \<and> (\<forall>k. k \<notin> K \<longrightarrow> psl s1 k = psl s k)"
      using assms(1) by (simp add: writes_only_def)
    show ?thesis
    proof (cases x)
      case (Inl e)
      with Pair a m show ?thesis by (simp add: p_bind_def)
    next
      case (Inr v)
      with Pair a have "f v s1 = (r, s')" by (simp add: p_bind_def)
      then have "model s' = model s1 \<and> (\<forall>k. k \<notin> K \<longrightarrow> psl s' k = psl s1 k)"
        using assms(2) [of v] by (simp add: writes_only_def)
      with m show ?thesis by simp
    qed
  qed
qed

lemma writes_same:
  "(\<And>s. snd (m s) = s) \<Longrightarrow> writes_only K m"
  by (auto simp: writes_only_def) (metis snd_conv)+

lemma writes_return: "writes_only K (p_return v)"
  by (simp add: writes_only_def p_return_def)

lemma writes_raise: "writes_only K (p_raise e)"
  by (simp add: writes_only_def p_raise_def)

lemma writes_lift: "writes_only K (p_lift x)"
  by (simp add: writes_only_def p_lift_def)

lemma writes_get_item: "writes_only K (get_item k)"
  by (simp add: writes_only_def get_item_def)

lemma writes_contains: "writes_only K (contains k)"
  by (simp add: writes_only_def contains_def)

lemma writes_assert: "writes_only K (py_assert c msg)"
  by (simp add: py_assert_def writes_return writes_raise)

lemma writes_head_config: "writes_only K (head_config h attr)"
  by (simp add: writes_only_def head_config_def)

lemma writes_set_item: "k \<in> K \<Longrightarrow> writes_only K (set_item k v)"
  by (auto simp: writes_only_def set_item_def)

lemma writes_with_rng: "writes_only K (with_rng f)"
  by (auto simp: writes_only_def with_rng_def split: prod.splits)

lemmas writes_basic = writes_bind writes_return writes_raise writes_lift writes_get_item
  writes_contains writes_assert writes_head_config writes_with_rng

lemma writes_add_image_feat_masked:
  "writes_only {''image_feat_masked'', ''image_mask''} add_image_feat_masked"
  unfolding add_image_feat_masked_def
  by (intro writes_basic writes_set_item) (simp_all add: writes_only_def)

lemma writes_remove_mismatched_captions: "writes_only K remove_mismatched_captions"
  by (rule writes_same) (rule remove_mismatched_captions_state)

lemma writes_mono: "writes_only K m \<Longrightarrow> K \<subseteq> L \<Longrightarrow> writes_only L m"
  unfolding writes_only_def by (meson subsetD)

lemma writes_process_sample_list:
  "writes_only {''image_feat_masked'', ''image_mask'', ''cls_prob''}
     process_sample_list_for_pretraining"
  unfolding process_sample_list_for_pretraining_def
  by (intro writes_bind writes_get_item)
     (auto intro!: writes_basic writes_set_item writes_remove_mismatched_captions
        writes_mono [OF writes_add_image_feat_masked])


section \<open>The dispatch on the task\<close>

lemma forward_after_gate:
  assumes "psl s ''is_correct'' \<noteq> None"
  shows "UniterForPretraining_forward s
       = p_bind process_sample_list_for_pretraining (\<lambda>_.
           p_bind (get_item ''task'') (\<lambda>task.
           p_bind (preprocess_task task) (\<lambda>_. encode_and_score task))) s"
  using assms
  by (simp add: UniterForPretraining_forward_def p_bind_def contains_def py_assert_def
      p_return_def)

lemma forward_after_common:
  assumes "psl s ''is_correct'' \<noteq> None"
    and "process_sample_list_for_pretraining s = (Inr (), s1)"
    and "psl s ''task'' = Some t"
  shows "UniterForPretraining_forward s
       = p_bind (preprocess_task t) (\<lambda>_. encode_and_score t) s1"
proof -
  have "psl s1 ''task'' = psl s ''task''"
    using writes_process_sample_list assms(2) by (simp add: writes_only_def)
  with assms(3) have "get_item ''task'' s1 = (Inr t, s1)"
    by (simp add: get_item_def)
  then show ?thesis
    unfolding forward_after_gate [OF assms(1)]
    using assms(2) by (simp add: p_bind_def)
qed

lemma common_unsupported:
  assumes "psl s ''task'' = Some t"
    and "t \<notin> {Str ''mlm'', Str ''itm'', Str ''mrc'', Str ''mrfr'', Str ''wra''}"
  shows "process_sample_list_for_pretraining s = remove_mismatched_captions s"
  using assms
  by (simp add: process_sample_list_for_pretraining_def p_bind_def get_item_def p_return_def)

lemma forward_unsupported:
  assumes "psl s ''task'' \<notin> Some ` {Str ''mlm'', Str ''itm'', Str ''mrc'', Str ''mrfr'', Str ''wra''}"
  shows "UniterForPretraining_forward s =
    (if psl s ''is_correct'' = None then (Inl (AssertionError is_correct_message), s)
     else case psl s ''task'' of
         None \<Rightarrow> (Inl (KeyError ''task''), s)
       | Some t \<Rightarrow>
           (case fst (remove_mismatched_captions s) of
              Inl e \<Rightarrow> (Inl e, s)
            | Inr _ \<Rightarrow> (Inl (ValueError (''Task '' @ py_str t
                         @ '' is not supported for pretraining!'')), s)))"
proof (cases "psl s ''is_correct'' = None")
  case True
  then show ?thesis
    by (simp add: UniterForPretraining_forward_def p_bind_def contains_def py_assert_def
        p_raise_def)
next
  case present: False
  show ?thesis
  proof (cases "psl s ''task''")
    case None
    then show ?thesis
      using present unfolding forward_after_gate [OF present]
      by (simp add: process_sample_list_for_pretraining_def p_bind_def get_item_def)
  next
    case (Some t)
    with assms have un: "t \<notin> {Str ''mlm'', Str ''itm'', Str ''mrc'', Str ''mrfr'', Str ''wra''}"
      by auto
    have rm: "remove_mismatched_captions s = (fst (remove_mismatched_captions s), s)"
      using remove_mismatched_captions_state [of s] by (metis prod.collapse)
    show ?thesis
    proof (cases "fst (remove_mismatched_captions s)")
      case (Inl e)
      with rm have "process_sample_list_for_pretraining s = (Inl e, s)"
        using common_unsupported [OF Some un] by simp
      with Inl Some present show ?thesis
        unfolding forward_after_gate [OF present] by (auto simp: p_bind_def)
    next
      case (Inr u)
      with rm have "process_sample_list_for_pretraining s = (Inr (), s)"
        using common_unsupported [OF Some un] by simp
      from forward_after_common [OF present this Some] un Inr Some present
      show ?thesis
        by (auto simp: preprocess_task_def p_bind_def p_raise_def)
    qed
  qed
qed

text \<open>
  C6. On a batch whose task is none of \<open>mlm\<close>, \<open>itm\<close>, \<open>mrc\<close>, \<open>mrfr\<close>,
  \<open>wra\<close> the forward pass raises, with the same exception and an unchanged
  state whatever the model and the random generator are: neither the encoder
  nor a head is run. When the batch carries \<open>is_correct\<close> and the common
  preprocessing returns, the exception is the \<open>ValueError\<close> that names the
  task. For each of the five tasks, after the common preprocessing the forward
  pass is the preprocessing routine of that task followed by the encoder and
  the head.
\<close>

theorem forward_dispatch:
  "(b ''task'' \<notin> Some ` {Str ''mlm'', Str ''itm'', Str ''mrc'', Str ''mrfr'', Str ''wra''} \<longrightarrow>
      (\<exists>e. \<forall>m g. UniterForPretraining_forward \<lparr>model = m, psl = b, rand = g\<rparr>
                   = (Inl e, \<lparr>model = m, psl = b, rand = g\<rparr>))
    \<and> (\<forall>t m g. b ''task'' = Some t \<and> b ''is_correct'' \<noteq> None
          \<and> fst (process_sample_list_for_pretraining \<lparr>model = m, psl = b, rand = g\<rparr>) = Inr ()
          \<longrightarrow> UniterForPretraining_forward \<lparr>model = m, psl = b, rand = g\<rparr>
              = (Inl (ValueError (''Task '' @ py_str t @ '' is not supported for pretraining!'')),
                 \<lparr>model = m, psl = b, rand = g\<rparr>)))
   \<and> (psl s ''is_correct'' \<noteq> None \<and> process_sample_list_for_pretraining s = (Inr (), s1) \<longrightarrow>
        (psl s ''task'' = Some (Str ''mlm'') \<longrightarrow> UniterForPretraining_forward s
           = p_bind preprocess_mlm (\<lambda>_. encode_and_score (Str ''mlm'')) s1)
      \<and> (psl s ''task'' = Some (Str ''itm'') \<longrightarrow> UniterForPretraining_forward s
           = p_bind preprocess_itm (\<lambda>_. encode_and_score (Str ''itm'')) s1)
      \<and> (psl s ''task'' = Some (Str ''mrc'') \<longrightarrow> UniterForPretraining_forward s
           = p_bind preprocess_mrc (\<lambda>_. encode_and_score (Str ''mrc'')) s1)
      \<and> (psl s ''task'' = Some (Str ''mrfr'') \<longrightarrow> UniterForPretraining_forward s
           = p_bind preprocess_mrfr (\<lambda>_. encode_and_score (Str ''mrfr'')) s1)
      \<and> (psl s ''task'' = Some (Str ''wra'') \<longrightarrow> UniterForPretraining_forward s
           = p_bind preprocess_wra (\<lambda>_. encode_and_score (Str ''wra'')) s1))"
proof (intro conjI impI allI)
  assume un: "b ''task'' \<notin> Some ` {Str ''mlm'', Str ''itm'', Str ''mrc'', Str ''mrfr'', Str ''wra''}"
  let ?st = "\<lambda>m g. \<lparr>model = m, psl = b, rand = g\<rparr>"
  have same: "fst (remove_mismatched_captions (?st m g))
            = fst (remove_mismatched_captions (?st m0 g0))" for m g m0 g0
    by (rule remove_mismatched_captions_psl) simp
  have run: "UniterForPretraining_forward (?st m g) =
    (if b ''is_correct'' = None then (Inl (AssertionError is_correct_message), ?st m g)
     else case b ''task'' of
         None \<Rightarrow> (Inl (KeyError ''task''), ?st m g)
       | Some t \<Rightarrow>
           (case fst (remove_mismatched_captions (?st m g)) of
              Inl e \<Rightarrow> (Inl e, ?st m g)
            | Inr _ \<Rightarrow> (Inl (ValueError (''Task '' @ py_str t
                         @ '' is not supported for pretraining!'')), ?st m g)))" for m g
    using forward_unsupported [of "?st m g"] un by simp
  obtain m0 :: UniterForPretraining and g0 :: rng where True by simp
  show "\<exists>e. \<forall>m g. UniterForPretraining_forward (?st m g) = (Inl e, ?st m g)"
  proof (cases "b ''is_correct'' = None")
    case True
    with run show ?thesis by auto
  next
    case False
    show ?thesis
    proof (cases "b ''task''")
      case None
      with False run show ?thesis by auto
    next
      case (Some t)
      show ?thesis
      proof (cases "fst (remove_mismatched_captions (?st m0 g0))")
        case (Inl e)
        then have "fst (remove_mismatched_captions (?st m g)) = Inl e" for m g
          using same [of m g m0 g0] by simp
        with False Some run show ?thesis by auto
      next
        case (Inr u)
        then have "fst (remove_mismatched_captions (?st m g)) = Inr u" for m g
          using same [of m g m0 g0] by simp
        with False Some run show ?thesis by auto
      qed
    qed
  qed
next
  fix t m g
  assume un: "b ''task'' \<notin> Some ` {Str ''mlm'', Str ''itm'', Str ''mrc'', Str ''mrfr'', Str ''wra''}"
    and a: "b ''task'' = Some t \<and> b ''is_correct'' \<noteq> None
          \<and> fst (process_sample_list_for_pretraining \<lparr>model = m, psl = b, rand = g\<rparr>) = Inr ()"
  let ?s = "\<lparr>model = m, psl = b, rand = g\<rparr>"
  from un a have t: "t \<notin> {Str ''mlm'', Str ''itm'', Str ''mrc'', Str ''mrfr'', Str ''wra''}"
    by auto
  from a have "fst (remove_mismatched_captions ?s) = Inr ()"
    using common_unsupported [of ?s t, OF _ t] by simp
  then show "UniterForPretraining_forward ?s
              = (Inl (ValueError (''Task '' @ py_str t @ '' is not supported for pretraining!'')), ?s)"
    using forward_unsupported [of ?s] un a by simp
next
  assume "psl s ''is_correct'' \<noteq> None \<and> process_sample_list_for_pretraining s = (Inr (), s1)"
    and "psl s ''task'' = Some (Str ''mlm'')"
  then show "UniterForPretraining_forward s
           = p_bind preprocess_mlm (\<lambda>_. encode_and_score (Str ''mlm'')) s1"
    using forward_after_common [of s s1 "Str ''mlm''"] by (simp add: preprocess_task_def)
next
  assume "psl s ''is_correct'' \<noteq> None \<and> process_sample_list_for_pretraining s = (Inr (), s1)"
    and "psl s ''task'' = Some (Str ''itm'')"
  then show "UniterForPretraining_forward s
           = p_bind preprocess_itm (\<lambda>_. encode_and_score (Str ''itm'')) s1"
    using forward_after_common [of s s1 "Str ''itm''"] by (simp add: preprocess_task_def)
next
  assume "psl s ''is_correct'' \<noteq> None \<and> process_sample_list_for_pretraining s = (Inr (), s1)"
    and "psl s ''task'' = Some (Str ''mrc'')"
  then show "UniterForPretraining_forward s
           = p_bind preprocess_mrc (\<lambda>_. encode_and_score (Str ''mrc'')) s1"
    using forward_after_common [of s s1 "Str ''mrc''"] by (simp add: preprocess_task_def)
next
  assume "psl s ''is_correct'' \<noteq> None \<and> process_sample_list_for_pretraining s = (Inr (), s1)"
    and "psl s ''task'' = Some (Str ''mrfr'')"
  then show "UniterForPretraining_forward s
           = p_bind preprocess_mrfr (\<lambda>_. encode_and_score (Str ''mrfr'')) s1"
    using forward_after_common [of s s1 "Str ''mrfr''"] by (simp add: preprocess_task_def)
next
  assume "psl s ''is_correct'' \<noteq> None \<and> process_sample_list_for_pretraining s = (Inr (), s1)"
    and "psl s ''task'' = Some (Str ''wra'')"
  then show "UniterForPretraining_forward s
           = p_bind preprocess_wra (\<lambda>_. encode_and_score (Str ''wra'')) s1"
    using forward_after_common [of s s1 "Str ''wra''"] by (simp add: preprocess_task_def)
qed


theorem forward_dispatch_witness:
  "demo_batch ''vqa'' ''task'' \<notin> Some ` {Str ''mlm'', Str ''itm'', Str ''mrc'', Str ''mrfr'', Str ''wra''}
   \<and> demo_batch ''vqa'' ''is_correct'' \<noteq> None
   \<and> UniterForPretraining_forward (demo_state ''vqa'')
       = (Inl (ValueError ''Task vqa is not supported for pretraining!''), demo_state ''vqa'')
   \<and> (\<exists>s1. process_sample_list_for_pretraining (demo_state ''mlm'') = (Inr (), s1)
        \<and> UniterForPretraining_forward (demo_state ''mlm'')
          = p_bind preprocess_mlm (\<lambda>_. encode_and_score (Str ''mlm'')) s1)
   \<and> (\<exists>s1. process_sample_list_for_pretraining (demo_state ''itm'') = (Inr (), s1)
        \<and> UniterForPretraining_forward (demo_state ''itm'')
          = p_bind preprocess_itm (\<lambda>_. encode_and_score (Str ''itm'')) s1)
   \<and> (\<exists>s1. process_sample_list_for_pretraining (demo_state ''mrc'') = (Inr (), s1)
        \<and> UniterForPretraining_forward (demo_state ''mrc'')
          = p_bind preprocess_mrc (\<lambda>_. encode_and_score (Str ''mrc'')) s1)
   \<and> (\<exists>s1. process_sample_list_for_pretraining (demo_state ''mrfr'') = (Inr (), s1)
        \<and> UniterForPretraining_forward (demo_state ''mrfr'')
          = p_bind preprocess_mrfr (\<lambda>_. encode_and_score (Str ''mrfr'')) s1)
   \<and> (\<exists>s1. process_sample_list_for_pretraining (demo_state ''wra'') = (Inr (), s1)
        \<and> UniterForPretraining_forward (demo_state ''wra'')
          = p_bind preprocess_wra (\<lambda>_. encode_and_score (Str ''wra'')) s1)"
proof -
  have un: "demo_batch ''vqa'' ''task'' \<notin> Some ` {Str ''mlm'', Str ''itm'', Str ''mrc'', Str ''mrfr'', Str ''wra''}"
    by (simp add: demo_batch_def)
  have ic: "demo_batch ''vqa'' ''is_correct'' \<noteq> None"
    by (simp add: demo_batch_def)
  have tk: "demo_batch ''vqa'' ''task'' = Some (Str ''vqa'')"
    by (simp add: demo_batch_def)
  have st: "demo_state ''vqa'' = \<lparr>model = demo_model, psl = demo_batch ''vqa'', rand = demo_rng\<rparr>"
    by (simp add: demo_state_def)
  have "fst (process_sample_list_for_pretraining (demo_state ''vqa'')) = Inr ()"
    by code_simp
  with forward_dispatch [where b = "demo_batch ''vqa''", THEN conjunct1] un ic tk st
  have vqa: "UniterForPretraining_forward (demo_state ''vqa'')
       = (Inl (ValueError (''Task '' @ py_str (Str ''vqa'') @ '' is not supported for pretraining!'')),
          demo_state ''vqa'')"
    by simp
  have mlm: "\<exists>s1. process_sample_list_for_pretraining (demo_state ''mlm'') = (Inr (), s1)
        \<and> UniterForPretraining_forward (demo_state ''mlm'')
          = p_bind preprocess_mlm (\<lambda>_. encode_and_score (Str ''mlm'')) s1"
  proof -
    have "fst (process_sample_list_for_pretraining (demo_state ''mlm'')) = Inr ()"
      by code_simp
    then obtain s1 where s1: "process_sample_list_for_pretraining (demo_state ''mlm'') = (Inr (), s1)"
      by (cases "process_sample_list_for_pretraining (demo_state ''mlm'')") auto
    have "psl (demo_state ''mlm'') ''is_correct'' \<noteq> None"
      and "psl (demo_state ''mlm'') ''task'' = Some (Str ''mlm'')"
      by (simp_all add: demo_state_def demo_batch_def)
    with s1 forward_dispatch [where s = "demo_state ''mlm''" and ?s1.0 = s1] show ?thesis
      by blast
  qed
  have itm: "\<exists>s1. process_sample_list_for_pretraining (demo_state ''itm'') = (Inr (), s1)
        \<and> UniterForPretraining_forward (demo_state ''itm'')
          = p_bind preprocess_itm (\<lambda>_. encode_and_score (Str ''itm'')) s1"
  proof -
    have "fst (process_sample_list_for_pretraining (demo_state ''itm'')) = Inr ()"
      by code_simp
    then obtain s1 where s1: "process_sample_list_for_pretraining (demo_state ''itm'') = (Inr (), s1)"
      by (cases "process_sample_list_for_pretraining (demo_state ''itm'')") auto
    have "psl (demo_state ''itm'') ''is_correct'' \<noteq> None"
      and "psl (demo_state ''itm'') ''task'' = Some (Str ''itm'')"
      by (simp_all add: demo_state_def demo_batch_def)
    with s1 forward_dispatch [where s = "demo_state ''itm''" and ?s1.0 = s1] show ?thesis
      by blast
  qed
  have mrc: "\<exists>s1. process_sample_list_for_pretraining (demo_state ''mrc'') = (Inr (), s1)
        \<and> UniterForPretraining_forward (demo_state ''mrc'')
          = p_bind preprocess_mrc (\<lambda>_. encode_and_score (Str ''mrc'')) s1"
  proof -
    have "fst (process_sample_list_for_pretraining (demo_state ''mrc'')) = Inr ()"
      by code_simp
    then obtain s1 where s1: "process_sample_list_for_pretraining (demo_state ''mrc'') = (Inr (), s1)"
      by (cases "process_sample_list_for_pretraining (demo_state ''mrc'')") auto
    have "psl (demo_state ''mrc'') ''is_correct'' \<noteq> None"
      and "psl (demo_state ''mrc'') ''task'' = Some (Str ''mrc'')"
      by (simp_all add: demo_state_def demo_batch_def)
    with s1 forward_dispatch [where s = "demo_state ''mrc''" and ?s1.0 = s1] show ?thesis
      by blast
  qed
  have mrfr: "\<exists>s1. process_sample_list_for_pretraining (demo_state ''mrfr'') = (Inr (), s1)
        \<and> UniterForPretraining_forward (demo_state ''mrfr'')
          = p_bind preprocess_mrfr (\<lambda>_. encode_and_score (Str ''mrfr'')) s1"
  proof -
    have "fst (process_sample_list_for_pretraining (demo_state ''mrfr'')) = Inr ()"
      by code_simp
    then obtain s1 where s1: "process_sample_list_for_pretraining (demo_state ''mrfr'') = (Inr (), s1)"
      by (cases "process_sample_list_for_pretraining (demo_state ''mrfr'')") auto
    have "psl (demo_state ''mrfr'') ''is_correct'' \<noteq> None"
      and "psl (demo_state ''mrfr'') ''task'' = Some (Str ''mrfr'')"
      by (simp_all add: demo_state_def demo_batch_def)
    with s1 forward_dispatch [where s = "demo_state ''mrfr''" and ?s1.0 = s1] show ?thesis
      by blast
  qed
  have wra: "\<exists>s1. process_sample_list_for_pretraining (demo_state ''wra'') = (Inr (), s1)
        \<and> UniterForPretraining_forward (demo_state ''wra'')
          = p_bind preprocess_wra (\<lambda>_. encode_and_score (Str ''wra'')) s1"
  proof -
    have "fst (process_sample_list_for_pretraining (demo_state ''wra'')) = Inr ()"
      by code_simp
    then obtain s1 where s1: "process_sample_list_for_pretraining (demo_state ''wra'') = (Inr (), s1)"
      by (cases "process_sample_list_for_pretraining (demo_state ''wra'')") auto
    have "psl (demo_state ''wra'') ''is_correct'' \<noteq> None"
      and "psl (demo_state ''wra'') ''task'' = Some (Str ''wra'')"
      by (simp_all add: demo_state_def demo_batch_def)
    with s1 forward_dispatch [where s = "demo_state ''wra''" and ?s1.0 = s1] show ?thesis
      by blast
  qed
  from un ic vqa mlm itm mrc mrfr wra show ?thesis
    by (simp add: py_str_def)
qed

section \<open>Masked regions\<close>

lemma chunks_singletons: "length xs = n \<Longrightarrow> chunks n 1 xs = map (\<lambda>x. [x]) xs"
proof (induction n arbitrary: xs)
  case 0
  then show ?case by simp
next
  case (Suc n)
  then obtain y ys where "xs = y # ys" "length ys = n" by (cases xs) auto
  with Suc.IH [of ys] show ?case by (simp add: chunks_Suc)
qed

lemma expand_one: "expand [1] [d] [z] = replicate d z"
  by (cases "d = 1") (simp_all add: chunks_def numel_def)

lemma expand_step:
  "expand (t # ds) (t # ts) xs = concat (map (expand ds ts) (chunks t (numel ds) xs))"
  by simp

lemma expand_row:
  assumes "length c = n"
  shows "expand [n, 1] [n, d] c = concat (map (replicate d) c)"
proof -
  have "expand [n, 1] [n, d] c = concat (map (expand [1] [d]) (chunks n 1 c))"
    by (simp only: expand_step) (simp add: numel_def)
  also have "chunks n 1 c = map (\<lambda>x. [x]) c"
    using assms by (rule chunks_singletons)
  also have "map (expand [1] [d]) (map (\<lambda>x. [x]) c) = map (replicate d) c"
    by (simp only: map_map comp_def expand_one)
  finally show ?thesis .
qed

lemma concat_map_chunks:
  assumes "length ys = b * n"
  shows "concat (map (\<lambda>c. concat (map g c)) (chunks b n ys)) = concat (map g ys)"
proof -
  have "concat (map (\<lambda>c. concat (map g c)) xss) = concat (map g (concat xss))" for xss
    by (induction xss) auto
  then show ?thesis using concat_chunks [OF assms] by simp
qed

lemma expand_last_dim:
  assumes "length ys = b * n"
  shows "expand [b, n, 1] [b, n, d] ys = concat (map (replicate d) ys)"
proof -
  have "expand [b, n, 1] [b, n, d] ys
      = concat (map (expand [n, 1] [n, d]) (chunks b n ys))"
    by (simp only: expand_step) (simp add: numel_def)
  also have "map (expand [n, 1] [n, d]) (chunks b n ys)
           = map (\<lambda>c. concat (map (replicate d) c)) (chunks b n ys)"
  proof (rule map_cong [OF refl])
    fix x assume "x \<in> set (chunks b n ys)"
    then have "length x = n" by (rule chunks_lengths [OF assms])
    then show "expand [n, 1] [n, d] x = concat (map (replicate d) x)" by (rule expand_row)
  qed
  also have "concat \<dots> = concat (map (replicate d) ys)"
    using assms by (rule concat_map_chunks)
  finally show ?thesis .
qed

lemma map2_rows:
  assumes "length xs = length ms * d" and "\<And>b. length (rowf b) = d"
  shows "map2 h xs (concat (map rowf ms))
       = concat (map2 (\<lambda>v b. map2 h v (rowf b)) (chunks (length ms) d xs) ms)"
  using assms(1)
proof (induction ms arbitrary: xs)
  case Nil
  then show ?case by simp
next
  case (Cons m ms)
  then have l: "length (drop d xs) = length ms * d" by simp
  have t: "length (take d xs) = length (rowf m)"
    using Cons.prems assms(2) [of m] by simp
  have "zip (take d xs @ drop d xs) (rowf m @ concat (map rowf ms))
      = zip (take d xs) (rowf m) @ zip (drop d xs) (concat (map rowf ms))"
    using t by (rule zip_append)
  then have "map2 h xs (rowf m @ concat (map rowf ms))
      = map2 h (take d xs) (rowf m) @ map2 h (drop d xs) (concat (map rowf ms))"
    by simp
  then show ?case using Cons.IH [OF l] by (simp add: chunks_Suc)
qed

lemma fill_replicate:
  "length v = d \<Longrightarrow>
     map2 (\<lambda>x m. if m then c else x) v (replicate d b) = (if b then replicate d c else v)"
  by (induction v arbitrary: d) auto

lemma select_singletons:
  "length me = length xs \<Longrightarrow>
     concat (map snd (filter fst (zip me (map (\<lambda>x. [x]) xs)))) = map snd (filter fst (zip me xs))"
  by (induction me xs rule: list_induct2) auto

lemma fill_where_rows:
  assumes "length xs = length ms * d"
  shows "fill_where c xs (concat (map (replicate d) ms))
       = concat (map2 (\<lambda>v b. if b then replicate d c else v) (chunks (length ms) d xs) ms)"
proof -
  have "fill_where c xs (concat (map (replicate d) ms))
      = concat (map2 (\<lambda>v b. map2 (\<lambda>x m. if m then c else x) v (replicate d b))
                     (chunks (length ms) d xs) ms)"
    unfolding fill_where_def using assms by (intro map2_rows) auto
  also have "map2 (\<lambda>v b. map2 (\<lambda>x m. if m then c else x) v (replicate d b))
                  (chunks (length ms) d xs) ms
           = map2 (\<lambda>v b. if b then replicate d c else v) (chunks (length ms) d xs) ms"
  proof (rule map_cong [OF refl])
    fix p assume "p \<in> set (zip (chunks (length ms) d xs) ms)"
    then have "fst p \<in> set (chunks (length ms) d xs)"
      using set_zip_leftD [of "fst p" "snd p"] by simp
    then have "length (fst p) = d"
      using chunks_lengths [OF assms] by blast
    then show "(case p of (v, b) \<Rightarrow> map2 (\<lambda>x m. if m then c else x) v (replicate d b))
             = (case p of (v, b) \<Rightarrow> if b then replicate d c else v)"
      by (cases p) (simp add: fill_replicate)
  qed
  finally show ?thesis .
qed

lemma select_elementwise:
  assumes "length xs = length ms * d"
  shows "select_blocks (concat (map (replicate d) ms)) 1 xs = select_blocks ms d xs"
proof -
  have len: "length (concat (map (replicate d) ms)) = length xs"
    using assms by (simp add: length_concat comp_def sum_list_triv)
  have flat: "select_blocks me 1 xs = map snd (filter fst (zip me xs))"
    if "length me = length xs" for me
    using that select_singletons [of me xs] chunks_singletons [OF refl, of xs]
    by (simp add: select_blocks_def)
  have "map snd (filter fst (zip (concat (map (replicate d) ms)) xs))
      = concat (map snd (filter fst (zip ms (chunks (length ms) d xs))))"
    using assms
  proof (induction ms arbitrary: xs)
    case Nil
    then show ?case by simp
  next
    case (Cons m ms)
    then have l: "length (drop d xs) = length ms * d" by simp
    have t: "length (replicate d m) = length (take d xs)"
      using Cons.prems by simp
    have "zip (replicate d m @ concat (map (replicate d) ms)) (take d xs @ drop d xs)
        = zip (replicate d m) (take d xs) @ zip (concat (map (replicate d) ms)) (drop d xs)"
      using t by (rule zip_append)
    moreover have "map snd (filter fst (zip (replicate d m) (take d xs)))
        = (if m then take d xs else [])"
      using t by (simp add: zip_replicate1 filter_map comp_def)
    ultimately show ?case using Cons.IH [OF l] by (simp add: chunks_Suc)
  qed
  with flat [OF len] show ?thesis by (simp add: select_blocks_def)
qed

lemma count_elementwise:
  "length (filter id (concat (map (replicate d) ms))) = length (filter id ms) * d"
  by (induction ms) auto

section \<open>Masked region features and their targets\<close>

lemma p_bind_Inr_eq:
  "p_bind m f s = (Inr v, s') \<longleftrightarrow> (\<exists>x s1. m s = (Inr x, s1) \<and> f x s1 = (Inr v, s'))"
  by (cases "m s") (auto simp: p_bind_def split: sum.splits)

lemma p_return_eq: "p_return v s = (r, s') \<longleftrightarrow> r = Inr v \<and> s' = s"
  by (auto simp: p_return_def)

lemma p_lift_eq: "p_lift x s = (r, s') \<longleftrightarrow> r = x \<and> s' = s"
  by (auto simp: p_lift_def)

lemma get_item_Inr_eq:
  "get_item k s = (Inr v, s') \<longleftrightarrow> s' = s \<and> psl s k = Some v"
  by (auto simp: get_item_def split: option.splits)

lemma contains_eq: "contains k s = (r, s') \<longleftrightarrow> s' = s \<and> r = Inr (psl s k \<noteq> None)"
  by (auto simp: contains_def)

lemma py_assert_Inr_eq: "py_assert c msg s = (Inr v, s') \<longleftrightarrow> c \<and> s' = s"
  by (auto simp: py_assert_def p_return_def p_raise_def)

lemma set_item_eq:
  "set_item k v s = (r, s') \<longleftrightarrow> r = Inr () \<and> s' = s\<lparr>psl := (psl s)(k \<mapsto> v)\<rparr>"
  by (auto simp: set_item_def)

lemma set_item_at_Inr_eq:
  "set_item_at key v s = (Inr u, s') \<longleftrightarrow>
     (\<exists>k. key = Str k \<and> s' = s\<lparr>psl := (psl s)(k \<mapsto> v)\<rparr>)"
  by (cases key) (auto simp: set_item_at_def set_item_def p_raise_def)

lemma head_config_Inr_eq:
  "head_config h attr s = (Inr v, s') \<longleftrightarrow>
     s' = s \<and> (\<exists>h1. heads (model s) h = Some h1 \<and> config h1 attr = Some v)"
  by (auto simp: head_config_def split: option.splits)

lemmas run_eqs = p_bind_Inr_eq p_return_eq p_lift_eq get_item_Inr_eq contains_eq py_assert_Inr_eq
  set_item_eq set_item_at_Inr_eq head_config_Inr_eq

lemma concat_mask_and_swap_result:
  assumes "concat_mask_and_swap (Str mk) image_mask s = (Inr (), s')"
  shows "\<exists>cm fm. ((psl s)(mk \<mapsto> cm)) ''image_feat_masked'' = Some fm
           \<and> s' = s\<lparr>psl := (psl s)(mk \<mapsto> cm, ''image_feat'' \<mapsto> fm)\<rparr>"
  using assms unfolding concat_mask_and_swap_def
  by (auto simp: run_eqs)

lemma masked_fill_float:
  assumes "length xs = B * N * D" and "length ms = B * N"
  shows "masked_fill0 (FloatT (Tensor [B, N, D] xs))
           (Tensor [B, N, D] (expand [B, N, 1] [B, N, D] ms))
       = Inr (FloatT (Tensor [B, N, D] (zero_masked ms D xs)))"
proof -
  have e: "expand [B, N, 1] [B, N, D] ms = concat (map (replicate D) ms)"
    using assms(2) by (rule expand_last_dim)
  have "length (concat (map (replicate D) ms)) = numel [B, N, D]"
    using assms(2) by (simp add: length_concat comp_def sum_list_triv numel_def)
  then have "expand [B, N, D] [B, N, D] (concat (map (replicate D) ms))
           = concat (map (replicate D) ms)"
    by (rule expand_same)
  moreover have "fill_where 0 xs (concat (map (replicate D) ms)) = zero_masked ms D xs"
    using fill_where_rows [of xs ms D 0] assms by (simp add: zero_masked_def)
  ultimately show ?thesis
    unfolding e
    by (simp add: masked_fill0_def expand_to_def expandable_refl pad_shape_def ebind_def
        del: expand.simps)
qed


lemma common_masked:
  assumes task: "psl s ''task'' = Some (Str t)" "t = ''mrc'' \<or> t = ''mrfr''"
    and feat: "psl s ''image_feat'' = Some (FloatT (Tensor [B, N, D] xs))"
    and len: "length xs = B * N * D" and B: "1 \<le> B" and N: "1 \<le> N"
    and run: "process_sample_list_for_pretraining s = (Inr (), s1)"
  shows "\<exists>rows g cp.
           get_img_masks (case mask_probability (model s) of None \<Rightarrow> 0 | Some p \<Rightarrow> p) N B (rand s)
             = (Inr rows, g)
         \<and> length (concat rows) = B * N
         \<and> s1 = s\<lparr>rand := g,
                  psl := (psl s)(''image_feat_masked'' \<mapsto>
                                   FloatT (Tensor [B, N, D] (zero_masked (concat rows) D xs)),
                                 ''image_mask'' \<mapsto> BoolT (Tensor [B, N] (concat rows)),
                                 ''cls_prob'' \<mapsto> cp)\<rparr>"
proof -
  let ?p = "case mask_probability (model s) of None \<Rightarrow> 0 | Some p \<Rightarrow> p"
  obtain rows g where rows: "get_img_masks ?p N B (rand s) = (Inr rows, g)"
      "length rows = B" "\<forall>m \<in> set rows. length m = N \<and> True \<in> set m"
    using get_img_masks_ok [OF N] by blast
  then have rl: "\<forall>m \<in> set rows. length m = N" by blast
  have cl: "length (concat rows) = B * N"
    using rows(2) rl by (simp add: length_concat sum_list_triv cong: map_cong)
  have sh: "shape_of (FloatT (Tensor [B, N, D] xs)) = Some [B, N, D]"
    by (simp add: shape_of_def)
  obtain w where w: "masked_fill0 (FloatT (Tensor [B, N, D] xs))
        (Tensor [B, N, D] (expand [B, N, 1] [B, N, D] (concat rows))) = Inr w"
    and add: "add_image_feat_masked s =
       (Inr (), s\<lparr>rand := g, psl := (psl s)(''image_feat_masked'' \<mapsto> w,
                                      ''image_mask'' \<mapsto> BoolT (Tensor [B, N] (concat rows)))\<rparr>)"
    using add_image_feat_masked_run [OF feat sh rows(1) B rows(2) rl] by blast
  have "w = FloatT (Tensor [B, N, D] (zero_masked (concat rows) D xs))"
    using w masked_fill_float [OF len cl] by simp
  with add have add': "add_image_feat_masked s =
       (Inr (), s\<lparr>rand := g, psl := (psl s)(''image_feat_masked'' \<mapsto>
                                        FloatT (Tensor [B, N, D] (zero_masked (concat rows) D xs)),
                                      ''image_mask'' \<mapsto> BoolT (Tensor [B, N] (concat rows)))\<rparr>)"
    by simp
  have rm: "remove_mismatched_captions s2 = (Inr u, s3) \<longleftrightarrow>
            fst (remove_mismatched_captions s2) = Inr u \<and> s3 = s2" for s2 s3 u
    using remove_mismatched_captions_state [of s2]
    by (cases "remove_mismatched_captions s2") auto
  from run task add' have "\<exists>cp. s1 = s\<lparr>rand := g,
                  psl := (psl s)(''image_feat_masked'' \<mapsto>
                                   FloatT (Tensor [B, N, D] (zero_masked (concat rows) D xs)),
                                 ''image_mask'' \<mapsto> BoolT (Tensor [B, N] (concat rows)),
                                 ''cls_prob'' \<mapsto> cp)\<rparr>"
    unfolding process_sample_list_for_pretraining_def
    by (auto simp: run_eqs rm)
  with rows(1) cl show ?thesis by blast
qed

lemma mask_ext_bool:
  assumes "length ms = B * N"
  shows "mask_ext (BoolT (Tensor [B, N] ms)) (FloatT (Tensor [B, N, D] xs))
       = Inr (BoolT (Tensor [B, N, D] (concat (map (replicate D) ms))))"
  using expand_last_dim [OF assms, of D] expandable_last [of B N D]
  by (simp add: mask_ext_def expand_as_def shape_of_def expand_to_def unsqueeze_last_def
      pad_shape_def del: expand.simps)

lemma index_masked_regions:
  assumes "length xs = B * N * D" and "length ms = B * N"
  shows "index_by (FloatT (Tensor [B, N, D] xs))
                  (BoolT (Tensor [B, N, D] (concat (map (replicate D) ms)))) 0
       = Inr (FloatT (Tensor [length (filter id ms) * D] (select_blocks ms D xs)))"
proof -
  have "select_blocks (concat (map (replicate D) ms)) 1 xs = select_blocks ms D xs"
    using assms by (intro select_elementwise) simp
  moreover have "length (filter id (concat (map (replicate D) ms))) = length (filter id ms) * D"
    by (rule count_elementwise)
  ultimately show ?thesis
    by (simp add: index_by_def bool_index_def numel_def)
qed

lemma view_masked_regions:
  assumes "1 \<le> D"
  shows "view2_val (FloatT (Tensor [k * D] ys)) D = Inr (FloatT (Tensor [k, D] ys))"
  using assms by (simp add: view2_val_def view2_def numel_def)

lemma preprocess_mrfr_result:
  assumes run: "preprocess_mrfr s1 = (Inr (), s2)"
    and mask: "psl s1 ''image_mask'' = Some (BoolT (Tensor [B, N] ms))"
    and feat: "psl s1 ''image_feat'' = Some (FloatT (Tensor [B, N, D] xs))"
    and len: "length xs = B * N * D" "length ms = B * N" and D: "1 \<le> D"
    and hd: "heads (model s1) ''mrfr'' = Some h"
      "config h ''mrfr_target_key'' = Some (Str tk)" "config h ''mrfr_mask_key'' = Some (Str mk)"
  shows "\<exists>cm fm.
           ((psl s1)(tk \<mapsto> FloatT (Tensor [length (filter id ms), D] (select_blocks ms D xs)),
                     mk \<mapsto> cm)) ''image_feat_masked'' = Some fm
         \<and> s2 = s1\<lparr>psl := (psl s1)
                  (tk \<mapsto> FloatT (Tensor [length (filter id ms), D] (select_blocks ms D xs)),
                   mk \<mapsto> cm, ''image_feat'' \<mapsto> fm)\<rparr>"
proof -
  let ?targets = "FloatT (Tensor [length (filter id ms), D] (select_blocks ms D xs))"
  have "concat_mask_and_swap (Str mk) (BoolT (Tensor [B, N] ms))
          (s1\<lparr>psl := (psl s1)(tk \<mapsto> ?targets)\<rparr>) = (Inr (), s2)"
    using run mask feat hd
    unfolding preprocess_mrfr_def
    by (auto simp: run_eqs mask_ext_bool [OF len(2)] index_masked_regions [OF len]
          view_masked_regions [OF D] size_at_def shape_of_def)
  from concat_mask_and_swap_result [OF this] show ?thesis by auto
qed



text \<open>
  C9. \<open>add_image_feat_masked\<close> leaves \<open>image_feat\<close> as it was, whether it
  returns or raises. For a batch of the task \<open>mrfr\<close> with region features
  \<open>xs\<close> of shape \<open>(B, N, D)\<close>, when the common preprocessing and
  \<open>preprocess_mrfr\<close> return: after the common preprocessing \<open>image_feat\<close> is
  still \<open>xs\<close> and the zeroed copy is under \<open>image_feat_masked\<close>; the targets
  that \<open>preprocess_mrfr\<close> stores are the vectors of \<open>xs\<close> itself at the masked
  positions; and at the end \<open>image_feat\<close> is the zeroed copy. The keys
  configured for the targets and the mask are taken to be names of their own.
\<close>

theorem mrfr_targets_are_unmasked_features:
  assumes "psl s ''task'' = Some (Str ''mrfr'')"
    and "psl s ''image_feat'' = Some (FloatT (Tensor [B, N, D] xs))"
    and "length xs = B * N * D" and "1 \<le> B" and "1 \<le> N" and "1 \<le> D"
    and "heads (model s) ''mrfr'' = Some h"
    and "config h ''mrfr_target_key'' = Some (Str tk)"
    and "config h ''mrfr_mask_key'' = Some (Str mk)"
    and "tk \<noteq> ''image_feat''" and "tk \<noteq> ''image_feat_masked''"
    and "mk \<noteq> ''image_feat_masked''" and "tk \<noteq> mk"
    and "process_sample_list_for_pretraining s = (Inr (), s1)"
    and "preprocess_mrfr s1 = (Inr (), s2)"
  shows "psl (snd (add_image_feat_masked s)) ''image_feat'' = psl s ''image_feat''
       \<and> (\<exists>ms. length ms = B * N
            \<and> psl s1 ''image_mask'' = Some (BoolT (Tensor [B, N] ms))
            \<and> psl s1 ''image_feat'' = Some (FloatT (Tensor [B, N, D] xs))
            \<and> psl s1 ''image_feat_masked'' = Some (FloatT (Tensor [B, N, D] (zero_masked ms D xs)))
            \<and> psl s2 tk = Some (FloatT (Tensor [length (filter id ms), D] (select_blocks ms D xs)))
            \<and> psl s2 ''image_feat'' = Some (FloatT (Tensor [B, N, D] (zero_masked ms D xs))))"
proof
  have "writes_only {''image_feat_masked'', ''image_mask''} add_image_feat_masked"
    by (rule writes_add_image_feat_masked)
  moreover have "add_image_feat_masked s
      = (fst (add_image_feat_masked s), snd (add_image_feat_masked s))"
    by simp
  ultimately have "\<forall>k. k \<notin> {''image_feat_masked'', ''image_mask''}
      \<longrightarrow> psl (snd (add_image_feat_masked s)) k = psl s k"
    unfolding writes_only_def by blast
  then show "psl (snd (add_image_feat_masked s)) ''image_feat'' = psl s ''image_feat''"
    by simp
next
  obtain rows g cp where c: "length (concat rows) = B * N"
    and s1: "s1 = s\<lparr>rand := g,
                  psl := (psl s)(''image_feat_masked'' \<mapsto>
                                   FloatT (Tensor [B, N, D] (zero_masked (concat rows) D xs)),
                                 ''image_mask'' \<mapsto> BoolT (Tensor [B, N] (concat rows)),
                                 ''cls_prob'' \<mapsto> cp)\<rparr>"
    using common_masked [OF assms(1) _ assms(2,3,4,5,14)] by auto
  let ?ms = "concat rows"
  have mask: "psl s1 ''image_mask'' = Some (BoolT (Tensor [B, N] ?ms))"
    and feat: "psl s1 ''image_feat'' = Some (FloatT (Tensor [B, N, D] xs))"
    and fm: "psl s1 ''image_feat_masked'' = Some (FloatT (Tensor [B, N, D] (zero_masked ?ms D xs)))"
    and hd: "heads (model s1) ''mrfr'' = Some h"
    using s1 assms(2,7) by simp_all
  obtain cm fm' where
    a: "((psl s1)(tk \<mapsto> FloatT (Tensor [length (filter id ?ms), D] (select_blocks ?ms D xs)),
                     mk \<mapsto> cm)) ''image_feat_masked'' = Some fm'"
    and s2: "s2 = s1\<lparr>psl := (psl s1)
                  (tk \<mapsto> FloatT (Tensor [length (filter id ?ms), D] (select_blocks ?ms D xs)),
                   mk \<mapsto> cm, ''image_feat'' \<mapsto> fm')\<rparr>"
    using preprocess_mrfr_result [OF assms(15) mask feat assms(3) c assms(6) hd assms(8,9)]
    by blast
  from a fm assms(11,12) have "fm' = FloatT (Tensor [B, N, D] (zero_masked ?ms D xs))"
    by simp
  with s2 assms(10,13) have
    "psl s2 tk = Some (FloatT (Tensor [length (filter id ?ms), D] (select_blocks ?ms D xs)))"
    "psl s2 ''image_feat'' = Some (FloatT (Tensor [B, N, D] (zero_masked ?ms D xs)))"
    by simp_all
  with c mask feat fm show "\<exists>ms. length ms = B * N
            \<and> psl s1 ''image_mask'' = Some (BoolT (Tensor [B, N] ms))
            \<and> psl s1 ''image_feat'' = Some (FloatT (Tensor [B, N, D] xs))
            \<and> psl s1 ''image_feat_masked'' = Some (FloatT (Tensor [B, N, D] (zero_masked ms D xs)))
            \<and> psl s2 tk = Some (FloatT (Tensor [length (filter id ms), D] (select_blocks ms D xs)))
            \<and> psl s2 ''image_feat'' = Some (FloatT (Tensor [B, N, D] (zero_masked ms D xs)))"
    by blast
qed


theorem mrfr_targets_are_unmasked_features_witness:
  "psl (demo_state ''mrfr'') ''task'' = Some (Str ''mrfr'')
   \<and> psl (demo_state ''mrfr'') ''image_feat'' = Some (FloatT (Tensor [2, 2, 1] [1, 2, 3, 4]))
   \<and> heads (model (demo_state ''mrfr'')) ''mrfr'' = Some demo_head
   \<and> config demo_head ''mrfr_target_key'' = Some (Str ''mrfr_target'')
   \<and> config demo_head ''mrfr_mask_key'' = Some (Str ''mrfr_mask'')
   \<and> process_sample_list_for_pretraining (demo_state ''mrfr'')
       = (Inr (), snd (process_sample_list_for_pretraining (demo_state ''mrfr'')))
   \<and> preprocess_mrfr (snd (process_sample_list_for_pretraining (demo_state ''mrfr'')))
       = (Inr (), snd (preprocess_mrfr (snd (process_sample_list_for_pretraining (demo_state ''mrfr'')))))
   \<and> psl (snd (add_image_feat_masked (demo_state ''mrfr''))) ''image_feat''
       = Some (FloatT (Tensor [2, 2, 1] [1, 2, 3, 4]))
   \<and> (\<exists>ms. length ms = 2 * 2
        \<and> psl (snd (process_sample_list_for_pretraining (demo_state ''mrfr''))) ''image_mask''
            = Some (BoolT (Tensor [2, 2] ms))
        \<and> psl (snd (preprocess_mrfr (snd (process_sample_list_for_pretraining (demo_state ''mrfr'')))))
              ''mrfr_target''
            = Some (FloatT (Tensor [length (filter id ms), 1] (select_blocks ms 1 [1, 2, 3, 4])))
        \<and> psl (snd (preprocess_mrfr (snd (process_sample_list_for_pretraining (demo_state ''mrfr'')))))
              ''image_feat''
            = Some (FloatT (Tensor [2, 2, 1] (zero_masked ms 1 [1, 2, 3, 4]))))
   \<and> psl (snd (preprocess_mrfr (snd (process_sample_list_for_pretraining (demo_state ''mrfr'')))))
         ''mrfr_target''
       = Some (FloatT (Tensor [2, 1] [2, 4]))
   \<and> psl (snd (preprocess_mrfr (snd (process_sample_list_for_pretraining (demo_state ''mrfr'')))))
         ''image_feat''
       = Some (FloatT (Tensor [2, 2, 1] [1, 0, 3, 0]))"
proof -
  let ?s = "demo_state ''mrfr''"
  let ?s1 = "snd (process_sample_list_for_pretraining ?s)"
  let ?s2 = "snd (preprocess_mrfr ?s1)"
  have h1: "psl ?s ''task'' = Some (Str ''mrfr'')"
    and h2: "psl ?s ''image_feat'' = Some (FloatT (Tensor [2, 2, 1] [1, 2, 3, 4]))"
    and h7: "heads (model ?s) ''mrfr'' = Some demo_head"
    by (simp_all add: demo_state_def demo_batch_def demo_model_def)
  have h3: "length [1, 2, 3, 4 :: real] = 2 * 2 * 1" and h4: "(1::nat) \<le> 2" and h6: "(1::nat) \<le> 1"
    by simp_all
  have h8: "config demo_head ''mrfr_target_key'' = Some (Str ''mrfr_target'')"
    and h9: "config demo_head ''mrfr_mask_key'' = Some (Str ''mrfr_mask'')"
    by (simp_all add: demo_head_def)
  have k1: "''mrfr_target'' \<noteq> ''image_feat''" and k2: "''mrfr_target'' \<noteq> ''image_feat_masked''"
    and k3: "''mrfr_mask'' \<noteq> ''image_feat_masked''" and k4: "''mrfr_target'' \<noteq> ''mrfr_mask''"
    by simp_all
  have "fst (process_sample_list_for_pretraining ?s) = Inr ()" by code_simp
  then have r1: "process_sample_list_for_pretraining ?s = (Inr (), ?s1)"
    by (metis prod.collapse)
  have "fst (preprocess_mrfr ?s1) = Inr ()" by code_simp
  then have r2: "preprocess_mrfr ?s1 = (Inr (), ?s2)"
    by (metis prod.collapse)
  note inst = mrfr_targets_are_unmasked_features [OF h1 h2 h3 h4 h4 h6 h7 h8 h9 k1 k2 k3 k4 r1 r2]
  have v1: "psl ?s2 ''mrfr_target'' = Some (FloatT (Tensor [2, 1] [2, 4]))" by code_simp
  have v2: "psl ?s2 ''image_feat'' = Some (FloatT (Tensor [2, 2, 1] [1, 0, 3, 0]))" by code_simp
  from inst h1 h2 h7 h8 h9 r1 r2 v1 v2 show ?thesis
    by (simp only: h2) blast
qed

section \<open>The batch after the forward pass\<close>

lemma keeps_bind:
  assumes "keeps_batch m" and "\<And>v. keeps_batch (f v)"
  shows "keeps_batch (p_bind m f)"
  unfolding keeps_batch_def
proof
  fix s
  obtain x s1 where m: "m s = (x, s1)" by (cases "m s")
  then have p: "psl s1 = psl s"
    using assms(1) unfolding keeps_batch_def by (metis snd_conv)
  show "psl (snd (p_bind m f s)) = psl s"
  proof (cases x)
    case (Inl e)
    with m p show ?thesis by (simp add: p_bind_def)
  next
    case (Inr v)
    with m have "p_bind m f s = f v s1" by (simp add: p_bind_def)
    with p assms(2) [of v] show ?thesis by (simp add: keeps_batch_def)
  qed
qed

lemma keeps_get_item: "keeps_batch (get_item k)"
  by (simp add: keeps_batch_def get_item_def)

lemma keeps_call_uniter:
  "keeps_batch (call_uniter input_ids position_ids image_feat img_pos_feat attention_mask image_mask)"
  by (simp add: keeps_batch_def call_uniter_def split_beta)

lemma keeps_call_head: "keeps_batch (call_head task sequence_output)"
  by (simp add: keeps_batch_def call_head_def)

lemma keeps_encode_and_score: "keeps_batch (encode_and_score task)"
  unfolding encode_and_score_def
  by (intro keeps_bind keeps_get_item keeps_call_uniter keeps_call_head)
     (simp add: keeps_batch_def)

lemma forward_returns:
  assumes "UniterForPretraining_forward s = (Inr out, s')" and "psl s ''task'' = Some t"
  shows "\<exists>s1 s2. process_sample_list_for_pretraining s = (Inr (), s1)
           \<and> preprocess_task t s1 = (Inr (), s2) \<and> psl s' = psl s2"
proof -
  from assms(1) obtain s1 s2 t1 where
      r1: "process_sample_list_for_pretraining s = (Inr (), s1)"
      and t1: "psl s1 ''task'' = Some t1"
      and r2: "preprocess_task t1 s1 = (Inr (), s2)"
      and r3: "encode_and_score t1 s2 = (Inr out, s')"
    unfolding UniterForPretraining_forward_def by (auto simp: run_eqs)
  have "psl s1 ''task'' = psl s ''task''"
    using writes_process_sample_list r1 by (simp add: writes_only_def)
  with t1 assms(2) have "t1 = t" by simp
  moreover have "psl s' = psl s2"
    using keeps_encode_and_score [of t1] r3 unfolding keeps_batch_def by (metis snd_conv)
  ultimately show ?thesis using r1 r2 by blast
qed

lemma common_unmasked:
  assumes "psl s ''task'' = Some t" and "t \<noteq> Str ''mrc''" and "t \<noteq> Str ''mrfr''"
  shows "snd (process_sample_list_for_pretraining s) = s"
  using assms remove_mismatched_captions_state [of s]
  by (simp add: process_sample_list_for_pretraining_def p_bind_def get_item_def p_return_def)

lemma preprocess_mlm_result:
  assumes "preprocess_mlm s1 = (Inr (), s2)"
  shows "\<exists>labels v. psl s1 ''input_ids_masked'' = Some v
           \<and> s2 = s1\<lparr>psl := (psl s1)(''mlm_labels'' \<mapsto> labels, ''input_ids'' \<mapsto> v)\<rparr>"
  using assms unfolding preprocess_mlm_def
  by (auto simp: run_eqs)

lemma preprocess_mrc_result:
  assumes "preprocess_mrc s1 = (Inr (), s2)"
    and "heads (model s1) ''mrc'' = Some h"
    and "config h ''mrc_label_key'' = Some (Str lk)" and "config h ''mrc_mask_key'' = Some (Str mk)"
  shows "\<exists>labels cm fm.
           ((psl s1)(lk \<mapsto> labels, mk \<mapsto> cm)) ''image_feat_masked'' = Some fm
         \<and> s2 = s1\<lparr>psl := (psl s1)(lk \<mapsto> labels, mk \<mapsto> cm, ''image_feat'' \<mapsto> fm)\<rparr>"
proof -
  from assms obtain labels image_mask where
    "concat_mask_and_swap (Str mk) image_mask (s1\<lparr>psl := (psl s1)(lk \<mapsto> labels)\<rparr>) = (Inr (), s2)"
    unfolding preprocess_mrc_def by (auto simp: run_eqs)
  from concat_mask_and_swap_result [OF this] obtain cm fm where
    "((psl (s1\<lparr>psl := (psl s1)(lk \<mapsto> labels)\<rparr>))(mk \<mapsto> cm)) ''image_feat_masked'' = Some fm"
    "s2 = s1\<lparr>psl := (psl s1)(lk \<mapsto> labels)\<rparr>
            \<lparr>psl := (psl (s1\<lparr>psl := (psl s1)(lk \<mapsto> labels)\<rparr>))(mk \<mapsto> cm, ''image_feat'' \<mapsto> fm)\<rparr>"
    by blast
  then show ?thesis
    by (intro exI [of _ labels] exI [of _ cm] exI [of _ fm]) simp
qed

lemma preprocess_mrfr_writes:
  assumes "preprocess_mrfr s1 = (Inr (), s2)"
    and "heads (model s1) ''mrfr'' = Some h"
    and "config h ''mrfr_target_key'' = Some (Str tk)" and "config h ''mrfr_mask_key'' = Some (Str mk)"
  shows "\<exists>targets cm fm.
           ((psl s1)(tk \<mapsto> targets, mk \<mapsto> cm)) ''image_feat_masked'' = Some fm
         \<and> s2 = s1\<lparr>psl := (psl s1)(tk \<mapsto> targets, mk \<mapsto> cm, ''image_feat'' \<mapsto> fm)\<rparr>"
proof -
  from assms obtain targets image_mask where
    "concat_mask_and_swap (Str mk) image_mask (s1\<lparr>psl := (psl s1)(tk \<mapsto> targets)\<rparr>) = (Inr (), s2)"
    unfolding preprocess_mrfr_def by (auto simp: run_eqs)
  from concat_mask_and_swap_result [OF this] obtain cm fm where
    "((psl (s1\<lparr>psl := (psl s1)(tk \<mapsto> targets)\<rparr>))(mk \<mapsto> cm)) ''image_feat_masked'' = Some fm"
    "s2 = s1\<lparr>psl := (psl s1)(tk \<mapsto> targets)\<rparr>
            \<lparr>psl := (psl (s1\<lparr>psl := (psl s1)(tk \<mapsto> targets)\<rparr>))(mk \<mapsto> cm, ''image_feat'' \<mapsto> fm)\<rparr>"
    by blast
  then show ?thesis
    by (intro exI [of _ targets] exI [of _ cm] exI [of _ fm]) simp
qed


text \<open>
  C10. The forward pass works on the caller's batch. When it returns on a
  batch of the task \<open>mlm\<close>, the field \<open>input_ids\<close> of the batch holds what
  \<open>input_ids_masked\<close> held. When it returns on a batch of the task \<open>mrc\<close> or
  \<open>mrfr\<close> with region features \<open>xs\<close> of shape \<open>(B, N, D)\<close>, the field
  \<open>image_mask\<close> holds the mask just drawn from the random generator and
  \<open>image_feat\<close> holds \<open>xs\<close> with zeros at the masked positions. The keys
  configured for the head are taken not to be \<open>image_mask\<close> or
  \<open>image_feat_masked\<close>.
\<close>

theorem forward_mutates_batch:
  "(psl s ''task'' = Some (Str ''mlm'') \<and> UniterForPretraining_forward s = (Inr out, s') \<longrightarrow>
      (\<exists>v. psl s ''input_ids_masked'' = Some v \<and> psl s' ''input_ids'' = Some v
           \<and> psl s' ''input_ids_masked'' = Some v))
   \<and> (psl s ''task'' = Some (Str t)
      \<and> (t = ''mrc'' \<and> config h ''mrc_label_key'' = Some (Str k1)
            \<and> config h ''mrc_mask_key'' = Some (Str k2)
          \<or> t = ''mrfr'' \<and> config h ''mrfr_target_key'' = Some (Str k1)
            \<and> config h ''mrfr_mask_key'' = Some (Str k2))
      \<and> heads (model s) t = Some h
      \<and> k1 \<noteq> ''image_mask'' \<and> k1 \<noteq> ''image_feat_masked''
      \<and> k2 \<noteq> ''image_mask'' \<and> k2 \<noteq> ''image_feat_masked''
      \<and> psl s ''image_feat'' = Some (FloatT (Tensor [B, N, D] xs))
      \<and> length xs = B * N * D \<and> 1 \<le> B \<and> 1 \<le> N
      \<and> UniterForPretraining_forward s = (Inr out, s')
     \<longrightarrow> (\<exists>rows g.
            get_img_masks (case mask_probability (model s) of None \<Rightarrow> 0 | Some p \<Rightarrow> p) N B (rand s)
              = (Inr rows, g)
          \<and> psl s' ''image_mask'' = Some (BoolT (Tensor [B, N] (concat rows)))
          \<and> psl s' ''image_feat''
              = Some (FloatT (Tensor [B, N, D] (zero_masked (concat rows) D xs)))))"
proof (intro conjI impI)
  assume a: "psl s ''task'' = Some (Str ''mlm'') \<and> UniterForPretraining_forward s = (Inr out, s')"
  then obtain s1 s2 where r1: "process_sample_list_for_pretraining s = (Inr (), s1)"
      and r2: "preprocess_task (Str ''mlm'') s1 = (Inr (), s2)" and p: "psl s' = psl s2"
    using forward_returns [of s out s' "Str ''mlm''"] by blast
  have "s1 = s"
    using common_unmasked [of s "Str ''mlm''"] a r1 by simp
  with r2 have "preprocess_mlm s = (Inr (), s2)"
    by (simp add: preprocess_task_def)
  then obtain labels v where "psl s ''input_ids_masked'' = Some v"
      "s2 = s\<lparr>psl := (psl s)(''mlm_labels'' \<mapsto> labels, ''input_ids'' \<mapsto> v)\<rparr>"
    using preprocess_mlm_result by blast
  with p show "\<exists>v. psl s ''input_ids_masked'' = Some v \<and> psl s' ''input_ids'' = Some v
           \<and> psl s' ''input_ids_masked'' = Some v"
    by simp
next
  assume a: "psl s ''task'' = Some (Str t)
      \<and> (t = ''mrc'' \<and> config h ''mrc_label_key'' = Some (Str k1)
            \<and> config h ''mrc_mask_key'' = Some (Str k2)
          \<or> t = ''mrfr'' \<and> config h ''mrfr_target_key'' = Some (Str k1)
            \<and> config h ''mrfr_mask_key'' = Some (Str k2))
      \<and> heads (model s) t = Some h
      \<and> k1 \<noteq> ''image_mask'' \<and> k1 \<noteq> ''image_feat_masked''
      \<and> k2 \<noteq> ''image_mask'' \<and> k2 \<noteq> ''image_feat_masked''
      \<and> psl s ''image_feat'' = Some (FloatT (Tensor [B, N, D] xs))
      \<and> length xs = B * N * D \<and> 1 \<le> B \<and> 1 \<le> N
      \<and> UniterForPretraining_forward s = (Inr out, s')"
  then have t: "t = ''mrc'' \<or> t = ''mrfr''" by blast
  from a obtain s1 s2 where r1: "process_sample_list_for_pretraining s = (Inr (), s1)"
      and r2: "preprocess_task (Str t) s1 = (Inr (), s2)" and p: "psl s' = psl s2"
    using forward_returns [of s out s' "Str t"] by blast
  from a t r1 obtain rows g cp where
      rows: "get_img_masks (case mask_probability (model s) of None \<Rightarrow> 0 | Some p \<Rightarrow> p) N B (rand s)
               = (Inr rows, g)"
      and s1: "s1 = s\<lparr>rand := g,
                  psl := (psl s)(''image_feat_masked'' \<mapsto>
                                   FloatT (Tensor [B, N, D] (zero_masked (concat rows) D xs)),
                                 ''image_mask'' \<mapsto> BoolT (Tensor [B, N] (concat rows)),
                                 ''cls_prob'' \<mapsto> cp)\<rparr>"
    using common_masked [of s t B N D xs s1] by blast
  have hd: "heads (model s1) t = Some h" using s1 a by simp
  have fm: "psl s1 ''image_feat_masked''
          = Some (FloatT (Tensor [B, N, D] (zero_masked (concat rows) D xs)))"
    and im: "psl s1 ''image_mask'' = Some (BoolT (Tensor [B, N] (concat rows)))"
    using s1 by simp_all
  have "\<exists>x cm fm'. ((psl s1)(k1 \<mapsto> x, k2 \<mapsto> cm)) ''image_feat_masked'' = Some fm'
         \<and> s2 = s1\<lparr>psl := (psl s1)(k1 \<mapsto> x, k2 \<mapsto> cm, ''image_feat'' \<mapsto> fm')\<rparr>"
  proof (cases "t = ''mrc''")
    case True
    with a r2 hd show ?thesis
      using preprocess_mrc_result [of s1 s2 h k1 k2] by (simp add: preprocess_task_def)
  next
    case False
    with t have "t = ''mrfr''" by simp
    with a r2 hd show ?thesis
      using preprocess_mrfr_writes [of s1 s2 h k1 k2] by (simp add: preprocess_task_def)
  qed
  then obtain x cm fm' where
      f: "((psl s1)(k1 \<mapsto> x, k2 \<mapsto> cm)) ''image_feat_masked'' = Some fm'"
      and s2: "s2 = s1\<lparr>psl := (psl s1)(k1 \<mapsto> x, k2 \<mapsto> cm, ''image_feat'' \<mapsto> fm')\<rparr>"
    by blast
  from a have keys: "''image_feat_masked'' \<noteq> k1" "''image_feat_masked'' \<noteq> k2"
      "''image_mask'' \<noteq> k1" "''image_mask'' \<noteq> k2"
    by auto
  from f fm keys have "fm' = FloatT (Tensor [B, N, D] (zero_masked (concat rows) D xs))"
    by simp
  with s2 im keys p have "psl s' ''image_mask'' = Some (BoolT (Tensor [B, N] (concat rows)))"
    and "psl s' ''image_feat'' = Some (FloatT (Tensor [B, N, D] (zero_masked (concat rows) D xs)))"
    by simp_all
  with rows show "\<exists>rows g.
            get_img_masks (case mask_probability (model s) of None \<Rightarrow> 0 | Some p \<Rightarrow> p) N B (rand s)
              = (Inr rows, g)
          \<and> psl s' ''image_mask'' = Some (BoolT (Tensor [B, N] (concat rows)))
          \<and> psl s' ''image_feat''
              = Some (FloatT (Tensor [B, N, D] (zero_masked (concat rows) D xs)))"
    by blast
qed


theorem forward_mutates_batch_witness:
  "(psl (demo_state ''mlm'') ''task'' = Some (Str ''mlm'')
   \<and> psl (demo_state ''mlm'') ''input_ids'' = Some (LongT (Tensor [2, 1] [11, 12]))
   \<and> psl (demo_state ''mlm'') ''input_ids_masked'' = Some (LongT (Tensor [2, 1] [103, 12]))
   \<and> UniterForPretraining_forward (demo_state ''mlm'')
       = (Inr (Dict [(''losses'', Dict []),
                     (''scores'', FloatT (Tensor [2, 3, 1] [103, 2, 3, 12, 4, 5]))]),
          snd (UniterForPretraining_forward (demo_state ''mlm'')))
   \<and> psl (snd (UniterForPretraining_forward (demo_state ''mlm''))) ''input_ids''
       = Some (LongT (Tensor [2, 1] [103, 12]))
   \<and> psl (snd (UniterForPretraining_forward (demo_state ''mlm''))) ''input_ids_masked''
       = Some (LongT (Tensor [2, 1] [103, 12])))
   \<and> (psl (demo_state ''mrc'') ''image_mask'' = Some (LongT (Tensor [2, 2] [0, 0, 0, 0]))
   \<and> UniterForPretraining_forward (demo_state ''mrc'')
       = (Inr (Dict [(''losses'', Dict []),
                     (''scores'', FloatT (Tensor [2, 3, 1] [11, 2, 8, 12, 4, 8]))]),
          snd (UniterForPretraining_forward (demo_state ''mrc'')))
   \<and> (\<exists>rows g. get_img_masks 0 2 2 demo_rng = (Inr rows, g)
          \<and> psl (snd (UniterForPretraining_forward (demo_state ''mrc''))) ''image_mask''
              = Some (BoolT (Tensor [2, 2] (concat rows)))
          \<and> psl (snd (UniterForPretraining_forward (demo_state ''mrc''))) ''image_feat''
              = Some (FloatT (Tensor [2, 2, 1] (zero_masked (concat rows) 1 [1, 2, 3, 4]))))
   \<and> psl (snd (UniterForPretraining_forward (demo_state ''mrc''))) ''image_mask''
       = Some (BoolT (Tensor [2, 2] [False, True, False, True]))
   \<and> psl (snd (UniterForPretraining_forward (demo_state ''mrc''))) ''image_feat''
       = Some (FloatT (Tensor [2, 2, 1] [1, 0, 3, 0])))
   \<and> (psl (demo_state ''mrfr'') ''image_mask'' = Some (LongT (Tensor [2, 2] [0, 0, 0, 0]))
   \<and> UniterForPretraining_forward (demo_state ''mrfr'')
       = (Inr (Dict [(''losses'', Dict []),
                     (''scores'', FloatT (Tensor [2, 3, 1] [11, 2, 8, 12, 4, 8]))]),
          snd (UniterForPretraining_forward (demo_state ''mrfr'')))
   \<and> (\<exists>rows g. get_img_masks 0 2 2 demo_rng = (Inr rows, g)
          \<and> psl (snd (UniterForPretraining_forward (demo_state ''mrfr''))) ''image_mask''
              = Some (BoolT (Tensor [2, 2] (concat rows)))
          \<and> psl (snd (UniterForPretraining_forward (demo_state ''mrfr''))) ''image_feat''
              = Some (FloatT (Tensor [2, 2, 1] (zero_masked (concat rows) 1 [1, 2, 3, 4]))))
   \<and> psl (snd (UniterForPretraining_forward (demo_state ''mrfr''))) ''image_mask''
       = Some (BoolT (Tensor [2, 2] [False, True, False, True]))
   \<and> psl (snd (UniterForPretraining_forward (demo_state ''mrfr''))) ''image_feat''
       = Some (FloatT (Tensor [2, 2, 1] [1, 0, 3, 0])))"
proof -
  have mlm: "psl (demo_state ''mlm'') ''task'' = Some (Str ''mlm'')
   \<and> psl (demo_state ''mlm'') ''input_ids'' = Some (LongT (Tensor [2, 1] [11, 12]))
   \<and> psl (demo_state ''mlm'') ''input_ids_masked'' = Some (LongT (Tensor [2, 1] [103, 12]))
   \<and> UniterForPretraining_forward (demo_state ''mlm'')
       = (Inr (Dict [(''losses'', Dict []),
                     (''scores'', FloatT (Tensor [2, 3, 1] [103, 2, 3, 12, 4, 5]))]),
          snd (UniterForPretraining_forward (demo_state ''mlm'')))
   \<and> psl (snd (UniterForPretraining_forward (demo_state ''mlm''))) ''input_ids''
       = Some (LongT (Tensor [2, 1] [103, 12]))
   \<and> psl (snd (UniterForPretraining_forward (demo_state ''mlm''))) ''input_ids_masked''
       = Some (LongT (Tensor [2, 1] [103, 12]))"
  proof -
    let ?s = "demo_state ''mlm''"
    let ?out = "Dict [(''losses'', Dict []),
                      (''scores'', FloatT (Tensor [2, 3, 1] [103, 2, 3, 12, 4, 5]))]"
    have "fst (UniterForPretraining_forward ?s) = Inr ?out"
      by code_simp
    then have run: "UniterForPretraining_forward ?s = (Inr ?out, snd (UniterForPretraining_forward ?s))"
      by (metis prod.collapse)
    have t: "psl ?s ''task'' = Some (Str ''mlm'')"
      and i: "psl ?s ''input_ids'' = Some (LongT (Tensor [2, 1] [11, 12]))"
      and m: "psl ?s ''input_ids_masked'' = Some (LongT (Tensor [2, 1] [103, 12]))"
      by (simp_all add: demo_state_def demo_batch_def)
    from forward_mutates_batch
      [where s = ?s and s' = "snd (UniterForPretraining_forward ?s)" and out = ?out,
       THEN conjunct1, THEN mp, OF conjI [OF t run]]
    obtain v where "psl ?s ''input_ids_masked'' = Some v"
        and v1: "psl (snd (UniterForPretraining_forward ?s)) ''input_ids'' = Some v"
        and v2: "psl (snd (UniterForPretraining_forward ?s)) ''input_ids_masked'' = Some v"
      by (elim exE conjE)
    with m have "v = LongT (Tensor [2, 1] [103, 12])" by (simp only: option.inject)
    with v1 v2 have w1: "psl (snd (UniterForPretraining_forward ?s)) ''input_ids''
            = Some (LongT (Tensor [2, 1] [103, 12]))"
        and w2: "psl (snd (UniterForPretraining_forward ?s)) ''input_ids_masked''
            = Some (LongT (Tensor [2, 1] [103, 12]))"
      by (simp_all only:)
    show ?thesis
      by (intro conjI) (fact t i m run w1 w2)+
  qed
  have mrc: "psl (demo_state ''mrc'') ''image_mask'' = Some (LongT (Tensor [2, 2] [0, 0, 0, 0]))
   \<and> UniterForPretraining_forward (demo_state ''mrc'')
       = (Inr (Dict [(''losses'', Dict []),
                     (''scores'', FloatT (Tensor [2, 3, 1] [11, 2, 8, 12, 4, 8]))]),
          snd (UniterForPretraining_forward (demo_state ''mrc'')))
   \<and> (\<exists>rows g. get_img_masks 0 2 2 demo_rng = (Inr rows, g)
          \<and> psl (snd (UniterForPretraining_forward (demo_state ''mrc''))) ''image_mask''
              = Some (BoolT (Tensor [2, 2] (concat rows)))
          \<and> psl (snd (UniterForPretraining_forward (demo_state ''mrc''))) ''image_feat''
              = Some (FloatT (Tensor [2, 2, 1] (zero_masked (concat rows) 1 [1, 2, 3, 4]))))
   \<and> psl (snd (UniterForPretraining_forward (demo_state ''mrc''))) ''image_mask''
       = Some (BoolT (Tensor [2, 2] [False, True, False, True]))
   \<and> psl (snd (UniterForPretraining_forward (demo_state ''mrc''))) ''image_feat''
       = Some (FloatT (Tensor [2, 2, 1] [1, 0, 3, 0]))"
  proof -
    let ?s = "demo_state ''mrc''"
    let ?out = "Dict [(''losses'', Dict []),
                      (''scores'', FloatT (Tensor [2, 3, 1] [11, 2, 8, 12, 4, 8]))]"
    have "fst (UniterForPretraining_forward ?s) = Inr ?out"
      by code_simp
    then have run: "UniterForPretraining_forward ?s = (Inr ?out, snd (UniterForPretraining_forward ?s))"
      by (metis prod.collapse)
    have a1: "psl ?s ''task'' = Some (Str ''mrc'')"
      and a3: "heads (model ?s) ''mrc'' = Some demo_head"
      and a8: "psl ?s ''image_feat'' = Some (FloatT (Tensor [2, 2, 1] [1, 2, 3, 4]))"
      and b: "psl ?s ''image_mask'' = Some (LongT (Tensor [2, 2] [0, 0, 0, 0]))"
      by (simp_all add: demo_state_def demo_batch_def demo_model_def)
    have a2: "''mrc'' = ''mrc'' \<and> config demo_head ''mrc_label_key'' = Some (Str ''mrc_label'')
            \<and> config demo_head ''mrc_mask_key'' = Some (Str ''mrc_mask'')
          \<or> ''mrc'' = ''mrfr'' \<and> config demo_head ''mrfr_target_key'' = Some (Str ''mrc_label'')
            \<and> config demo_head ''mrfr_mask_key'' = Some (Str ''mrc_mask'')"
      by (simp add: demo_head_def)
    have a4: "''mrc_label'' \<noteq> ''image_mask''" and a5: "''mrc_label'' \<noteq> ''image_feat_masked''"
      and a6: "''mrc_mask'' \<noteq> ''image_mask''" and a7: "''mrc_mask'' \<noteq> ''image_feat_masked''"
      and a9: "length [1, 2, 3, 4 :: real] = 2 * 2 * 1" and a10: "(1::nat) \<le> 2"
      by simp_all
    have p: "(case mask_probability (model ?s) of None \<Rightarrow> 0 | Some p \<Rightarrow> p) = 0"
      and g: "rand ?s = demo_rng"
      by (simp_all add: demo_state_def demo_model_def)
    note inst = forward_mutates_batch
      [where s = ?s and t = "''mrc''" and h = demo_head and ?k1.0 = "''mrc_label''"
         and ?k2.0 = "''mrc_mask''" and B = 2 and N = 2 and D = 1 and xs = "[1, 2, 3, 4]"
         and s' = "snd (UniterForPretraining_forward ?s)" and out = ?out,
       THEN conjunct2, THEN mp]
    have ex: "\<exists>rows g. get_img_masks 0 2 2 demo_rng = (Inr rows, g)
          \<and> psl (snd (UniterForPretraining_forward ?s)) ''image_mask''
              = Some (BoolT (Tensor [2, 2] (concat rows)))
          \<and> psl (snd (UniterForPretraining_forward ?s)) ''image_feat''
              = Some (FloatT (Tensor [2, 2, 1] (zero_masked (concat rows) 1 [1, 2, 3, 4])))"
      using inst [OF conjI [OF a1 conjI [OF a2 conjI [OF a3 conjI [OF a4 conjI [OF a5
              conjI [OF a6 conjI [OF a7 conjI [OF a8 conjI [OF a9 conjI [OF a10
              conjI [OF a10 run]]]]]]]]]]]]
      unfolding p g .
    have v1: "psl (snd (UniterForPretraining_forward ?s)) ''image_mask''
        = Some (BoolT (Tensor [2, 2] [False, True, False, True]))"
      by code_simp
    have v2: "psl (snd (UniterForPretraining_forward ?s)) ''image_feat''
        = Some (FloatT (Tensor [2, 2, 1] [1, 0, 3, 0]))"
      by code_simp
    show ?thesis
      by (intro conjI) (fact b run ex v1 v2)+
  qed
  have mrfr: "psl (demo_state ''mrfr'') ''image_mask'' = Some (LongT (Tensor [2, 2] [0, 0, 0, 0]))
   \<and> UniterForPretraining_forward (demo_state ''mrfr'')
       = (Inr (Dict [(''losses'', Dict []),
                     (''scores'', FloatT (Tensor [2, 3, 1] [11, 2, 8, 12, 4, 8]))]),
          snd (UniterForPretraining_forward (demo_state ''mrfr'')))
   \<and> (\<exists>rows g. get_img_masks 0 2 2 demo_rng = (Inr rows, g)
          \<and> psl (snd (UniterForPretraining_forward (demo_state ''mrfr''))) ''image_mask''
              = Some (BoolT (Tensor [2, 2] (concat rows)))
          \<and> psl (snd (UniterForPretraining_forward (demo_state ''mrfr''))) ''image_feat''
              = Some (FloatT (Tensor [2, 2, 1] (zero_masked (concat rows) 1 [1, 2, 3, 4]))))
   \<and> psl (snd (UniterForPretraining_forward (demo_state ''mrfr''))) ''image_mask''
       = Some (BoolT (Tensor [2, 2] [False, True, False, True]))
   \<and> psl (snd (UniterForPretraining_forward (demo_state ''mrfr''))) ''image_feat''
       = Some (FloatT (Tensor [2, 2, 1] [1, 0, 3, 0]))"
  proof -
    let ?s = "demo_state ''mrfr''"
    let ?out = "Dict [(''losses'', Dict []),
                      (''scores'', FloatT (Tensor [2, 3, 1] [11, 2, 8, 12, 4, 8]))]"
    have "fst (UniterForPretraining_forward ?s) = Inr ?out"
      by code_simp
    then have run: "UniterForPretraining_forward ?s = (Inr ?out, snd (UniterForPretraining_forward ?s))"
      by (metis prod.collapse)
    have a1: "psl ?s ''task'' = Some (Str ''mrfr'')"
      and a3: "heads (model ?s) ''mrfr'' = Some demo_head"
      and a8: "psl ?s ''image_feat'' = Some (FloatT (Tensor [2, 2, 1] [1, 2, 3, 4]))"
      and b: "psl ?s ''image_mask'' = Some (LongT (Tensor [2, 2] [0, 0, 0, 0]))"
      by (simp_all add: demo_state_def demo_batch_def demo_model_def)
    have a2: "''mrfr'' = ''mrc'' \<and> config demo_head ''mrc_label_key'' = Some (Str ''mrfr_target'')
            \<and> config demo_head ''mrc_mask_key'' = Some (Str ''mrfr_mask'')
          \<or> ''mrfr'' = ''mrfr'' \<and> config demo_head ''mrfr_target_key'' = Some (Str ''mrfr_target'')
            \<and> config demo_head ''mrfr_mask_key'' = Some (Str ''mrfr_mask'')"
      by (simp add: demo_head_def)
    have a4: "''mrfr_target'' \<noteq> ''image_mask''" and a5: "''mrfr_target'' \<noteq> ''image_feat_masked''"
      and a6: "''mrfr_mask'' \<noteq> ''image_mask''" and a7: "''mrfr_mask'' \<noteq> ''image_feat_masked''"
      and a9: "length [1, 2, 3, 4 :: real] = 2 * 2 * 1" and a10: "(1::nat) \<le> 2"
      by simp_all
    have p: "(case mask_probability (model ?s) of None \<Rightarrow> 0 | Some p \<Rightarrow> p) = 0"
      and g: "rand ?s = demo_rng"
      by (simp_all add: demo_state_def demo_model_def)
    note inst = forward_mutates_batch
      [where s = ?s and t = "''mrfr''" and h = demo_head and ?k1.0 = "''mrfr_target''"
         and ?k2.0 = "''mrfr_mask''" and B = 2 and N = 2 and D = 1 and xs = "[1, 2, 3, 4]"
         and s' = "snd (UniterForPretraining_forward ?s)" and out = ?out,
       THEN conjunct2, THEN mp]
    have ex: "\<exists>rows g. get_img_masks 0 2 2 demo_rng = (Inr rows, g)
          \<and> psl (snd (UniterForPretraining_forward ?s)) ''image_mask''
              = Some (BoolT (Tensor [2, 2] (concat rows)))
          \<and> psl (snd (UniterForPretraining_forward ?s)) ''image_feat''
              = Some (FloatT (Tensor [2, 2, 1] (zero_masked (concat rows) 1 [1, 2, 3, 4])))"
      using inst [OF conjI [OF a1 conjI [OF a2 conjI [OF a3 conjI [OF a4 conjI [OF a5
              conjI [OF a6 conjI [OF a7 conjI [OF a8 conjI [OF a9 conjI [OF a10
              conjI [OF a10 run]]]]]]]]]]]]
      unfolding p g .
    have v1: "psl (snd (UniterForPretraining_forward ?s)) ''image_mask''
        = Some (BoolT (Tensor [2, 2] [False, True, False, True]))"
      by code_simp
    have v2: "psl (snd (UniterForPretraining_forward ?s)) ''image_feat''
        = Some (FloatT (Tensor [2, 2, 1] [1, 0, 3, 0]))"
      by code_simp
    show ?thesis
      by (intro conjI) (fact b run ex v1 v2)+
  qed
  show ?thesis
    by (intro conjI mlm mrc mrfr)
qed

end
